theory Spec2Isabelle
  imports Main
begin

section \<open>Data model\<close>

text \<open>
  The optimist's block-proposed handler (\<^verbatim>\<open>blockProposedEventHandler\<close>) and its challenge
  service (\<^verbatim>\<open>createChallenge\<close>, \<^verbatim>\<open>commitToChallenge\<close>, \<^verbatim>\<open>revealChallenge\<close>) are embedded
  as state-passing functions. Hashes, addresses and hex strings are \<open>string\<close>s; JavaScript
  numbers that hold block numbers and indices are \<open>int\<close>s; \<^verbatim>\<open>null\<close> and \<^verbatim>\<open>undefined\<close> are
  \<open>None\<close>; a thrown value is the \<open>Inl\<close> of a result.
\<close>

type_synonym bytes32 = string

record block =
  proposer :: string
  root :: bytes32
  leafCount :: int
  blockNumberL2 :: int
  blockHash :: bytes32
  transactionHashes :: "bytes32 list"

text \<open>
  \<^verbatim>\<open>saveBlock({ blockNumber: currentBlockCount, transactionHashL1, ...block })\<close>: a stored block
  is the block plus its layer-1 reference. \<open>blockNumber = None\<close> is the \<^verbatim>\<open>null\<close> that marks a
  block removed from the layer-1 chain.
\<close>

record stored_block = block +
  blockNumber :: "int option"
  transactionHashL1 :: bytes32

record transaction =
  transactionHash :: bytes32
  transactionType :: string
  commitments :: "bytes32 list"
  nullifiers :: "bytes32 list"
  historicRootBlockNumberL2 :: "int list"
  proof_data :: string

text \<open>A stored nullifier: \<^verbatim>\<open>sNull.hash\<close> and \<^verbatim>\<open>n.blockHash\<close> (null while unstamped).\<close>

record nullifier =
  hash :: bytes32
  stampedBlockHash :: "bytes32 option"

text \<open>The \<^verbatim>\<open>Timber\<close> value: root, frontier and leaf count of the commitment tree.\<close>

record timber =
  timber_root :: bytes32
  frontier :: "bytes32 list"
  timber_leafCount :: nat

text \<open>\<^verbatim>\<open>err.metadata\<close> of a \<^verbatim>\<open>BlockError\<close>, as \<^verbatim>\<open>createChallenge\<close> destructures it.\<close>

record metadata =
  transactionHashIndex :: int
  metadata_transactionHash :: bytes32

text \<open>
  Thrown values. \<open>BlockError code metadata\<close> is the class the handler tests with
  \<^verbatim>\<open>instanceof\<close>; \<open>Error\<close>, \<open>TypeError\<close> and \<open>RangeError\<close> are the built-in classes.
  \<open>FatalInconsistency\<close> and \<open>TreeInconsistencyError\<close> are raised only by the removal
  handler, which is modelled from the specification further down.
\<close>

datatype js_error =
    BlockError int metadata
  | Error string
  | TypeError string
  | RangeError string
  | FatalInconsistency
  | TreeInconsistencyError

type_synonym 'a result = "js_error + 'a"

text \<open>
  The unsigned transactions that \<^verbatim>\<open>challengeContractInstance.methods.<m>(...).encodeABI()\<close>
  returns are kept symbolic: the method and its arguments. \<^verbatim>\<open>Block.buildSolidityStruct\<close> keeps
  the block's own fields (\<open>block.truncate\<close> of a stored block) and
  \<^verbatim>\<open>Transaction.buildSolidityStruct\<close> keeps the transaction. An index that the source leaves
  \<^verbatim>\<open>undefined\<close> is \<open>None\<close>. The salt is the value drawn from \<^verbatim>\<open>rand(32)\<close>.
\<close>

datatype txdata =
    ChallengeNewRootCorrect block "transaction list" "bytes32 list" block "transaction list" nat
  | ChallengeNoDuplicateTransaction block block "transaction list" "transaction list" int int nat
  | ChallengeTransactionType block "transaction list" int nat
  | ChallengeHistoricRoot block "transaction list" int nat
  | ChallengeProofVerificationDeposit block "transaction list" int string nat
  | ChallengeProofVerificationDouble block "transaction list" int block block
      "transaction list" "transaction list" string nat
  | ChallengeProofVerificationSingle block "transaction list" int block "transaction list"
      string nat
  | ChallengeNullifier block "transaction list" "int option" "int option"
      block "transaction list" "int option" "int option" nat
  | ChallengeLeafCountCorrect block "transaction list" block "transaction list" nat

text \<open>
  \<^verbatim>\<open>web3.utils.soliditySha3({ t: 'bytes', v: txDataToSign })\<close>, symbolic and therefore
  collision-free. \<open>None\<close> is the \<^verbatim>\<open>undefined\<close> that the switch of \<^verbatim>\<open>createChallenge\<close> leaves
  when no case builds a transaction; the library throws a \<^verbatim>\<open>TypeError\<close> on it, so no hash of
  \<open>None\<close> is ever computed by \<^verbatim>\<open>commitToChallenge\<close>.
\<close>

datatype commit_hash = SoliditySha3 "txdata option"

text \<open>\<^verbatim>\<open>challengeContractInstance.methods.commitToChallenge(commitHash).encodeABI()\<close>.\<close>

datatype commit_tx = CommitToChallenge commit_hash

text \<open>The two envelopes written to the websocket: \<^verbatim>\<open>type: 'commit'\<close> and \<^verbatim>\<open>type: 'challenge'\<close>.\<close>

datatype ws_message =
    Commit commit_tx
  | Challenge "txdata option"

text \<open>
  Every effect the code has on the outside world is appended to a trace, in program order:
  database writes, the call of the checker, websocket sends, timer waits, log lines, and the
  observation of a commit-mined confirmation.
\<close>

datatype event =
    SaveBlock bytes32
  | StampNullifiers "bytes32 list" bytes32
  | RemoveTransactionsFromMemPool bytes32
  | SaveTree int int timber
  | CheckBlock bytes32
  | SaveCommit commit_hash "txdata option"
  | WsSend ws_message
  | SetTimeout nat
  | Log string string
  | CommitMined commit_hash

text \<open>
  The state of the optimist process: the collections of its database, the module variables
  \<^verbatim>\<open>makeChallenges\<close> and \<^verbatim>\<open>ws\<close> of the challenge service, and the trace.

  \<open>ws_readyState\<close> lists what the successive evaluations of
  \<^verbatim>\<open>!ws || ws.readyState !== WebSocket.OPEN\<close> will find (\<open>True\<close> for an open socket); the
  list may change arbitrarily from one evaluation to the next, and an exhausted list is a
  socket that stays closed. \<open>rand_next\<close> is the next value of \<^verbatim>\<open>rand(32)\<close>: every draw is
  fresh. \<open>unhandled\<close> collects the rejections of promises that nobody awaits.
\<close>

record state =
  blocks :: "stored_block list"
  transactions_db :: "transaction list"
  mempool_removed :: "bytes32 list"
  nullifiers_db :: "nullifier list"
  trees :: "(int \<times> int \<times> timber) list"
  commits :: "(commit_hash \<times> txdata option) list"
  makeChallenges :: bool
  ws_readyState :: "bool list"
  rand_next :: nat
  unhandled :: "js_error list"
  trace :: "event list"

section \<open>The challenge service\<close>

definition logger :: "string \<Rightarrow> string \<Rightarrow> state \<Rightarrow> state" where
  "logger level msg s = s\<lparr>trace := trace s @ [Log level msg]\<rparr>"

definition startMakingChallenges :: "state \<Rightarrow> state" where
  "startMakingChallenges s = (logger ''info'' ''Challenges ON'' s)\<lparr>makeChallenges := True\<rparr>"

definition stopMakingChallenges :: "state \<Rightarrow> state" where
  "stopMakingChallenges s = (logger ''info'' ''Challenges OFF'' s)\<lparr>makeChallenges := False\<rparr>"

text \<open>
  Modelled from the spec: \<^verbatim>\<open>saveCommit\<close> of \<^verbatim>\<open>services/database.mjs\<close>, which is not among the
  sources. The coordinator appends challenge records \<open>{commitHash \<rightarrow> payload}\<close> to the store.
\<close>

definition saveCommit :: "commit_hash \<Rightarrow> txdata option \<Rightarrow> state \<Rightarrow> state" where
  "saveCommit commitHash txDataToSign s =
     s\<lparr>commits := commits s @ [(commitHash, txDataToSign)],
       trace := trace s @ [SaveCommit commitHash txDataToSign]\<rparr>"

text \<open>One evaluation of the loop condition: is the socket there and open?\<close>

definition wsOpen :: "state \<Rightarrow> bool \<times> state" where
  "wsOpen s = (case ws_readyState s of
                 [] \<Rightarrow> (False, s)
               | r # rs \<Rightarrow> (r, s\<lparr>ws_readyState := rs\<rparr>))"

definition setTimeout :: "nat \<Rightarrow> state \<Rightarrow> state" where
  "setTimeout ms s = s\<lparr>trace := trace s @ [SetTimeout ms]\<rparr>"

definition ws_send :: "ws_message \<Rightarrow> state \<Rightarrow> state" where
  "ws_send m s = s\<lparr>trace := trace s @ [WsSend m]\<rparr>"

text \<open>
  The polling loop that \<^verbatim>\<open>commitToChallenge\<close> and \<^verbatim>\<open>revealChallenge\<close> share word for word,
  apart from the warning and the error message:
  \<^verbatim>\<open>
  let tryCount = 0;
  while (!ws || ws.readyState !== WebSocket.OPEN) {
    await new Promise(resolve => setTimeout(resolve, 3000));
    logger.warn(...);
    if (tryCount++ > 100) throw new Error(...);
  }
  \<close>
  \<open>tryCount++ > 100\<close> compares the value before the increment.
\<close>

function waitForWebsocket ::
  "string \<Rightarrow> string \<Rightarrow> nat \<Rightarrow> state \<Rightarrow> unit result \<times> state" where
  "waitForWebsocket warning failure tryCount s =
     (case wsOpen s of
        (True, s1) \<Rightarrow> (Inr (), s1)
      | (False, s1) \<Rightarrow>
          (let s2 = setTimeout 3000 s1;
               s3 = logger ''warn'' warning s2
           in if tryCount > 100 then (Inl (Error failure), s3)
              else waitForWebsocket warning failure (tryCount + 1) s3))"
  by pat_completeness auto
termination
  by (relation "measure (\<lambda>(warning, failure, tryCount, s). 102 - tryCount)") auto

declare waitForWebsocket.simps [simp del]

definition commit_warning :: string where
  "commit_warning =
     ''Websocket to challenger is closed for commit.  Waiting for challenger to reconnect''"

definition reveal_warning :: string where
  "reveal_warning =
     ''Websocket to challenger is closed for reveal.  Waiting for challenger to reconnect''"

text \<open>
  \<^verbatim>\<open>commitToChallenge(txDataToSign)\<close>. Its first statement is
  \<^verbatim>\<open>web3.utils.soliditySha3({ t: 'bytes', v: txDataToSign })\<close>, which reads a property of the
  value: on \<^verbatim>\<open>undefined\<close> it throws a \<^verbatim>\<open>TypeError\<close> before the log line, \<^verbatim>\<open>saveCommit\<close>, the
  polling loop and the send.
\<close>

definition commitToChallenge :: "txdata option \<Rightarrow> state \<Rightarrow> unit result \<times> state" where
  "commitToChallenge txDataToSign s =
     (case txDataToSign of
        None \<Rightarrow> (Inl (TypeError ''Cannot read properties of undefined (reading replace)''), s)
      | Some tx \<Rightarrow>
          (let commitHash = SoliditySha3 txDataToSign;
               commitToSign = CommitToChallenge commitHash;
               s1 = logger ''debug''
                      ''raw transaction for committing to challenge has been sent to be signed and submitted''
                      s;
               s2 = saveCommit commitHash txDataToSign s1
           in case waitForWebsocket commit_warning ''Websocket to challenger has failed'' 0 s2 of
                (Inl e, s3) \<Rightarrow> (Inl e, s3)
              | (Inr u, s3) \<Rightarrow> (Inr (), ws_send (Commit commitToSign) s3)))"

definition revealChallenge :: "txdata option \<Rightarrow> state \<Rightarrow> unit result \<times> state" where
  "revealChallenge txDataToSign s =
     (let s1 = logger ''debug''
                 ''raw challenge transaction has been sent to be signed and submitted'' s
      in case waitForWebsocket reveal_warning ''Websocket to $challenger has failed'' 0 s1 of
           (Inl e, s2) \<Rightarrow> (Inl e, s2)
         | (Inr u, s2) \<Rightarrow> (Inr (), ws_send (Challenge txDataToSign) s2))"

section \<open>The store\<close>

text \<open>
  \<^verbatim>\<open>services/database.mjs\<close>, \<^verbatim>\<open>classes/timber.mjs\<close> and the configuration are not among the
  sources. Their functions are modelled from the specification's abstract keyed store
  (section 6) over the collections of \<open>state\<close>.
\<close>

text \<open>Modelled from the spec: the configuration's \<^verbatim>\<open>ZERO\<close>, the fixed empty-leaf constant;
  the handler spells the same value out as a literal when it filters nullifiers.\<close>

definition ZERO :: bytes32 where
  "ZERO = ''0x'' @ replicate 64 (CHR ''0'')"

text \<open>Modelled from the spec: the configuration's \<^verbatim>\<open>TIMBER_HEIGHT\<close>, the fixed height H of the
  commitment tree.\<close>

definition TIMBER_HEIGHT :: nat where
  "TIMBER_HEIGHT = 32"

text \<open>Modelled from the spec: \<^verbatim>\<open>getBlockByBlockNumberL2\<close> (getBlockByL2Number), \<^verbatim>\<open>null\<close> when
  no stored block has the number.\<close>

definition getBlockByBlockNumberL2 :: "int \<Rightarrow> state \<Rightarrow> stored_block option" where
  "getBlockByBlockNumberL2 n s = find (\<lambda>b. blockNumberL2 b = n) (blocks s)"

text \<open>Modelled from the spec: \<^verbatim>\<open>getBlockByBlockHash\<close> (getBlockByHash).\<close>

definition getBlockByBlockHash :: "bytes32 \<Rightarrow> state \<Rightarrow> stored_block option" where
  "getBlockByBlockHash h s = find (\<lambda>b. blockHash b = h) (blocks s)"

text \<open>Modelled from the spec: \<^verbatim>\<open>getBlockByTransactionHash\<close> (getBlockContainingTransaction);
  the source filters its result, so it is the array of all stored blocks with the
  transaction.\<close>

definition getBlockByTransactionHash :: "bytes32 \<Rightarrow> state \<Rightarrow> stored_block list" where
  "getBlockByTransactionHash th s = filter (\<lambda>b. th \<in> set (transactionHashes b)) (blocks s)"

text \<open>Modelled from the spec: \<^verbatim>\<open>getTransactionsByTransactionHashes\<close> (getTransactionsByHashes):
  the stored transactions with these hashes, in the order of the hashes.\<close>

definition getTransactionsByTransactionHashes :: "bytes32 list \<Rightarrow> state \<Rightarrow> transaction list" where
  "getTransactionsByTransactionHashes hs s =
     List.map_filter (\<lambda>h. find (\<lambda>t. transactionHash t = h) (transactions_db s)) hs"

text \<open>Modelled from the spec: \<^verbatim>\<open>saveBlock\<close> (upsertBlock): the record with this block hash is
  replaced, or the block is added.\<close>

definition saveBlock :: "stored_block \<Rightarrow> state \<Rightarrow> state" where
  "saveBlock b s =
     s\<lparr>blocks := (if list_ex (\<lambda>b'. blockHash b' = blockHash b) (blocks s)
                   then map (\<lambda>b'. if blockHash b' = blockHash b then b else b') (blocks s)
                   else blocks s @ [b]),
       trace := trace s @ [SaveBlock (blockHash b)]\<rparr>"

text \<open>Modelled from the spec: \<^verbatim>\<open>stampNullifiers\<close>. The handler's comment reads "Update the
  nullifiers we have stored, with the blockhash": the stored records of these nullifiers
  that no block has stamped are stamped with the block hash. A nullifier is stamped by at
  most one block, so a record that another block stamped keeps its stamp.\<close>

definition stampNullifiers :: "bytes32 list \<Rightarrow> bytes32 \<Rightarrow> state \<Rightarrow> state" where
  "stampNullifiers ns h s =
     s\<lparr>nullifiers_db :=
         map (\<lambda>n. if hash n \<in> set ns \<and> stampedBlockHash n = None
                  then n\<lparr>stampedBlockHash := Some h\<rparr> else n) (nullifiers_db s),
       trace := trace s @ [StampNullifiers ns h]\<rparr>"

text \<open>Modelled from the spec: \<^verbatim>\<open>unstampNullifiers\<close>, clearing the association for every
  nullifier stamped by the block.\<close>

definition unstampNullifiers :: "bytes32 \<Rightarrow> state \<Rightarrow> state" where
  "unstampNullifiers h s =
     s\<lparr>nullifiers_db :=
         map (\<lambda>n. if stampedBlockHash n = Some h then n\<lparr>stampedBlockHash := None\<rparr> else n)
           (nullifiers_db s)\<rparr>"

text \<open>Modelled from the spec: \<^verbatim>\<open>retrieveMinedNullifiers\<close>, the stored nullifiers that carry a
  block hash, in the order of the collection.\<close>

definition retrieveMinedNullifiers :: "state \<Rightarrow> nullifier list" where
  "retrieveMinedNullifiers s = filter (\<lambda>n. stampedBlockHash n \<noteq> None) (nullifiers_db s)"

text \<open>Modelled from the spec: \<^verbatim>\<open>removeTransactionsFromMemPool\<close>, marking the block's
  transactions as no longer available to the block assembler.\<close>

definition removeTransactionsFromMemPool :: "block \<Rightarrow> state \<Rightarrow> state" where
  "removeTransactionsFromMemPool b s =
     s\<lparr>mempool_removed := mempool_removed s @ transactionHashes b,
       trace := trace s @ [RemoveTransactionsFromMemPool (blockHash b)]\<rparr>"

text \<open>Modelled from the spec: the tree before any leaf, which \<^verbatim>\<open>getLatestTree\<close> yields while
  no tree is saved.\<close>

definition emptyTimber :: timber where
  "emptyTimber = \<lparr>timber_root = ZERO, frontier = [], timber_leafCount = 0\<rparr>"

text \<open>Modelled from the spec: \<^verbatim>\<open>getLatestTree\<close>. The engine keeps one snapshot per processed
  block; \<open>trees\<close> holds them newest first.\<close>

definition getLatestTree :: "state \<Rightarrow> timber" where
  "getLatestTree s = (case trees s of [] \<Rightarrow> emptyTimber | (bn, n, t) # rest \<Rightarrow> t)"

text \<open>Modelled from the spec: \<^verbatim>\<open>saveTree(blockNumber, blockNumberL2, timber)\<close>.\<close>

definition saveTree :: "int \<Rightarrow> int \<Rightarrow> timber \<Rightarrow> state \<Rightarrow> state" where
  "saveTree bn n t s =
     s\<lparr>trees := (bn, n, t) # trees s, trace := trace s @ [SaveTree bn n t]\<rparr>"

text \<open>Modelled from the spec: \<^verbatim>\<open>getTreeByRoot\<close>, \<^verbatim>\<open>null\<close> when no saved tree has the root.\<close>

definition getTreeByRoot :: "bytes32 \<Rightarrow> state \<Rightarrow> timber option" where
  "getTreeByRoot r s = find (\<lambda>t. timber_root t = r) (map (\<lambda>(bn, n, t). t) (trees s))"

text \<open>Modelled from the spec: \<^verbatim>\<open>Timber.statelessUpdate(tree, leaves)\<close>, which computes a new
  tree value without mutating its argument. The hashing
  \<open>append(orderedLeaves, priorLeafCount, priorFrontier) \<rightarrow> (newRoot, newFrontier)\<close>
  (\<^verbatim>\<open>updateNodes\<close> of the merkle-tree module) is a parameter.\<close>

type_synonym update_nodes = "bytes32 list \<Rightarrow> nat \<Rightarrow> bytes32 list \<Rightarrow> bytes32 \<times> bytes32 list"

definition statelessUpdate :: "update_nodes \<Rightarrow> timber \<Rightarrow> bytes32 list \<Rightarrow> timber" where
  "statelessUpdate updateNodes tree leaves =
     (case updateNodes leaves (timber_leafCount tree) (frontier tree) of
        (newRoot, newFrontier) \<Rightarrow>
          \<lparr>timber_root = newRoot, frontier = newFrontier,
           timber_leafCount = timber_leafCount tree + length leaves\<rparr>)"

section \<open>Building a challenge\<close>

text \<open>\<^verbatim>\<open>Array.prototype.findIndex\<close> and \<^verbatim>\<open>indexOf\<close>: the first position, or -1.\<close>

fun findIndex :: "('a \<Rightarrow> bool) \<Rightarrow> 'a list \<Rightarrow> int" where
  "findIndex P [] = -1"
| "findIndex P (x # xs) =
     (if P x then 0 else (let i = findIndex P xs in if i = -1 then -1 else i + 1))"

definition indexOf :: "'a list \<Rightarrow> 'a \<Rightarrow> int" where
  "indexOf xs x = findIndex (\<lambda>y. y = x) xs"

text \<open>\<^verbatim>\<open>xs[i]\<close> for a JavaScript number \<open>i\<close>: \<^verbatim>\<open>undefined\<close> out of range.\<close>

definition at_index :: "'a list \<Rightarrow> int \<Rightarrow> 'a option" where
  "at_index xs i = (if 0 \<le> i \<and> i < int (length xs) then Some (xs ! nat i) else None)"

text \<open>
  \<^verbatim>\<open>
  const [txIdx, nullifierIdx] = txs
    .map((tx, txIndex) => [txIndex, tx.nullifiers.findIndex(n0 => n0.toString() === n.hash)])
    .filter(idxs => idxs[1] >= 0)
    .flat(Infinity);
  \<close>
  The first transaction that holds the nullifier and the nullifier's position in it; both
  \<^verbatim>\<open>undefined\<close> when no transaction holds it.
\<close>

definition nullifierIndices :: "transaction list \<Rightarrow> bytes32 \<Rightarrow> int option \<times> int option" where
  "nullifierIndices txs h =
     (case filter (\<lambda>idxs. snd idxs \<ge> 0)
             (map (\<lambda>(txIndex, tx). (int txIndex, findIndex (\<lambda>n0. n0 = h) (nullifiers tx)))
                (enumerate 0 txs)) of
        [] \<Rightarrow> (None, None)
      | (i, j) # rest \<Rightarrow> (Some i, Some j))"

text \<open>
  The cases of \<^verbatim>\<open>switch (err.code)\<close>. Each reads the store and yields the value of
  \<^verbatim>\<open>txDataToSign\<close>, or what the case throws; the log lines of cases 0 and 2 are written by
  \<open>createChallenge_switch\<close> below.
\<close>

text \<open>Case 0: challenge of an incorrect root. \<^verbatim>\<open>if (priorPriorBlock === null)
  priorPriorBlock.root = ZERO\<close> sets a property of \<^verbatim>\<open>null\<close>, which throws a TypeError. The
  message of the \<^verbatim>\<open>Error\<close> for a missing prior block is kept without the block number that the
  source appends to it, and the messages of the TypeErrors are those of the runtime.\<close>

definition createChallenge_case0 ::
  "block \<Rightarrow> transaction list \<Rightarrow> nat \<Rightarrow> state \<Rightarrow> txdata option result" where
  "createChallenge_case0 block transactions salt s =
     (case getBlockByBlockNumberL2 (blockNumberL2 block - 1) s of
        None \<Rightarrow> Inl (Error ''Could not find prior block with block number'')
      | Some priorBlock \<Rightarrow>
          (let priorBlockTransactions =
                 getTransactionsByTransactionHashes (transactionHashes priorBlock) s in
           case getBlockByBlockNumberL2 (blockNumberL2 block - 2) s of
             None \<Rightarrow> Inl (TypeError ''Cannot set properties of null (setting root)'')
           | Some priorPriorBlock \<Rightarrow>
               (case getTreeByRoot (root priorPriorBlock) s of
                  None \<Rightarrow> Inl (TypeError ''Cannot read properties of null (reading frontier)'')
                | Some priorPriorTree \<Rightarrow>
                    (if length (frontier priorPriorTree) > TIMBER_HEIGHT + 1
                     then Inl (RangeError ''Invalid array length'')
                     else
                       (let frontierToValidatePreviousBlock =
                              frontier priorPriorTree @
                              replicate (TIMBER_HEIGHT + 1 - length (frontier priorPriorTree)) ZERO
                        in Inr (Some (ChallengeNewRootCorrect
                                        (block.truncate priorBlock) priorBlockTransactions
                                        frontierToValidatePreviousBlock
                                        block transactions salt)))))))"

text \<open>Case 1: duplicate transaction. \<^verbatim>\<open>const [block2] = (...).filter(...)\<close> leaves \<^verbatim>\<open>block2\<close>
  undefined when no other block holds the transaction.\<close>

definition createChallenge_case1 ::
  "block \<Rightarrow> transaction list \<Rightarrow> metadata \<Rightarrow> nat \<Rightarrow> state \<Rightarrow> txdata option result" where
  "createChallenge_case1 block transactions md salt s =
     (let transactionIndex1 = transactionHashIndex md;
          transactionHash1 = metadata_transactionHash md in
      case filter (\<lambda>b. blockHash b \<noteq> blockHash block)
             (getBlockByTransactionHash transactionHash1 s) of
        [] \<Rightarrow> Inl (TypeError ''Cannot read properties of undefined (reading transactionHashes)'')
      | block2 # rest \<Rightarrow>
          (let transactions2 = getTransactionsByTransactionHashes (transactionHashes block2) s;
               transactionIndex2 = indexOf (map transactionHash transactions2) transactionHash1
           in if transactionIndex2 = -1
              then Inl (Error ''Could not find duplicate transaction'')
              else Inr (Some (ChallengeNoDuplicateTransaction
                                block (block.truncate block2) transactions transactions2
                                transactionIndex1 transactionIndex2 salt))))"

text \<open>Cases 2 and 3: invalid transaction type, incorrect historic root.\<close>

definition createChallenge_case2 ::
  "block \<Rightarrow> transaction list \<Rightarrow> metadata \<Rightarrow> nat \<Rightarrow> txdata option result" where
  "createChallenge_case2 block transactions md salt =
     (let transactionIndex = transactionHashIndex md
      in Inr (Some (ChallengeTransactionType block transactions transactionIndex salt)))"

definition createChallenge_case3 ::
  "block \<Rightarrow> transaction list \<Rightarrow> metadata \<Rightarrow> nat \<Rightarrow> txdata option result" where
  "createChallenge_case3 block transactions md salt =
     (let transactionIndex = transactionHashIndex md
      in Inr (Some (ChallengeHistoricRoot block transactions transactionIndex salt)))"

text \<open>Case 4: a proof that does not verify. \<^verbatim>\<open>transactions[transactionIndex]\<close> is undefined out
  of range, and reading \<^verbatim>\<open>.proof\<close> of it throws. The double transfer (type \<^verbatim>\<open>'2'\<close>) reads one
  historic block per entry of \<^verbatim>\<open>historicRootBlockNumberL2\<close> and, as the source has it, the
  transactions of the challenged block for each; the other types read the first entry.\<close>

definition createChallenge_case4 ::
  "block \<Rightarrow> transaction list \<Rightarrow> metadata \<Rightarrow> nat \<Rightarrow> state \<Rightarrow> txdata option result" where
  "createChallenge_case4 block transactions md salt s =
     (let transactionIndex = transactionHashIndex md in
      case at_index transactions transactionIndex of
        None \<Rightarrow> Inl (TypeError ''Cannot read properties of undefined (reading proof)'')
      | Some tx \<Rightarrow>
          (let uncompressedProof = proof_data tx in
           if transactionType tx = ''0''
           then Inr (Some (ChallengeProofVerificationDeposit
                             block transactions transactionIndex uncompressedProof salt))
           else if transactionType tx = ''2''
           then
             (case map (\<lambda>b. (getBlockByBlockNumberL2 b s,
                              getTransactionsByTransactionHashes (transactionHashes block) s))
                     (historicRootBlockNumberL2 tx) of
                (Some historicBlock1, historicTxs1) # (Some historicBlock2, historicTxs2) # rest \<Rightarrow>
                  Inr (Some (ChallengeProofVerificationDouble
                               block transactions transactionIndex
                               (block.truncate historicBlock1) (block.truncate historicBlock2)
                               historicTxs1 historicTxs2 uncompressedProof salt))
              | _ \<Rightarrow>
                  Inl (TypeError ''Cannot read properties of undefined (reading historicBlock)''))
           else
             (case historicRootBlockNumberL2 tx of
                [] \<Rightarrow> Inl (TypeError ''Cannot read properties of null (reading transactionHashes)'')
              | b # rest \<Rightarrow>
                  (case getBlockByBlockNumberL2 b s of
                     None \<Rightarrow>
                       Inl (TypeError ''Cannot read properties of null (reading transactionHashes)'')
                   | Some blockL2ContainingHistoricRoot \<Rightarrow>
                       (let transactionsOfblockL2ContainingHistoricRoot =
                              getTransactionsByTransactionHashes
                                (transactionHashes blockL2ContainingHistoricRoot) s
                        in Inr (Some (ChallengeProofVerificationSingle
                                        block transactions transactionIndex
                                        (block.truncate blockL2ContainingHistoricRoot)
                                        transactionsOfblockL2ContainingHistoricRoot
                                        uncompressedProof salt)))))))"

text \<open>Case 6: duplicate nullifier. The stored nullifiers that carry a block hash and occur in
  the block are collected; the first of them names the old block. When there is none,
  \<^verbatim>\<open>txDataToSign\<close> stays undefined.\<close>

definition createChallenge_case6 ::
  "block \<Rightarrow> transaction list \<Rightarrow> nat \<Rightarrow> state \<Rightarrow> txdata option result" where
  "createChallenge_case6 block transactions salt s =
     (let storedMinedNullifiers = retrieveMinedNullifiers s;
          blockNullifiers = concat (map nullifiers transactions);
          alreadyMinedNullifiers =
            filter (\<lambda>sNull. hash sNull \<in> set blockNullifiers) storedMinedNullifiers
      in case alreadyMinedNullifiers of
           [] \<Rightarrow> Inr None
         | n # rest \<Rightarrow>
             (case (case stampedBlockHash n of
                      None \<Rightarrow> None
                    | Some h \<Rightarrow> getBlockByBlockHash h s) of
                None \<Rightarrow>
                  Inl (TypeError ''Cannot read properties of null (reading transactionHashes)'')
              | Some oldBlock \<Rightarrow>
                  (let oldBlockTransactions =
                         getTransactionsByTransactionHashes (transactionHashes oldBlock) s;
                       oldIdxs = nullifierIndices oldBlockTransactions (hash n);
                       currentIdxs = nullifierIndices transactions (hash n)
                   in Inr (Some (ChallengeNullifier
                                   block transactions (fst currentIdxs) (snd currentIdxs)
                                   (block.truncate oldBlock) oldBlockTransactions
                                   (fst oldIdxs) (snd oldIdxs) salt)))))"

text \<open>Case 7: incorrect leaf count.\<close>

definition createChallenge_case7 ::
  "block \<Rightarrow> transaction list \<Rightarrow> nat \<Rightarrow> state \<Rightarrow> txdata option result" where
  "createChallenge_case7 block transactions salt s =
     (case getBlockByBlockNumberL2 (blockNumberL2 block - 1) s of
        None \<Rightarrow> Inl (TypeError ''Cannot read properties of null (reading transactionHashes)'')
      | Some priorBlockL2 \<Rightarrow>
          (let priorBlockTransactions =
                 getTransactionsByTransactionHashes (transactionHashes priorBlockL2) s
           in Inr (Some (ChallengeLeafCountCorrect
                           (block.truncate priorBlockL2) priorBlockTransactions
                           block transactions salt))))"

text \<open>\<^verbatim>\<open>switch (err.code)\<close>: the value of \<^verbatim>\<open>txDataToSign\<close> after the switch, or what a case
  throws, and the state with the log lines of the case. Case 0 logs before it reads the
  store, case 2 after it has built the transaction. The default case builds nothing.\<close>

definition createChallenge_switch ::
  "block \<Rightarrow> transaction list \<Rightarrow> int \<Rightarrow> metadata \<Rightarrow> nat \<Rightarrow> state
     \<Rightarrow> txdata option result \<times> state" where
  "createChallenge_switch block transactions code md salt s =
     (if code = 0 then
        (createChallenge_case0 block transactions salt s,
         logger ''debug'' ''Challenging incorrect root'' s)
      else if code = 1 then (createChallenge_case1 block transactions md salt s, s)
      else if code = 2 then
        (createChallenge_case2 block transactions md salt,
         logger ''silly'' ''raw transaction is'' (logger ''debug'' ''returning raw transaction'' s))
      else if code = 3 then (createChallenge_case3 block transactions md salt, s)
      else if code = 4 then (createChallenge_case4 block transactions md salt s, s)
      else if code = 6 then (createChallenge_case6 block transactions salt s, s)
      else if code = 7 then (createChallenge_case7 block transactions salt s, s)
      else (Inr None, s))"

text \<open>\<^verbatim>\<open>(await rand(32)).hex(32)\<close>: a fresh salt.\<close>

definition rand :: "state \<Rightarrow> nat \<times> state" where
  "rand s = (rand_next s, s\<lparr>rand_next := Suc (rand_next s)\<rparr>)"

text \<open>
  \<^verbatim>\<open>createChallenge(block, transactions, err)\<close>, with \<^verbatim>\<open>err.code\<close> and \<^verbatim>\<open>err.metadata\<close> as
  arguments. What the switch throws is thrown to the caller. The call
  \<^verbatim>\<open>commitToChallenge(txDataToSign)\<close> is not awaited: \<^verbatim>\<open>createChallenge\<close> returns normally
  whatever becomes of it, and a rejection of its promise is handled by nobody. The model
  runs the detached call to its end at this point.
\<close>

definition createChallenge ::
  "block \<Rightarrow> transaction list \<Rightarrow> int \<Rightarrow> metadata \<Rightarrow> state \<Rightarrow> unit result \<times> state" where
  "createChallenge block transactions code md s =
     (if makeChallenges s then
        (case rand s of
           (salt, s1) \<Rightarrow>
             (case createChallenge_switch block transactions code md salt s1 of
                (Inl e, s2) \<Rightarrow> (Inl e, s2)
              | (Inr txDataToSign, s2) \<Rightarrow>
                  (case commitToChallenge txDataToSign s2 of
                     (Inl e, s3) \<Rightarrow> (Inr (), s3\<lparr>unhandled := unhandled s3 @ [e]\<rparr>)
                   | (Inr u, s3) \<Rightarrow> (Inr (), s3))))
      else
        (Inr (),
         logger ''info''
           ''Faulty block detected. Do not submit new blocks until the faulty blocks are removed''
           s))"

section \<open>The block-proposed handler\<close>

text \<open>
  The event as the handler sees it after \<^verbatim>\<open>getProposeBlockCalldata(data)\<close>: the layer-1 block
  number and transaction hash, and the decoded block and transactions.
\<close>

record event_data =
  ev_blockNumber :: int
  ev_transactionHash :: bytes32
  ev_block :: block
  ev_transactions :: "transaction list"

text \<open>
  Modelled from the spec: \<^verbatim>\<open>checkBlock\<close> of \<^verbatim>\<open>services/check-block.mjs\<close>, which is not among the
  sources. The specification makes it a pure decision function over the candidate block and
  the current store, tree and ledger; it is a parameter that reads the state and returns
  \<open>None\<close> when it returns normally, or the value it throws.
\<close>

type_synonym checker = "state \<Rightarrow> block \<Rightarrow> transaction list \<Rightarrow> js_error option"

text \<open>\<^verbatim>\<open>String(err)\<close>, the message of the \<^verbatim>\<open>new Error(err)\<close> that the handler rethrows.\<close>

fun toString :: "js_error \<Rightarrow> string" where
  "toString (BlockError code md) = ''BlockError''"
| "toString (Error m) = ''Error: '' @ m"
| "toString (TypeError m) = ''TypeError: '' @ m"
| "toString (RangeError m) = ''RangeError: '' @ m"
| "toString FatalInconsistency = ''FatalInconsistency''"
| "toString TreeInconsistencyError = ''TreeInconsistencyError''"

text \<open>
  The body of the \<^verbatim>\<open>try\<close> up to the call of \<^verbatim>\<open>checkBlock\<close>: the block is saved, its nullifiers
  are stamped, its transactions leave the mempool, and the latest tree, updated with the
  block's commitments, is saved.
\<close>

definition blockProposed_apply :: "update_nodes \<Rightarrow> event_data \<Rightarrow> state \<Rightarrow> state" where
  "blockProposed_apply updateNodes data s =
     (let currentBlockCount = ev_blockNumber data;
          transactionHashL1 = ev_transactionHash data;
          block = ev_block data;
          transactions = ev_transactions data;
          s1 = logger ''info'' ''Received BlockProposed event'' s;
          s2 = saveBlock
                 (block.extend block
                    (stored_block.fields (Some currentBlockCount) transactionHashL1)) s1;
          s3 = stampNullifiers
                 (concat (map (\<lambda>tx. filter (\<lambda>nulls. nulls \<noteq> ZERO) (nullifiers tx))
                            transactions))
                 (blockHash block) s2;
          s4 = removeTransactionsFromMemPool block s3;
          latestTree = getLatestTree s4;
          blockCommitments =
            concat (map (\<lambda>t. filter (\<lambda>c. c \<noteq> ZERO) (commitments t)) transactions);
          updatedTimber = statelessUpdate updateNodes latestTree blockCommitments;
          s5 = saveTree currentBlockCount (blockNumberL2 block) updatedTimber s4
      in logger ''debug'' ''Saving tree with block number'' s5)"

text \<open>
  \<^verbatim>\<open>blockProposedEventHandler(data)\<close>: the checker runs on the state that
  \<open>blockProposed_apply\<close> leaves. A \<^verbatim>\<open>BlockError\<close> goes to \<^verbatim>\<open>createChallenge\<close>, which the handler
  awaits inside its \<^verbatim>\<open>catch\<close>; anything else is logged and rethrown as a new \<^verbatim>\<open>Error\<close>.
\<close>

definition blockProposedEventHandler ::
  "checker \<Rightarrow> update_nodes \<Rightarrow> event_data \<Rightarrow> state \<Rightarrow> unit result \<times> state" where
  "blockProposedEventHandler checkBlock updateNodes data s =
     (let block = ev_block data;
          transactions = ev_transactions data;
          s1 = blockProposed_apply updateNodes data s;
          s2 = s1\<lparr>trace := trace s1 @ [CheckBlock (blockHash block)]\<rparr>
      in case checkBlock s1 block transactions of
           None \<Rightarrow> (Inr (), logger ''info'' ''Block Checker - Block was valid'' s2)
         | Some (BlockError code md) \<Rightarrow>
             createChallenge block transactions code md
               (logger ''warn'' ''Block Checker - Block invalid'' s2)
         | Some err \<Rightarrow> (Inl (Error (toString err)), logger ''error'' (toString err) s2))"

section \<open>Removal, confirmation and the event stream\<close>

text \<open>
  Modelled from the spec: \<open>getTreeSnapshotAtLeafCount\<close> of the abstract store. The tree at leaf
  count 0 is the empty tree, which needs no stored snapshot.
\<close>

definition getTreeSnapshotAtLeafCount :: "nat \<Rightarrow> state \<Rightarrow> timber option" where
  "getTreeSnapshotAtLeafCount n s =
     (case find (\<lambda>(bn, l2, t). timber_leafCount t = n) (trees s) of
        Some (bn, l2, t) \<Rightarrow> Some t
      | None \<Rightarrow> (if n = 0 then Some emptyTimber else None))"

text \<open>
  Modelled from the spec: \<open>rollback(targetLeafCount)\<close> of the commitment tree engine. The
  snapshots newer than the target are dropped, so that the target is the latest tree; a
  target with no stored snapshot is the fatal \<open>TreeInconsistencyError\<close>.
\<close>

definition rollback :: "nat \<Rightarrow> state \<Rightarrow> unit result \<times> state" where
  "rollback target s =
     (case getTreeSnapshotAtLeafCount target s of
        None \<Rightarrow> (Inl TreeInconsistencyError, s)
      | Some t \<Rightarrow>
          (Inr (), s\<lparr>trees := dropWhile (\<lambda>(bn, l2, t). timber_leafCount t \<noteq> target) (trees s)\<rparr>))"

text \<open>
  Modelled from the spec: the leaf count of the snapshot recorded immediately before the
  block's commitments were appended. The block's own snapshot is the one saved under its
  layer-2 number; the snapshot before it is the next older one, or the empty tree. \<open>None\<close>
  when the block has no snapshot.
\<close>

definition leafCountBefore :: "int \<Rightarrow> state \<Rightarrow> nat option" where
  "leafCountBefore n s =
     (case dropWhile (\<lambda>(bn, l2, t). l2 \<noteq> n) (trees s) of
        [] \<Rightarrow> None
      | [own] \<Rightarrow> Some 0
      | own # (bn, l2, t) # older \<Rightarrow> Some (timber_leafCount t))"

text \<open>
  Modelled from the spec: the handler of \<open>Remove(blockHash)\<close>, the removal of a BlockProposed
  event, which is not among the sources (\<^verbatim>\<open>doc/chain-reorgs.md\<close> describes it). It locates the
  block, whose absence is a fatal inconsistency, sets its layer-1 reference to null, unstamps
  its nullifiers and rolls the tree back to the snapshot recorded immediately before the
  block's commitments were appended.
\<close>

definition removeBlockProposedEventHandler :: "bytes32 \<Rightarrow> state \<Rightarrow> unit result \<times> state" where
  "removeBlockProposedEventHandler h s =
     (case getBlockByBlockHash h s of
        None \<Rightarrow> (Inl FatalInconsistency, s)
      | Some b \<Rightarrow>
          (let s1 = s\<lparr>blocks := map (\<lambda>b'. if blockHash b' = h then b'\<lparr>blockNumber := None\<rparr>
                                           else b') (blocks s)\<rparr>;
               s2 = unstampNullifiers h s1
           in case leafCountBefore (blockNumberL2 b) s2 of
                None \<Rightarrow> (Inl TreeInconsistencyError, s2)
              | Some target \<Rightarrow> rollback target s2))"

text \<open>
  Modelled from the spec: the challenge-commit event handler, which is not among the sources
  (\<^verbatim>\<open>createChallenge\<close> names it in a comment). It observes the external confirmation that a
  commit transaction is mined and only then sends the reveal of the payload stored under the
  commit hash, through \<^verbatim>\<open>revealChallenge\<close>. A commit hash that is not in the store is not ours.
\<close>

definition committedToChallengeEventHandler :: "commit_hash \<Rightarrow> state \<Rightarrow> unit result \<times> state" where
  "committedToChallengeEventHandler commitHash s =
     (let s1 = s\<lparr>trace := trace s @ [CommitMined commitHash]\<rparr> in
      case map_of (commits s1) commitHash of
        None \<Rightarrow> (Inr (), s1)
      | Some txDataToSign \<Rightarrow> revealChallenge txDataToSign s1)"

text \<open>\<^verbatim>\<open>setChallengeWebSocketConnection(_ws)\<close>: the socket, and with it what the coming
  evaluations of the loop condition find, is replaced.\<close>

definition setChallengeWebSocketConnection :: "bool list \<Rightarrow> state \<Rightarrow> state" where
  "setChallengeWebSocketConnection readyStates s = s\<lparr>ws_readyState := readyStates\<rparr>"

text \<open>
  What reaches the process from outside, in any order: block-proposed events and their
  removals, commit confirmations, the two toggles, and changes of the socket.
\<close>

datatype input =
    BlockProposed event_data
  | BlockProposedRemoved bytes32
  | CommittedToChallenge commit_hash
  | StartMakingChallenges
  | StopMakingChallenges
  | SetChallengeWebSocketConnection "bool list"

fun deliver :: "checker \<Rightarrow> update_nodes \<Rightarrow> input \<Rightarrow> state \<Rightarrow> unit result \<times> state" where
  "deliver checkBlock updateNodes (BlockProposed data) s =
     blockProposedEventHandler checkBlock updateNodes data s"
| "deliver checkBlock updateNodes (BlockProposedRemoved h) s =
     removeBlockProposedEventHandler h s"
| "deliver checkBlock updateNodes (CommittedToChallenge commitHash) s =
     committedToChallengeEventHandler commitHash s"
| "deliver checkBlock updateNodes StartMakingChallenges s = (Inr (), startMakingChallenges s)"
| "deliver checkBlock updateNodes StopMakingChallenges s = (Inr (), stopMakingChallenges s)"
| "deliver checkBlock updateNodes (SetChallengeWebSocketConnection readyStates) s =
     (Inr (), setChallengeWebSocketConnection readyStates s)"

text \<open>The events are applied one at a time, in delivery order. The run goes on after a handler
  that throws; a run that halts there is the run of a prefix of the inputs.\<close>

fun run :: "checker \<Rightarrow> update_nodes \<Rightarrow> input list \<Rightarrow> state \<Rightarrow> state" where
  "run checkBlock updateNodes [] s = s"
| "run checkBlock updateNodes (i # is) s =
     run checkBlock updateNodes is (snd (deliver checkBlock updateNodes i s))"

text \<open>The events that a computation from \<open>s\<close> to \<open>s'\<close> appended to the trace.\<close>

definition new_events :: "state \<Rightarrow> state \<Rightarrow> event list" where
  "new_events s s' = drop (length (trace s)) (trace s')"

text \<open>The messages written to the websocket, in order.\<close>

fun sent :: "event list \<Rightarrow> ws_message list" where
  "sent [] = []"
| "sent (WsSend m # es) = m # sent es"
| "sent (e # es) = sent es"

text \<open>The commit store holds each payload under its own hash.\<close>

definition commits_wf :: "state \<Rightarrow> bool" where
  "commits_wf s = (\<forall>(h, p) \<in> set (commits s). h = SoliditySha3 p)"

text \<open>The events of \<open>k\<close> evaluations of the loop condition that found the socket closed: a wait
  of 3000 ms and a warning each.\<close>

definition polls :: "string \<Rightarrow> nat \<Rightarrow> event list" where
  "polls warning k = concat (replicate k [SetTimeout 3000, Log ''warn'' warning])"

section \<open>A concrete scenario\<close>

text \<open>
  Two blocks that spend the same nullifier \<open>X\<close>. Block \<open>B1\<close> holds transaction \<open>ta\<close>; block
  \<open>B2\<close> holds \<open>ty\<close>, which spends the fresh nullifier \<open>Y\<close>, and \<open>tb\<close>, which spends \<open>X\<close>
  again. The store knows the three transactions and the nullifiers \<open>Y\<close> and \<open>X\<close>, in this
  order and unstamped. Short strings stand for the 32-byte hex values.
\<close>

definition tx_a :: transaction where
  "tx_a = \<lparr>transactionHash = ''ta'', transactionType = ''1'', commitments = [''c1''],
           nullifiers = [''X''], historicRootBlockNumberL2 = [], proof_data = ''pa''\<rparr>"

definition tx_y :: transaction where
  "tx_y = \<lparr>transactionHash = ''ty'', transactionType = ''1'', commitments = [''c2''],
           nullifiers = [''Y''], historicRootBlockNumberL2 = [0], proof_data = ''py''\<rparr>"

definition tx_b :: transaction where
  "tx_b = \<lparr>transactionHash = ''tb'', transactionType = ''1'', commitments = [''c3''],
           nullifiers = [''X''], historicRootBlockNumberL2 = [0], proof_data = ''pb''\<rparr>"

definition block_B1 :: block where
  "block_B1 = \<lparr>proposer = ''P1'', root = ''r1'', leafCount = 0, blockNumberL2 = 0,
               blockHash = ''B1'', transactionHashes = [''ta'']\<rparr>"

definition block_B2 :: block where
  "block_B2 = \<lparr>proposer = ''P2'', root = ''r2'', leafCount = 1, blockNumberL2 = 1,
               blockHash = ''B2'', transactionHashes = [''ty'', ''tb'']\<rparr>"

definition data_B1 :: event_data where
  "data_B1 = \<lparr>ev_blockNumber = 10, ev_transactionHash = ''L1a'', ev_block = block_B1,
              ev_transactions = [tx_a]\<rparr>"

definition data_B2 :: event_data where
  "data_B2 = \<lparr>ev_blockNumber = 11, ev_transactionHash = ''L1b'', ev_block = block_B2,
              ev_transactions = [tx_y, tx_b]\<rparr>"

text \<open>The process at its start: challenges on, the socket open, no block yet.\<close>

definition state0 :: state where
  "state0 = \<lparr>blocks = [], transactions_db = [tx_a, tx_y, tx_b], mempool_removed = [],
             nullifiers_db = [\<lparr>hash = ''Y'', stampedBlockHash = None\<rparr>,
                              \<lparr>hash = ''X'', stampedBlockHash = None\<rparr>],
             trees = [], commits = [], makeChallenges = True,
             ws_readyState = [True, True, True, True], rand_next = 0, unhandled = [],
             trace = []\<rparr>"

text \<open>The same process with a socket that never opens.\<close>

definition state0_closed :: state where
  "state0_closed = state0\<lparr>ws_readyState := []\<rparr>"

text \<open>A stand-in for the merkle-tree hashing: the leaves seen so far.\<close>

definition toy_updateNodes :: update_nodes where
  "toy_updateNodes leaves n f = (concat (f @ leaves), f @ leaves)"

definition metadata0 :: metadata where
  "metadata0 = \<lparr>transactionHashIndex = 0, metadata_transactionHash = ''ta''\<rparr>"

text \<open>A checker that throws the \<^verbatim>\<open>BlockError\<close> of the given code for every block, one that
  accepts every block, and one that throws something that is not a \<^verbatim>\<open>BlockError\<close>.\<close>

definition reject_with :: "int \<Rightarrow> checker" where
  "reject_with code s block transactions = Some (BlockError code metadata0)"

definition accept_all :: checker where
  "accept_all s block transactions = None"

definition crash_with :: "string \<Rightarrow> checker" where
  "crash_with m s block transactions = Some (TypeError m)"

text \<open>
  Modelled from the spec: row 6 of the checker's table, the only row this checker has: a
  nullifier of the block is already live-stamped by a different block, that is, stamped by a
  block whose layer-1 reference is not null.
\<close>

definition checkDuplicateNullifier :: checker where
  "checkDuplicateNullifier s block transactions =
     (if list_ex
           (\<lambda>n. hash n \<in> set (concat (map nullifiers transactions)) \<and>
                (case stampedBlockHash n of
                   None \<Rightarrow> False
                 | Some h \<Rightarrow>
                     h \<noteq> blockHash block \<and>
                     (case getBlockByBlockHash h s of
                        None \<Rightarrow> False
                      | Some b \<Rightarrow> blockNumber b \<noteq> None)))
           (nullifiers_db s)
      then Some (BlockError 6 metadata0) else None)"

text \<open>
  A checker that reads the state it is given: it accepts a block when the latest tree of that
  state has the leaves the block declares plus the block's commitments, and throws the
  \<^verbatim>\<open>BlockError\<close> of code 7 otherwise.
\<close>

definition checkLeafCount :: checker where
  "checkLeafCount s block transactions =
     (if int (timber_leafCount (getLatestTree s)) =
           leafCount block +
           int (length (concat (map (\<lambda>t. filter (\<lambda>c. c \<noteq> ZERO) (commitments t)) transactions)))
      then None else Some (BlockError 7 metadata0))"

text \<open>The transaction-type challenge of block \<open>B1\<close>, built with the first salt.\<close>

definition challenge_B1 :: "txdata option" where
  "challenge_B1 = Some (ChallengeTransactionType block_B1 [tx_a] 0 0)"

text \<open>The same challenge built with the second salt.\<close>

definition challenge_B1_again :: "txdata option" where
  "challenge_B1_again = Some (ChallengeTransactionType block_B1 [tx_a] 0 1)"

text \<open>The process after block \<open>B1\<close> has been accepted.\<close>

definition state1 :: state where
  "state1 = run accept_all toy_updateNodes [BlockProposed data_B1] state0"

text \<open>The process after blocks \<open>B1\<close> and \<open>B2\<close> have been accepted.\<close>

definition state2 :: state where
  "state2 = run accept_all toy_updateNodes [BlockProposed data_B1, BlockProposed data_B2] state0"

text \<open>The process at its start with a socket that is closed twice and then open.\<close>

definition state0_reconnecting :: state where
  "state0_reconnecting = state0\<lparr>ws_readyState := [False, False, True]\<rparr>"

section \<open>Effects of the operations\<close>

text \<open>What each operation changes in the state, and which events it appends to the trace.\<close>

lemma wsOpen_cases:
  "wsOpen s = (b, s1) \<Longrightarrow> \<exists>rs. s1 = s\<lparr>ws_readyState := rs\<rparr>"
  by (auto simp: wsOpen_def split: list.splits intro: exI[of _ "ws_readyState s"])

lemma waitForWebsocket_effect:
  "\<exists>rs evs. snd (waitForWebsocket w f n s) = s\<lparr>ws_readyState := rs, trace := trace s @ evs\<rparr>
      \<and> (\<forall>e \<in> set evs. e = SetTimeout 3000 \<or> e = Log ''warn'' w)"
proof (induction w f n s rule: waitForWebsocket.induct)
  case (1 w f n s)
  obtain b s1 where o: "wsOpen s = (b, s1)" by (cases "wsOpen s")
  then obtain rs where s1: "s1 = s\<lparr>ws_readyState := rs\<rparr>" using wsOpen_cases by blast
  show ?case
  proof (cases b)
    case True
    then have "snd (waitForWebsocket w f n s) = s1"
      using o by (simp add: waitForWebsocket.simps)
    then have "snd (waitForWebsocket w f n s) = s\<lparr>ws_readyState := rs, trace := trace s @ []\<rparr>"
      using s1 by simp
    then show ?thesis by (metis empty_iff list.set(1))
  next
    case False
    let ?s3 = "logger ''warn'' w (setTimeout 3000 s1)"
    have t3: "?s3 = s\<lparr>ws_readyState := rs, trace := trace s @ [SetTimeout 3000, Log ''warn'' w]\<rparr>"
      using s1 by (simp add: logger_def setTimeout_def)
    show ?thesis
    proof (cases "n > 100")
      case True
      then have "snd (waitForWebsocket w f n s) = ?s3"
        using o False by (simp add: waitForWebsocket.simps Let_def)
      then show ?thesis using t3 by (intro exI[of _ rs] exI[of _ "[SetTimeout 3000, Log ''warn'' w]"]) simp
    next
      case F2: False
      then have eq: "waitForWebsocket w f n s = waitForWebsocket w f (n + 1) ?s3"
        using o False by (subst waitForWebsocket.simps) (simp add: Let_def)
      from "1.IH"[OF o[symmetric] _ refl refl F2] False
      obtain rs' evs' where
        h: "snd (waitForWebsocket w f (n + 1) ?s3) = ?s3\<lparr>ws_readyState := rs', trace := trace ?s3 @ evs'\<rparr>"
        and a: "\<forall>e \<in> set evs'. e = SetTimeout 3000 \<or> e = Log ''warn'' w"
        by auto
      have "snd (waitForWebsocket w f n s) =
            s\<lparr>ws_readyState := rs', trace := trace s @ ([SetTimeout 3000, Log ''warn'' w] @ evs')\<rparr>"
        using eq h t3 by simp
      then show ?thesis using a
        by (intro exI[of _ rs'] exI[of _ "[SetTimeout 3000, Log ''warn'' w] @ evs'"]) auto
    qed
  qed
qed

lemma revealChallenge_effect:
  "\<exists>rs evs. snd (revealChallenge p s) =
       s\<lparr>ws_readyState := rs,
         trace := trace s @ Log ''debug'' ''raw challenge transaction has been sent to be signed and submitted''
                    # evs @ (if fst (revealChallenge p s) = Inr () then [WsSend (Challenge p)] else [])\<rparr>
      \<and> (\<forall>e \<in> set evs. e = SetTimeout 3000 \<or> e = Log ''warn'' reveal_warning)"
proof -
  let ?s1 = "logger ''debug'' ''raw challenge transaction has been sent to be signed and submitted'' s"
  obtain r sw where
    w: "waitForWebsocket reveal_warning ''Websocket to $challenger has failed'' 0 ?s1 = (r, sw)"
    by (cases "waitForWebsocket reveal_warning ''Websocket to $challenger has failed'' 0 ?s1")
  obtain rs evs where
    h: "sw = ?s1\<lparr>ws_readyState := rs, trace := trace ?s1 @ evs\<rparr>"
    and a: "\<forall>e \<in> set evs. e = SetTimeout 3000 \<or> e = Log ''warn'' reveal_warning"
    using waitForWebsocket_effect[of reveal_warning "''Websocket to $challenger has failed''" 0 ?s1] w
    by auto
  show ?thesis
  proof (cases r)
    case (Inl e)
    then have "revealChallenge p s = (Inl e, sw)"
      using w by (simp add: revealChallenge_def)
    then show ?thesis using h a
      by (intro exI[of _ rs] exI[of _ evs]) (simp add: logger_def)
  next
    case (Inr u)
    then have "revealChallenge p s = (Inr (), ws_send (Challenge p) sw)"
      using w by (simp add: revealChallenge_def)
    then show ?thesis using h a
      by (intro exI[of _ rs] exI[of _ evs]) (simp add: logger_def ws_send_def)
  qed
qed

lemma commitToChallenge_undefined:
  "commitToChallenge None s =
     (Inl (TypeError ''Cannot read properties of undefined (reading replace)''), s)"
  by (simp add: commitToChallenge_def)

lemma commitToChallenge_effect:
  assumes some: "p \<noteq> None"
  shows "\<exists>rs evs. snd (commitToChallenge p s) =
       s\<lparr>commits := commits s @ [(SoliditySha3 p, p)],
         ws_readyState := rs,
         trace := trace s @
           [Log ''debug'' ''raw transaction for committing to challenge has been sent to be signed and submitted'',
            SaveCommit (SoliditySha3 p) p]
           @ evs @ (if fst (commitToChallenge p s) = Inr ()
                    then [WsSend (Commit (CommitToChallenge (SoliditySha3 p)))] else [])\<rparr>
      \<and> (\<forall>e \<in> set evs. e = SetTimeout 3000 \<or> e = Log ''warn'' commit_warning)"
proof -
  let ?s2 = "saveCommit (SoliditySha3 p) p (logger ''debug'' ''raw transaction for committing to challenge has been sent to be signed and submitted'' s)"
  obtain tx where p: "p = Some tx" using some by (cases p) auto
  obtain r sw where
    w: "waitForWebsocket commit_warning ''Websocket to challenger has failed'' 0 ?s2 = (r, sw)"
    by (cases "waitForWebsocket commit_warning ''Websocket to challenger has failed'' 0 ?s2")
  obtain rs evs where
    h: "sw = ?s2\<lparr>ws_readyState := rs, trace := trace ?s2 @ evs\<rparr>"
    and a: "\<forall>e \<in> set evs. e = SetTimeout 3000 \<or> e = Log ''warn'' commit_warning"
    using waitForWebsocket_effect[of commit_warning "''Websocket to challenger has failed''" 0 ?s2] w
    by auto
  show ?thesis
  proof (cases r)
    case (Inl e)
    then have "commitToChallenge p s = (Inl e, sw)"
      using w p by (simp add: commitToChallenge_def)
    then show ?thesis using h a
      by (intro exI[of _ rs] exI[of _ evs]) (simp add: logger_def saveCommit_def)
  next
    case (Inr u)
    then have "commitToChallenge p s = (Inr (), ws_send (Commit (CommitToChallenge (SoliditySha3 p))) sw)"
      using w p by (simp add: commitToChallenge_def)
    then show ?thesis using h a
      by (intro exI[of _ rs] exI[of _ evs]) (simp add: logger_def ws_send_def saveCommit_def)
  qed
qed

lemma switch_effect:
  "\<exists>evs. snd (createChallenge_switch block txs code md salt s) = s\<lparr>trace := trace s @ evs\<rparr>
      \<and> (\<forall>e \<in> set evs. \<exists>l m. e = Log l m)"
proof -
  consider "code = 0" | "code = 2" | "code \<noteq> 0 \<and> code \<noteq> 2" by blast
  then show ?thesis
  proof cases
    case 1
    then show ?thesis
      by (intro exI[of _ "[Log ''debug'' ''Challenging incorrect root'']"])
         (simp add: createChallenge_switch_def logger_def)
  next
    case 2
    then show ?thesis
      by (intro exI[of _ "[Log ''debug'' ''returning raw transaction'', Log ''silly'' ''raw transaction is'']"])
         (simp add: createChallenge_switch_def logger_def)
  next
    case 3
    then show ?thesis
      by (intro exI[of _ "[]"]) (simp add: createChallenge_switch_def)
  qed
qed

lemma split_last:
  "front @ [a] = pre @ b # post \<Longrightarrow> b \<notin> set front \<Longrightarrow> pre = front \<and> b = a \<and> post = []"
proof (induction front arbitrary: pre)
  case Nil
  then show ?case by (cases pre) auto
next
  case (Cons x front)
  then show ?case by (cases pre) auto
qed

lemma createChallenge_effect:
  "\<exists>cs rs rn uh evs. snd (createChallenge block txs code md s) =
       s\<lparr>commits := commits s @ cs, ws_readyState := rs, rand_next := rn, unhandled := uh,
         trace := trace s @ evs\<rparr>
      \<and> (\<forall>(h, p) \<in> set cs. h = SoliditySha3 p)
      \<and> (\<forall>e \<in> set evs. (\<exists>l m. e = Log l m) \<or> (\<exists>h p. e = SaveCommit h p)
            \<or> e = SetTimeout 3000 \<or> (\<exists>c. e = WsSend (Commit c)))"
proof (cases "makeChallenges s")
  case False
  then have "snd (createChallenge block txs code md s) =
      s\<lparr>commits := commits s @ [], ws_readyState := ws_readyState s, rand_next := rand_next s,
        unhandled := unhandled s,
        trace := trace s @ [Log ''info'' ''Faulty block detected. Do not submit new blocks until the faulty blocks are removed'']\<rparr>"
    by (simp add: createChallenge_def logger_def)
  then show ?thesis
    by (intro exI[of _ "[]"] exI[of _ "ws_readyState s"] exI[of _ "rand_next s"]
          exI[of _ "unhandled s"]
          exI[of _ "[Log ''info'' ''Faulty block detected. Do not submit new blocks until the faulty blocks are removed'']"])
       simp
next
  case True
  let ?s1 = "s\<lparr>rand_next := Suc (rand_next s)\<rparr>"
  obtain r s2 where sw: "createChallenge_switch block txs code md (rand_next s) ?s1 = (r, s2)"
    by (cases "createChallenge_switch block txs code md (rand_next s) ?s1")
  obtain evs1 where s2: "s2 = ?s1\<lparr>trace := trace ?s1 @ evs1\<rparr>"
    and a1: "\<forall>e \<in> set evs1. \<exists>l m. e = Log l m"
    using switch_effect[of block txs code md "rand_next s" ?s1] sw by auto
  show ?thesis
  proof (cases r)
    case (Inl e)
    then have "snd (createChallenge block txs code md s) = s2"
      using True sw by (simp add: createChallenge_def rand_def)
    then have "snd (createChallenge block txs code md s) =
      s\<lparr>commits := commits s @ [], ws_readyState := ws_readyState s, rand_next := Suc (rand_next s),
        unhandled := unhandled s, trace := trace s @ evs1\<rparr>"
      using s2 by simp
    then show ?thesis using a1
      by (intro exI[of _ "[]"] exI[of _ "ws_readyState s"] exI[of _ "Suc (rand_next s)"]
            exI[of _ "unhandled s"] exI[of _ evs1]) auto
  next
    case (Inr p)
    show ?thesis
    proof (cases "p = None")
    case undef: True
    let ?e = "TypeError ''Cannot read properties of undefined (reading replace)''"
    have "snd (createChallenge block txs code md s) = s2\<lparr>unhandled := unhandled s2 @ [?e]\<rparr>"
      using True sw Inr undef
      by (simp add: createChallenge_def rand_def commitToChallenge_undefined)
    then have "snd (createChallenge block txs code md s) =
      s\<lparr>commits := commits s @ [], ws_readyState := ws_readyState s, rand_next := Suc (rand_next s),
        unhandled := unhandled s @ [?e], trace := trace s @ evs1\<rparr>"
      using s2 by simp
    then show ?thesis using a1
      by (intro exI[of _ "[]"] exI[of _ "ws_readyState s"] exI[of _ "Suc (rand_next s)"]
            exI[of _ "unhandled s @ [?e]"] exI[of _ evs1]) auto
    next
    case def: False
    obtain rc s3 where c: "commitToChallenge p s2 = (rc, s3)"
      by (cases "commitToChallenge p s2")
    obtain rs evs2 where s3: "s3 = s2\<lparr>commits := commits s2 @ [(SoliditySha3 p, p)],
         ws_readyState := rs,
         trace := trace s2 @
           [Log ''debug'' ''raw transaction for committing to challenge has been sent to be signed and submitted'',
            SaveCommit (SoliditySha3 p) p]
           @ evs2 @ (if rc = Inr ()
                    then [WsSend (Commit (CommitToChallenge (SoliditySha3 p)))] else [])\<rparr>"
      and a2: "\<forall>e \<in> set evs2. e = SetTimeout 3000 \<or> e = Log ''warn'' commit_warning"
      using commitToChallenge_effect[OF def, of s2] c by auto
    let ?evs = "evs1 @ [Log ''debug'' ''raw transaction for committing to challenge has been sent to be signed and submitted'',
            SaveCommit (SoliditySha3 p) p]
           @ evs2 @ (if rc = Inr ()
                    then [WsSend (Commit (CommitToChallenge (SoliditySha3 p)))] else [])"
    let ?uh = "(case rc of Inl e \<Rightarrow> unhandled s @ [e] | Inr u \<Rightarrow> unhandled s)"
    have "snd (createChallenge block txs code md s) =
        (case rc of Inl e \<Rightarrow> s3\<lparr>unhandled := unhandled s3 @ [e]\<rparr> | Inr u \<Rightarrow> s3)"
      using True sw Inr c by (simp add: createChallenge_def rand_def split: sum.splits)
    then have "snd (createChallenge block txs code md s) =
      s\<lparr>commits := commits s @ [(SoliditySha3 p, p)], ws_readyState := rs,
        rand_next := Suc (rand_next s), unhandled := ?uh, trace := trace s @ ?evs\<rparr>"
      using s3 s2 by (simp split: sum.splits)
    moreover have "\<forall>e \<in> set ?evs. (\<exists>l m. e = Log l m) \<or> (\<exists>h p. e = SaveCommit h p)
            \<or> e = SetTimeout 3000 \<or> (\<exists>c. e = WsSend (Commit c))"
      using a1 a2 by auto
    ultimately show ?thesis
      by (intro exI[of _ "[(SoliditySha3 p, p)]"] exI[of _ rs] exI[of _ "Suc (rand_next s)"]
            exI[of _ ?uh] exI[of _ ?evs]) simp
    qed
  qed
qed

lemma waitForWebsocket_flag:
  "waitForWebsocket w f n (s\<lparr>makeChallenges := b\<rparr>) =
     (fst (waitForWebsocket w f n s), (snd (waitForWebsocket w f n s))\<lparr>makeChallenges := b\<rparr>)"
proof (induction w f n s rule: waitForWebsocket.induct)
  case (1 w f n s)
  show ?case
  proof (cases "ws_readyState s")
    case Nil
    then have o: "wsOpen s = (False, s)" "wsOpen (s\<lparr>makeChallenges := b\<rparr>) = (False, s\<lparr>makeChallenges := b\<rparr>)"
      by (simp_all add: wsOpen_def)
    show ?thesis
    proof (cases "n > 100")
      case True
      then show ?thesis using o
        by (simp add: waitForWebsocket.simps[of w f n] Let_def logger_def setTimeout_def)
    next
      case False
      have "waitForWebsocket w f (n + 1) (logger ''warn'' w (setTimeout 3000 (s\<lparr>makeChallenges := b\<rparr>)))
          = waitForWebsocket w f (n + 1) ((logger ''warn'' w (setTimeout 3000 s))\<lparr>makeChallenges := b\<rparr>)"
        by (rule arg_cong[where f="waitForWebsocket w f (n + 1)"])
           (simp add: logger_def setTimeout_def)
      then show ?thesis using o False "1.IH"[OF o(1)[symmetric] _ refl refl False]
        by (simp add: waitForWebsocket.simps[of w f n] Let_def)
    qed
  next
    case (Cons r rs)
    then have o: "wsOpen s = (r, s\<lparr>ws_readyState := rs\<rparr>)"
      "wsOpen (s\<lparr>makeChallenges := b\<rparr>) = (r, s\<lparr>ws_readyState := rs, makeChallenges := b\<rparr>)"
      by (simp_all add: wsOpen_def)
    show ?thesis
    proof (cases r)
      case True
      then show ?thesis using o by (simp add: waitForWebsocket.simps[of w f n])
    next
      case F: False
      show ?thesis
      proof (cases "n > 100")
        case True
        then show ?thesis using o F
          by (simp add: waitForWebsocket.simps[of w f n] Let_def logger_def setTimeout_def)
      next
        case False
        have "waitForWebsocket w f (n + 1) (logger ''warn'' w (setTimeout 3000 (s\<lparr>ws_readyState := rs, makeChallenges := b\<rparr>)))
          = waitForWebsocket w f (n + 1) ((logger ''warn'' w (setTimeout 3000 (s\<lparr>ws_readyState := rs\<rparr>)))\<lparr>makeChallenges := b\<rparr>)"
          by (rule arg_cong[where f="waitForWebsocket w f (n + 1)"])
             (simp add: logger_def setTimeout_def)
        then show ?thesis using o F False "1.IH"[OF o(1)[symmetric] _ refl refl False]
          by (simp add: waitForWebsocket.simps[of w f n] Let_def)
      qed
    qed
  qed
qed

lemma waitForWebsocket_open:
  "ws_readyState s = True # rs \<Longrightarrow> waitForWebsocket w f n s = (Inr (), s\<lparr>ws_readyState := rs\<rparr>)"
  by (simp add: waitForWebsocket.simps[of w f n] wsOpen_def)

lemma waitForWebsocket_opens:
  "ws_readyState s = replicate k False @ True # rs \<Longrightarrow> n + k \<le> 101 \<Longrightarrow>
   waitForWebsocket w f n s = (Inr (), s\<lparr>ws_readyState := rs, trace := trace s @ polls w k\<rparr>)"
proof (induction k arbitrary: n s)
  case 0
  then show ?case by (simp add: waitForWebsocket_open polls_def)
next
  case (Suc k)
  let ?s3 = "logger ''warn'' w (setTimeout 3000 (s\<lparr>ws_readyState := replicate k False @ True # rs\<rparr>))"
  have o: "wsOpen s = (False, s\<lparr>ws_readyState := replicate k False @ True # rs\<rparr>)"
    using Suc.prems by (simp add: wsOpen_def)
  have "waitForWebsocket w f n s = waitForWebsocket w f (n + 1) ?s3"
    using o Suc.prems by (simp add: waitForWebsocket.simps[of w f n] Let_def)
  also have "\<dots> = (Inr (), ?s3\<lparr>ws_readyState := rs, trace := trace ?s3 @ polls w k\<rparr>)"
    using Suc.prems by (intro Suc.IH) (simp_all add: logger_def setTimeout_def)
  finally show ?case by (simp add: logger_def setTimeout_def polls_def)
qed

lemma waitForWebsocket_closed:
  "True \<notin> set (take k (ws_readyState s)) \<Longrightarrow> n + k = 102 \<Longrightarrow> k > 0 \<Longrightarrow>
   waitForWebsocket w f n s =
     (Inl (Error f), s\<lparr>ws_readyState := drop k (ws_readyState s), trace := trace s @ polls w k\<rparr>)"
proof (induction k arbitrary: n s)
  case 0
  then show ?case by simp
next
  case (Suc k)
  let ?s1 = "s\<lparr>ws_readyState := tl (ws_readyState s)\<rparr>"
  let ?s3 = "logger ''warn'' w (setTimeout 3000 ?s1)"
  have o: "wsOpen s = (False, ?s1)"
    using Suc.prems by (cases "ws_readyState s") (auto simp: wsOpen_def)
  show ?case
  proof (cases "k = 0")
    case True
    then have "n > 100" using Suc.prems by simp
    then have "waitForWebsocket w f n s = (Inl (Error f), ?s3)"
      using o by (simp add: waitForWebsocket.simps[of w f n] Let_def)
    then show ?thesis using True by (simp add: logger_def setTimeout_def polls_def drop_Suc)
  next
    case False
    then have n: "\<not> n > 100" using Suc.prems by simp
    have t: "True \<notin> set (take k (ws_readyState ?s3))"
      using Suc.prems(1) by (cases "ws_readyState s") (auto simp: logger_def setTimeout_def)
    have "waitForWebsocket w f n s = waitForWebsocket w f (n + 1) ?s3"
      using o n by (simp add: waitForWebsocket.simps[of w f n] Let_def)
    also have "\<dots> = (Inl (Error f), ?s3\<lparr>ws_readyState := drop k (ws_readyState ?s3), trace := trace ?s3 @ polls w k\<rparr>)"
      using Suc.prems False t by (intro Suc.IH) simp_all
    finally show ?thesis by (simp add: logger_def setTimeout_def polls_def drop_Suc)
  qed
qed

lemma find_upsert:
  "find (\<lambda>b'. blockHash b' = blockHash b)
     (if list_ex (\<lambda>b'. blockHash b' = blockHash b) bs
      then map (\<lambda>b'. if blockHash b' = blockHash b then b else b') bs
      else bs @ [b]) = Some b"
proof (cases "\<exists>b' \<in> set bs. blockHash b' = blockHash b")
  case True
  then have "find (\<lambda>b'. blockHash b' = blockHash b)
               (map (\<lambda>b'. if blockHash b' = blockHash b then b else b') bs) = Some b"
    by (induction bs) auto
  then show ?thesis using True by (simp add: list_ex_iff)
next
  case False
  then have "find (\<lambda>b'. blockHash b' = blockHash b) (bs @ [b]) = Some b"
    by (induction bs) auto
  then show ?thesis using False by (simp add: list_ex_iff)
qed

lemma blockHash_extend [simp]: "blockHash (block.extend b m) = blockHash b"
  by (simp add: block.defs)

lemma blockNumberL2_extend [simp]: "blockNumberL2 (block.extend b m) = blockNumberL2 b"
  by (simp add: block.defs)

lemma blockProposed_apply_eq:
  "blockProposed_apply upd data s =
     s\<lparr>blocks := blocks (saveBlock (block.extend (ev_block data)
                    (stored_block.fields (Some (ev_blockNumber data)) (ev_transactionHash data))) s),
       mempool_removed := mempool_removed s @ transactionHashes (ev_block data),
       nullifiers_db := nullifiers_db (stampNullifiers
          (concat (map (\<lambda>tx. filter (\<lambda>nulls. nulls \<noteq> ZERO) (nullifiers tx)) (ev_transactions data)))
          (blockHash (ev_block data)) s),
       trees := (ev_blockNumber data, blockNumberL2 (ev_block data),
                 statelessUpdate upd (getLatestTree s)
                   (concat (map (\<lambda>t. filter (\<lambda>c. c \<noteq> ZERO) (commitments t)) (ev_transactions data))))
                # trees s,
       trace := trace s @
         [Log ''info'' ''Received BlockProposed event'',
          SaveBlock (blockHash (ev_block data)),
          StampNullifiers
            (concat (map (\<lambda>tx. filter (\<lambda>nulls. nulls \<noteq> ZERO) (nullifiers tx)) (ev_transactions data)))
            (blockHash (ev_block data)),
          RemoveTransactionsFromMemPool (blockHash (ev_block data)),
          SaveTree (ev_blockNumber data) (blockNumberL2 (ev_block data))
            (statelessUpdate upd (getLatestTree s)
               (concat (map (\<lambda>t. filter (\<lambda>c. c \<noteq> ZERO) (commitments t)) (ev_transactions data)))),
          Log ''debug'' ''Saving tree with block number'']\<rparr>"
  by (simp add: blockProposed_apply_def Let_def logger_def saveBlock_def stampNullifiers_def
        removeTransactionsFromMemPool_def saveTree_def getLatestTree_def)

lemma handler_effect:
  "\<exists>cs rs rn uh evs. snd (blockProposedEventHandler chk upd data s) =
       (blockProposed_apply upd data s)
         \<lparr>commits := commits s @ cs, ws_readyState := rs, rand_next := rn, unhandled := uh,
          trace := trace (blockProposed_apply upd data s) @ CheckBlock (blockHash (ev_block data)) # evs\<rparr>
      \<and> (\<forall>(h, p) \<in> set cs. h = SoliditySha3 p)
      \<and> (\<forall>e \<in> set evs. (\<exists>l m. e = Log l m) \<or> (\<exists>h p. e = SaveCommit h p)
            \<or> e = SetTimeout 3000 \<or> (\<exists>c. e = WsSend (Commit c)))"
proof -
  let ?goal = ?thesis
  let ?a = "blockProposed_apply upd data s"
  let ?s2 = "?a\<lparr>trace := trace ?a @ [CheckBlock (blockHash (ev_block data))]\<rparr>"
  have ca: "commits ?a = commits s" "ws_readyState ?a = ws_readyState s"
    "rand_next ?a = rand_next s" "unhandled ?a = unhandled s"
    by (simp_all add: blockProposed_apply_eq)
  have simple: "\<And>l m. snd (blockProposedEventHandler chk upd data s) = logger l m ?s2 \<Longrightarrow> ?goal"
  proof -
    fix l m assume "snd (blockProposedEventHandler chk upd data s) = logger l m ?s2"
    then have "snd (blockProposedEventHandler chk upd data s) =
       ?a\<lparr>commits := commits s @ [], ws_readyState := ws_readyState s, rand_next := rand_next s,
          unhandled := unhandled s,
          trace := trace ?a @ CheckBlock (blockHash (ev_block data)) # [Log l m]\<rparr>"
      using ca by (simp add: logger_def)
    then show ?goal
      by (intro exI[of _ "[]"] exI[of _ "ws_readyState s"] exI[of _ "rand_next s"]
            exI[of _ "unhandled s"] exI[of _ "[Log l m]"]) simp
  qed
  show ?thesis
  proof (cases "chk ?a (ev_block data) (ev_transactions data)")
    case None
    then show ?thesis by (intro simple) (simp add: blockProposedEventHandler_def Let_def)
  next
    case (Some err)
    show ?thesis
    proof (cases "\<exists>code md. err = BlockError code md")
      case False
      then have "snd (blockProposedEventHandler chk upd data s) = logger ''error'' (toString err) ?s2"
        using Some by (cases err) (simp_all add: blockProposedEventHandler_def Let_def)
      then show ?thesis by (rule simple)
    next
      case True
      then obtain code md where e: "err = BlockError code md" by blast
      let ?s3 = "logger ''warn'' ''Block Checker - Block invalid'' ?s2"
      have h: "blockProposedEventHandler chk upd data s =
            createChallenge (ev_block data) (ev_transactions data) code md ?s3"
        using Some e by (simp add: blockProposedEventHandler_def Let_def)
      obtain cs rs rn uh evs where
        c: "snd (createChallenge (ev_block data) (ev_transactions data) code md ?s3) =
           ?s3\<lparr>commits := commits ?s3 @ cs, ws_readyState := rs, rand_next := rn, unhandled := uh,
               trace := trace ?s3 @ evs\<rparr>"
        and wf: "\<forall>(h, p) \<in> set cs. h = SoliditySha3 p"
        and ev: "\<forall>e \<in> set evs. (\<exists>l m. e = Log l m) \<or> (\<exists>h p. e = SaveCommit h p)
            \<or> e = SetTimeout 3000 \<or> (\<exists>c. e = WsSend (Commit c))"
        using createChallenge_effect[of "ev_block data" "ev_transactions data" code md ?s3] by blast
      have "snd (blockProposedEventHandler chk upd data s) =
         ?a\<lparr>commits := commits s @ cs, ws_readyState := rs, rand_next := rn, unhandled := uh,
            trace := trace ?a @ CheckBlock (blockHash (ev_block data))
                       # (Log ''warn'' ''Block Checker - Block invalid'' # evs)\<rparr>"
        using h c ca by (simp add: logger_def)
      then show ?thesis using wf ev
        by (intro exI[of _ cs] exI[of _ rs] exI[of _ rn] exI[of _ uh]
              exI[of _ "Log ''warn'' ''Block Checker - Block invalid'' # evs"]) auto
    qed
  qed
qed

lemma split_after_prefix:
  "xs @ ys = pre @ b # post \<Longrightarrow> b \<notin> set xs \<Longrightarrow> \<exists>pre'. pre = xs @ pre' \<and> ys = pre' @ b # post"
proof (induction xs arbitrary: pre)
  case Nil
  then show ?case by simp
next
  case (Cons x xs)
  then show ?case by (cases pre) auto
qed

lemma commitToChallenge_open:
  "ws_readyState s = True # rs \<Longrightarrow> p \<noteq> None \<Longrightarrow>
   commitToChallenge p s =
     (Inr (), s\<lparr>commits := commits s @ [(SoliditySha3 p, p)], ws_readyState := rs,
               trace := trace s @
                 [Log ''debug'' ''raw transaction for committing to challenge has been sent to be signed and submitted'',
                  SaveCommit (SoliditySha3 p) p,
                  WsSend (Commit (CommitToChallenge (SoliditySha3 p)))]\<rparr>)"
  by (simp add: commitToChallenge_def Let_def logger_def saveCommit_def ws_send_def
        waitForWebsocket_open[where rs = rs] split: option.splits)

lemma commit_send_position:
  assumes "trace (snd (commitToChallenge p s)) = trace s @ pre @ WsSend m # post"
  shows "m = Commit (CommitToChallenge (SoliditySha3 p)) \<and> post = [] \<and>
         SaveCommit (SoliditySha3 p) p \<in> set pre"
proof -
  let ?L = "Log ''debug'' ''raw transaction for committing to challenge has been sent to be signed and submitted''"
  have some: "p \<noteq> None"
  proof
    assume "p = None"
    then show False using assms by (simp add: commitToChallenge_undefined)
  qed
  obtain rs evs where
    h: "snd (commitToChallenge p s) =
       s\<lparr>commits := commits s @ [(SoliditySha3 p, p)], ws_readyState := rs,
         trace := trace s @ [?L, SaveCommit (SoliditySha3 p) p]
           @ evs @ (if fst (commitToChallenge p s) = Inr ()
                    then [WsSend (Commit (CommitToChallenge (SoliditySha3 p)))] else [])\<rparr>"
    and a: "\<forall>e \<in> set evs. e = SetTimeout 3000 \<or> e = Log ''warn'' commit_warning"
    using commitToChallenge_effect[OF some, of s] by blast
  let ?front = "[?L, SaveCommit (SoliditySha3 p) p] @ evs"
  have nf: "WsSend m \<notin> set ?front" using a by auto
  have eq: "pre @ WsSend m # post = ?front @ (if fst (commitToChallenge p s) = Inr ()
                    then [WsSend (Commit (CommitToChallenge (SoliditySha3 p)))] else [])"
    using assms h by simp
  show ?thesis
  proof (cases "fst (commitToChallenge p s) = Inr ()")
    case True
    then have "?front @ [WsSend (Commit (CommitToChallenge (SoliditySha3 p)))] = pre @ WsSend m # post"
      using eq by simp
    from split_last[OF this nf] show ?thesis by auto
  next
    case False
    then have "?front = pre @ WsSend m # post" using eq by simp
    then have "WsSend m \<in> set ?front" by (metis in_set_conv_decomp)
    then show ?thesis using nf by blast
  qed
qed

lemma confirmed_append:
  assumes x: "\<forall>pre p post. xs = pre @ WsSend (Challenge p) # post \<longrightarrow> CommitMined (SoliditySha3 p) \<in> set pre"
    and y: "\<forall>pre p post. ys = pre @ WsSend (Challenge p) # post \<longrightarrow> CommitMined (SoliditySha3 p) \<in> set pre"
  shows "\<forall>pre p post. xs @ ys = pre @ WsSend (Challenge p) # post \<longrightarrow> CommitMined (SoliditySha3 p) \<in> set pre"
proof (intro allI impI)
  fix pre p post
  assume e: "xs @ ys = pre @ WsSend (Challenge p) # post"
  then consider us where "xs = pre @ us" "us @ ys = WsSend (Challenge p) # post"
    | us where "xs @ us = pre" "ys = us @ WsSend (Challenge p) # post"
    by (auto simp: append_eq_append_conv2)
  then show "CommitMined (SoliditySha3 p) \<in> set pre"
  proof cases
    case 1
    show ?thesis
    proof (cases us)
      case Nil
      then have "ys = [] @ WsSend (Challenge p) # post" using 1 by simp
      then have "CommitMined (SoliditySha3 p) \<in> set ([]::event list)" using y by blast
      then show ?thesis by simp
    next
      case (Cons u us')
      then have "xs = pre @ WsSend (Challenge p) # us'" using 1 by simp
      then show ?thesis using x by blast
    qed
  next
    case 2
    then have "CommitMined (SoliditySha3 p) \<in> set us" using y by blast
    then show ?thesis using 2 by auto
  qed
qed

lemma no_reveal_confirmed:
  assumes "\<forall>e \<in> set evs. \<forall>p. e \<noteq> WsSend (Challenge p)"
  shows "\<forall>pre p post. evs = pre @ WsSend (Challenge p) # post \<longrightarrow> CommitMined (SoliditySha3 p) \<in> set pre"
  using assms by auto

lemma committed_handler_effect:
  assumes wf: "commits_wf s"
  shows "\<exists>rs evs. snd (committedToChallengeEventHandler h s) = s\<lparr>ws_readyState := rs, trace := trace s @ evs\<rparr>
     \<and> (\<forall>pre p post. evs = pre @ WsSend (Challenge p) # post \<longrightarrow> CommitMined (SoliditySha3 p) \<in> set pre)"
proof (cases "map_of (commits s) h")
  case None
  then have "snd (committedToChallengeEventHandler h s) =
      s\<lparr>ws_readyState := ws_readyState s, trace := trace s @ [CommitMined h]\<rparr>"
    by (simp add: committedToChallengeEventHandler_def Let_def)
  then show ?thesis
    by (intro exI[of _ "ws_readyState s"] exI[of _ "[CommitMined h]"])
       (auto simp: append_eq_Cons_conv Cons_eq_append_conv)
next
  case (Some q)
  then have "(h, q) \<in> set (commits s)" by (rule map_of_SomeD)
  then have hq: "h = SoliditySha3 q" using wf by (auto simp: commits_wf_def)
  let ?s1 = "s\<lparr>trace := trace s @ [CommitMined h]\<rparr>"
  let ?L = "Log ''debug'' ''raw challenge transaction has been sent to be signed and submitted''"
  have r: "committedToChallengeEventHandler h s = revealChallenge q ?s1"
    using Some by (simp add: committedToChallengeEventHandler_def Let_def)
  obtain rs evs where
    e: "snd (revealChallenge q ?s1) =
       ?s1\<lparr>ws_readyState := rs,
         trace := trace ?s1 @ ?L # evs @ (if fst (revealChallenge q ?s1) = Inr () then [WsSend (Challenge q)] else [])\<rparr>"
    and a: "\<forall>e \<in> set evs. e = SetTimeout 3000 \<or> e = Log ''warn'' reveal_warning"
    using revealChallenge_effect[of q ?s1] by blast
  let ?front = "CommitMined h # ?L # evs"
  let ?new = "?front @ (if fst (revealChallenge q ?s1) = Inr () then [WsSend (Challenge q)] else [])"
  have nf: "\<And>p. WsSend (Challenge p) \<notin> set ?front" using a by auto
  have "snd (committedToChallengeEventHandler h s) = s\<lparr>ws_readyState := rs, trace := trace s @ ?new\<rparr>"
    using r e by simp
  moreover have "\<forall>pre p post. ?new = pre @ WsSend (Challenge p) # post \<longrightarrow> CommitMined (SoliditySha3 p) \<in> set pre"
  proof (intro allI impI)
    fix pre p post
    assume eq: "?new = pre @ WsSend (Challenge p) # post"
    show "CommitMined (SoliditySha3 p) \<in> set pre"
    proof (cases "fst (revealChallenge q ?s1) = Inr ()")
      case True
      then have "?front @ [WsSend (Challenge q)] = pre @ WsSend (Challenge p) # post"
        using eq by simp
      from split_last[OF this nf] have "pre = ?front" "p = q" by auto
      then show ?thesis using hq by simp
    next
      case False
      then have "?front = pre @ WsSend (Challenge p) # post" using eq by simp
      then have "WsSend (Challenge p) \<in> set ?front" by (metis in_set_conv_decomp)
      then show ?thesis using nf by blast
    qed
  qed
  ultimately show ?thesis by blast
qed

lemma remove_handler_frame:
  "trace (snd (removeBlockProposedEventHandler h s)) = trace s \<and>
   commits (snd (removeBlockProposedEventHandler h s)) = commits s"
  by (simp add: removeBlockProposedEventHandler_def unstampNullifiers_def rollback_def Let_def
        split: option.splits)

lemma deliver_effect:
  assumes wf: "commits_wf s"
  shows "\<exists>evs. trace (snd (deliver chk upd i s)) = trace s @ evs
     \<and> (\<forall>pre p post. evs = pre @ WsSend (Challenge p) # post \<longrightarrow> CommitMined (SoliditySha3 p) \<in> set pre)
     \<and> commits_wf (snd (deliver chk upd i s))"
proof (cases i)
  case (BlockProposed data)
  obtain cs rs rn uh evs where
    h: "snd (blockProposedEventHandler chk upd data s) =
       (blockProposed_apply upd data s)
         \<lparr>commits := commits s @ cs, ws_readyState := rs, rand_next := rn, unhandled := uh,
          trace := trace (blockProposed_apply upd data s) @ CheckBlock (blockHash (ev_block data)) # evs\<rparr>"
    and c: "\<forall>(h, p) \<in> set cs. h = SoliditySha3 p"
    and ev: "\<forall>e \<in> set evs. (\<exists>l m. e = Log l m) \<or> (\<exists>h p. e = SaveCommit h p)
            \<or> e = SetTimeout 3000 \<or> (\<exists>c. e = WsSend (Commit c))"
    using handler_effect[of chk upd data s] by blast
  obtain evs0 where t0: "trace (blockProposed_apply upd data s) = trace s @ evs0"
    and n0: "\<forall>e \<in> set evs0. \<forall>p. e \<noteq> WsSend (Challenge p)"
    by (simp add: blockProposed_apply_eq)
  let ?new = "evs0 @ CheckBlock (blockHash (ev_block data)) # evs"
  have "trace (snd (deliver chk upd i s)) = trace s @ ?new"
    using BlockProposed h t0 by simp
  moreover have "\<forall>e \<in> set ?new. \<forall>p. e \<noteq> WsSend (Challenge p)" using n0 ev by auto
  moreover have "commits_wf (snd (deliver chk upd i s))"
    using BlockProposed h c wf by (auto simp: commits_wf_def)
  ultimately show ?thesis using no_reveal_confirmed by blast
next
  case (BlockProposedRemoved h)
  then have "trace (snd (deliver chk upd i s)) = trace s @ []" "commits_wf (snd (deliver chk upd i s))"
    using remove_handler_frame[of h s] wf by (simp_all add: commits_wf_def)
  then show ?thesis by (intro exI[of _ "[]"]) simp
next
  case (CommittedToChallenge h)
  obtain rs evs where
    e: "snd (committedToChallengeEventHandler h s) = s\<lparr>ws_readyState := rs, trace := trace s @ evs\<rparr>"
    and c: "\<forall>pre p post. evs = pre @ WsSend (Challenge p) # post \<longrightarrow> CommitMined (SoliditySha3 p) \<in> set pre"
    using committed_handler_effect[OF wf, of h] by blast
  then show ?thesis using CommittedToChallenge wf
    by (intro exI[of _ evs]) (simp add: commits_wf_def)
next
  case StartMakingChallenges
  then show ?thesis using wf
    by (intro exI[of _ "[Log ''info'' ''Challenges ON'']"])
       (auto simp: startMakingChallenges_def logger_def commits_wf_def
          append_eq_Cons_conv Cons_eq_append_conv)
next
  case StopMakingChallenges
  then show ?thesis using wf
    by (intro exI[of _ "[Log ''info'' ''Challenges OFF'']"])
       (auto simp: stopMakingChallenges_def logger_def commits_wf_def
          append_eq_Cons_conv Cons_eq_append_conv)
next
  case (SetChallengeWebSocketConnection rs)
  then show ?thesis using wf
    by (intro exI[of _ "[]"]) (simp add: setChallengeWebSocketConnection_def commits_wf_def)
qed

lemma run_effect:
  "commits_wf s \<Longrightarrow> \<exists>evs. trace (run chk upd inputs s) = trace s @ evs
     \<and> (\<forall>pre p post. evs = pre @ WsSend (Challenge p) # post \<longrightarrow> CommitMined (SoliditySha3 p) \<in> set pre)"
proof (induction inputs arbitrary: s)
  case Nil
  then show ?case by (intro exI[of _ "[]"]) simp
next
  case (Cons i inputs)
  obtain evs1 where
    t1: "trace (snd (deliver chk upd i s)) = trace s @ evs1"
    and c1: "\<forall>pre p post. evs1 = pre @ WsSend (Challenge p) # post \<longrightarrow> CommitMined (SoliditySha3 p) \<in> set pre"
    and wf1: "commits_wf (snd (deliver chk upd i s))"
    using deliver_effect[OF Cons.prems, of chk upd i] by blast
  obtain evs2 where
    t2: "trace (run chk upd inputs (snd (deliver chk upd i s))) = trace (snd (deliver chk upd i s)) @ evs2"
    and c2: "\<forall>pre p post. evs2 = pre @ WsSend (Challenge p) # post \<longrightarrow> CommitMined (SoliditySha3 p) \<in> set pre"
    using Cons.IH[OF wf1] by blast
  have "trace (run chk upd (i # inputs) s) = trace s @ (evs1 @ evs2)"
    using t1 t2 by simp
  then show ?case using confirmed_append[OF c1 c2] by blast
qed

lemma sent_append: "sent (xs @ ys) = sent xs @ sent ys"
  by (induction xs rule: sent.induct) simp_all

lemma sent_polls: "sent (polls w k) = []"
  by (induction k) (simp_all add: polls_def)

lemma sent_logs: "\<forall>e \<in> set evs. \<exists>l m. e = Log l m \<Longrightarrow> sent evs = []"
  by (induction evs) auto

lemma switch_reads:
  assumes "blocks s' = blocks s" "transactions_db s' = transactions_db s"
    "nullifiers_db s' = nullifiers_db s" "trees s' = trees s"
  shows "fst (createChallenge_switch block txs code md salt s') =
         fst (createChallenge_switch block txs code md salt s)"
proof -
  have g: "\<And>n. getBlockByBlockNumberL2 n s' = getBlockByBlockNumberL2 n s"
    "\<And>h. getBlockByBlockHash h s' = getBlockByBlockHash h s"
    "\<And>h. getBlockByTransactionHash h s' = getBlockByTransactionHash h s"
    "\<And>hs. getTransactionsByTransactionHashes hs s' = getTransactionsByTransactionHashes hs s"
    "retrieveMinedNullifiers s' = retrieveMinedNullifiers s"
    "\<And>r. getTreeByRoot r s' = getTreeByRoot r s"
    using assms
    by (simp_all add: getBlockByBlockNumberL2_def getBlockByBlockHash_def
          getBlockByTransactionHash_def getTransactionsByTransactionHashes_def
          retrieveMinedNullifiers_def getTreeByRoot_def)
  have "createChallenge_case0 block txs salt s' = createChallenge_case0 block txs salt s"
    unfolding createChallenge_case0_def g by (rule refl)
  moreover have "createChallenge_case1 block txs md salt s' = createChallenge_case1 block txs md salt s"
    unfolding createChallenge_case1_def g by (rule refl)
  moreover have "createChallenge_case4 block txs md salt s' = createChallenge_case4 block txs md salt s"
    unfolding createChallenge_case4_def g by (rule refl)
  moreover have "createChallenge_case6 block txs salt s' = createChallenge_case6 block txs salt s"
    unfolding createChallenge_case6_def g by (rule refl)
  moreover have "createChallenge_case7 block txs salt s' = createChallenge_case7 block txs salt s"
    unfolding createChallenge_case7_def g by (rule refl)
  ultimately show ?thesis by (simp add: createChallenge_switch_def)
qed

lemma switch_log_only:
  "\<exists>evs. createChallenge_switch block txs code md salt s =
      (fst (createChallenge_switch block txs code md salt s), s\<lparr>trace := trace s @ evs\<rparr>)
      \<and> (\<forall>e \<in> set evs. \<exists>l m. e = Log l m)"
  using switch_effect[of block txs code md salt s]
  by (metis prod.collapse)

lemma createChallenge_off:
  "\<not> makeChallenges s \<Longrightarrow>
   createChallenge block txs code md s =
     (Inr (), logger ''info''
        ''Faulty block detected. Do not submit new blocks until the faulty blocks are removed'' s)"
  by (simp add: createChallenge_def)

lemma createChallenge_throws:
  assumes "makeChallenges s"
    and "fst (createChallenge_switch block txs code md (rand_next s) s) = Inl e"
  shows "fst (createChallenge block txs code md s) = Inl e
     \<and> commits (snd (createChallenge block txs code md s)) = commits s
     \<and> sent (trace (snd (createChallenge block txs code md s))) = sent (trace s)
     \<and> unhandled (snd (createChallenge block txs code md s)) = unhandled s"
proof -
  let ?s1 = "s\<lparr>rand_next := Suc (rand_next s)\<rparr>"
  obtain evs where
    sw: "createChallenge_switch block txs code md (rand_next s) ?s1 =
      (fst (createChallenge_switch block txs code md (rand_next s) ?s1), ?s1\<lparr>trace := trace ?s1 @ evs\<rparr>)"
    and l: "\<forall>e \<in> set evs. \<exists>l m. e = Log l m"
    using switch_log_only by blast
  have "fst (createChallenge_switch block txs code md (rand_next s) ?s1) = Inl e"
    using assms(2) switch_reads[of ?s1 s] by simp
  then have "createChallenge_switch block txs code md (rand_next s) ?s1 = (Inl e, ?s1\<lparr>trace := trace ?s1 @ evs\<rparr>)"
    using sw by simp
  then have "createChallenge block txs code md s = (Inl e, ?s1\<lparr>trace := trace ?s1 @ evs\<rparr>)"
    using assms(1) by (simp add: createChallenge_def rand_def)
  then show ?thesis using l by (simp add: sent_append sent_logs)
qed

lemma createChallenge_builds:
  assumes "makeChallenges s"
    and "fst (createChallenge_switch block txs code md (rand_next s) s) = Inr p"
  shows "\<exists>evs. (\<forall>e \<in> set evs. \<exists>l m. e = Log l m) \<and>
     createChallenge block txs code md s =
       (case commitToChallenge p (s\<lparr>rand_next := Suc (rand_next s), trace := trace s @ evs\<rparr>) of
          (Inl e, s3) \<Rightarrow> (Inr (), s3\<lparr>unhandled := unhandled s3 @ [e]\<rparr>)
        | (Inr u, s3) \<Rightarrow> (Inr (), s3))"
proof -
  let ?s1 = "s\<lparr>rand_next := Suc (rand_next s)\<rparr>"
  obtain evs where
    sw: "createChallenge_switch block txs code md (rand_next s) ?s1 =
      (fst (createChallenge_switch block txs code md (rand_next s) ?s1), ?s1\<lparr>trace := trace ?s1 @ evs\<rparr>)"
    and l: "\<forall>e \<in> set evs. \<exists>l m. e = Log l m"
    using switch_log_only by blast
  have "fst (createChallenge_switch block txs code md (rand_next s) ?s1) = Inr p"
    using assms(2) switch_reads[of ?s1 s] by simp
  then have "createChallenge_switch block txs code md (rand_next s) ?s1 = (Inr p, ?s1\<lparr>trace := trace ?s1 @ evs\<rparr>)"
    using sw by simp
  then have "createChallenge block txs code md s =
       (case commitToChallenge p (s\<lparr>rand_next := Suc (rand_next s), trace := trace s @ evs\<rparr>) of
          (Inl e, s3) \<Rightarrow> (Inr (), s3\<lparr>unhandled := unhandled s3 @ [e]\<rparr>)
        | (Inr u, s3) \<Rightarrow> (Inr (), s3))"
    using assms(1) by (simp add: createChallenge_def rand_def)
  then show ?thesis using l by blast
qed

lemma commitToChallenge_closed:
  assumes "True \<notin> set (take 102 (ws_readyState s))" "p \<noteq> None"
  shows "commitToChallenge p s =
     (Inl (Error ''Websocket to challenger has failed''),
      s\<lparr>commits := commits s @ [(SoliditySha3 p, p)],
        ws_readyState := drop 102 (ws_readyState s),
        trace := trace s @
          [Log ''debug'' ''raw transaction for committing to challenge has been sent to be signed and submitted'',
           SaveCommit (SoliditySha3 p) p] @ polls commit_warning 102\<rparr>)"
proof -
  obtain tx where p: "p = Some tx" using assms(2) by (cases p) auto
  let ?s2 = "saveCommit (SoliditySha3 (Some tx)) (Some tx) (logger ''debug'' ''raw transaction for committing to challenge has been sent to be signed and submitted'' s)"
  have "True \<notin> set (take 102 (ws_readyState ?s2))"
    using assms(1) by (simp add: saveCommit_def logger_def)
  from waitForWebsocket_closed[OF this, of 0 commit_warning "''Websocket to challenger has failed''"]
  show ?thesis
    unfolding p by (simp add: commitToChallenge_def Let_def saveCommit_def logger_def)
qed

lemma commitToChallenge_opens:
  assumes "ws_readyState s = replicate k False @ True # rs" "k \<le> 101" "p \<noteq> None"
  shows "commitToChallenge p s =
     (Inr (),
      s\<lparr>commits := commits s @ [(SoliditySha3 p, p)],
        ws_readyState := rs,
        trace := trace s @
          [Log ''debug'' ''raw transaction for committing to challenge has been sent to be signed and submitted'',
           SaveCommit (SoliditySha3 p) p] @ polls commit_warning k @
          [WsSend (Commit (CommitToChallenge (SoliditySha3 p)))]\<rparr>)"
proof -
  obtain tx where p: "p = Some tx" using assms(3) by (cases p) auto
  let ?s2 = "saveCommit (SoliditySha3 (Some tx)) (Some tx) (logger ''debug'' ''raw transaction for committing to challenge has been sent to be signed and submitted'' s)"
  have "ws_readyState ?s2 = replicate k False @ True # rs"
    using assms(1) by (simp add: saveCommit_def logger_def)
  from waitForWebsocket_opens[OF this, of 0 commit_warning "''Websocket to challenger has failed''"]
    assms(2)
  show ?thesis
    unfolding p
    by (simp add: commitToChallenge_def Let_def saveCommit_def logger_def ws_send_def)
qed

lemma createChallenge_closed:
  assumes on: "makeChallenges s" and cl: "True \<notin> set (take 102 (ws_readyState s))"
    and sw: "fst (createChallenge_switch block txs code md (rand_next s) s) = Inr (Some tx)"
  shows "fst (createChallenge block txs code md s) = Inr () \<and>
     commits (snd (createChallenge block txs code md s)) =
       commits s @ [(SoliditySha3 (Some tx), Some tx)] \<and>
     sent (trace (snd (createChallenge block txs code md s))) = sent (trace s) \<and>
     unhandled (snd (createChallenge block txs code md s)) =
       unhandled s @ [Error ''Websocket to challenger has failed'']"
proof -
  obtain evs where l: "\<forall>e \<in> set evs. \<exists>l m. e = Log l m"
    and c: "createChallenge block txs code md s =
       (case commitToChallenge (Some tx) (s\<lparr>rand_next := Suc (rand_next s), trace := trace s @ evs\<rparr>) of
          (Inl e, s3) \<Rightarrow> (Inr (), s3\<lparr>unhandled := unhandled s3 @ [e]\<rparr>)
        | (Inr u, s3) \<Rightarrow> (Inr (), s3))"
    using createChallenge_builds[OF on sw] by blast
  let ?s2 = "s\<lparr>rand_next := Suc (rand_next s), trace := trace s @ evs\<rparr>"
  have o: "True \<notin> set (take 102 (ws_readyState ?s2))" using cl by simp
  have np: "Some tx \<noteq> None" by simp
  from commitToChallenge_closed[OF o np] c l
  show ?thesis by (simp add: sent_append sent_logs sent_polls)
qed

lemma revealChallenge_open:
  "ws_readyState s = True # rs \<Longrightarrow>
   revealChallenge p s =
     (Inr (), s\<lparr>ws_readyState := rs,
               trace := trace s @
                 [Log ''debug'' ''raw challenge transaction has been sent to be signed and submitted'',
                  WsSend (Challenge p)]\<rparr>)"
  by (simp add: revealChallenge_def Let_def logger_def ws_send_def
        waitForWebsocket_open[where rs = rs])

lemma revealChallenge_flag:
  "revealChallenge p (s\<lparr>makeChallenges := b\<rparr>) =
     (fst (revealChallenge p s), (snd (revealChallenge p s))\<lparr>makeChallenges := b\<rparr>)"
proof -
  let ?s1 = "logger ''debug'' ''raw challenge transaction has been sent to be signed and submitted'' s"
  have l: "logger ''debug'' ''raw challenge transaction has been sent to be signed and submitted''
             (s\<lparr>makeChallenges := b\<rparr>) = ?s1\<lparr>makeChallenges := b\<rparr>"
    by (simp add: logger_def)
  obtain r sw where w: "waitForWebsocket reveal_warning ''Websocket to $challenger has failed'' 0 ?s1 = (r, sw)"
    by (cases "waitForWebsocket reveal_warning ''Websocket to $challenger has failed'' 0 ?s1")
  then have wb: "waitForWebsocket reveal_warning ''Websocket to $challenger has failed'' 0
                  (?s1\<lparr>makeChallenges := b\<rparr>) = (r, sw\<lparr>makeChallenges := b\<rparr>)"
    by (simp add: waitForWebsocket_flag)
  show ?thesis
    unfolding revealChallenge_def Let_def l wb w
    by (cases r) (simp_all add: ws_send_def)
qed

lemma commitToChallenge_flag:
  "commitToChallenge p (s\<lparr>makeChallenges := b\<rparr>) =
     (fst (commitToChallenge p s), (snd (commitToChallenge p s))\<lparr>makeChallenges := b\<rparr>)"
proof -
  let ?s2 = "saveCommit (SoliditySha3 p) p (logger ''debug'' ''raw transaction for committing to challenge has been sent to be signed and submitted'' s)"
  have l: "saveCommit (SoliditySha3 p) p (logger ''debug'' ''raw transaction for committing to challenge has been sent to be signed and submitted''
             (s\<lparr>makeChallenges := b\<rparr>)) = ?s2\<lparr>makeChallenges := b\<rparr>"
    by (simp add: logger_def saveCommit_def)
  obtain r sw where w: "waitForWebsocket commit_warning ''Websocket to challenger has failed'' 0 ?s2 = (r, sw)"
    by (cases "waitForWebsocket commit_warning ''Websocket to challenger has failed'' 0 ?s2")
  then have wb: "waitForWebsocket commit_warning ''Websocket to challenger has failed'' 0
                  (?s2\<lparr>makeChallenges := b\<rparr>) = (r, sw\<lparr>makeChallenges := b\<rparr>)"
    by (simp add: waitForWebsocket_flag)
  show ?thesis
  proof (cases p)
    case None
    then show ?thesis by (simp add: commitToChallenge_undefined)
  next
    case (Some tx)
    have u: "\<And>t. commitToChallenge p t =
        (case waitForWebsocket commit_warning ''Websocket to challenger has failed'' 0
                (saveCommit (SoliditySha3 p) p (logger ''debug'' ''raw transaction for committing to challenge has been sent to be signed and submitted'' t)) of
           (Inl e, s3) \<Rightarrow> (Inl e, s3)
         | (Inr u, s3) \<Rightarrow> (Inr (), ws_send (Commit (CommitToChallenge (SoliditySha3 p))) s3))"
      unfolding Some by (simp add: commitToChallenge_def Let_def)
    show ?thesis
      unfolding u l wb w
      by (cases r) (simp_all add: ws_send_def)
  qed
qed

lemma createChallenge_outcome:
  assumes "makeChallenges s"
  shows "fst (createChallenge block txs code md s) =
           (case fst (createChallenge_switch block txs code md (rand_next s) s) of
              Inl e \<Rightarrow> Inl e | Inr p \<Rightarrow> Inr ())"
proof (cases "fst (createChallenge_switch block txs code md (rand_next s) s)")
  case (Inl e)
  then show ?thesis using createChallenge_throws[OF assms Inl] by simp
next
  case (Inr p)
  obtain evs where
    c: "createChallenge block txs code md s =
       (case commitToChallenge p (s\<lparr>rand_next := Suc (rand_next s), trace := trace s @ evs\<rparr>) of
          (Inl e, s3) \<Rightarrow> (Inr (), s3\<lparr>unhandled := unhandled s3 @ [e]\<rparr>)
        | (Inr u, s3) \<Rightarrow> (Inr (), s3))"
    using createChallenge_builds[OF assms Inr] by blast
  have "fst (createChallenge block txs code md s) = Inr ()"
    unfolding c by (simp split: prod.splits sum.splits)
  then show ?thesis using Inr by simp
qed

lemma switch_code0:
  "fst (createChallenge_switch block txs 0 md salt s) = createChallenge_case0 block txs salt s"
  by (simp add: createChallenge_switch_def)

lemma state1_eq:
  "state1 =
     \<lparr>blocks = [block.extend block_B1 (stored_block.fields (Some 10) ''L1a'')],
      transactions_db = [tx_a, tx_y, tx_b], mempool_removed = [''ta''],
      nullifiers_db = [\<lparr>hash = ''Y'', stampedBlockHash = None\<rparr>,
                       \<lparr>hash = ''X'', stampedBlockHash = Some ''B1''\<rparr>],
      trees = [(10, 0, \<lparr>timber_root = ''c1'', frontier = [''c1''], timber_leafCount = 1\<rparr>)],
      commits = [], makeChallenges = True,
      ws_readyState = [True, True, True, True], rand_next = 0, unhandled = [],
      trace = [Log ''info'' ''Received BlockProposed event'', SaveBlock ''B1'',
               StampNullifiers [''X''] ''B1'', RemoveTransactionsFromMemPool ''B1'',
               SaveTree 10 0 \<lparr>timber_root = ''c1'', frontier = [''c1''], timber_leafCount = 1\<rparr>,
               Log ''debug'' ''Saving tree with block number'', CheckBlock ''B1'',
               Log ''info'' ''Block Checker - Block was valid'']\<rparr>"
  by code_simp

lemma sent_apply: "sent (trace (blockProposed_apply upd data s)) = sent (trace s)"
  by (simp add: blockProposed_apply_eq sent_append)

lemma apply_block_saved:
  "getBlockByBlockHash (blockHash (ev_block data)) (blockProposed_apply upd data s) =
     Some (block.extend (ev_block data)
             (stored_block.fields (Some (ev_blockNumber data)) (ev_transactionHash data)))"
  using find_upsert[of "block.extend (ev_block data)
             (stored_block.fields (Some (ev_blockNumber data)) (ev_transactionHash data))" "blocks s"]
  by (simp add: blockProposed_apply_eq getBlockByBlockHash_def saveBlock_def)

lemma handler_store:
  "blocks (snd (blockProposedEventHandler chk upd data s)) = blocks (blockProposed_apply upd data s) \<and>
   nullifiers_db (snd (blockProposedEventHandler chk upd data s)) = nullifiers_db (blockProposed_apply upd data s) \<and>
   trees (snd (blockProposedEventHandler chk upd data s)) = trees (blockProposed_apply upd data s) \<and>
   transactions_db (snd (blockProposedEventHandler chk upd data s)) = transactions_db (blockProposed_apply upd data s) \<and>
   mempool_removed (snd (blockProposedEventHandler chk upd data s)) = mempool_removed (blockProposed_apply upd data s)"
proof -
  obtain cs rs rn uh evs where
    "snd (blockProposedEventHandler chk upd data s) =
       (blockProposed_apply upd data s)
         \<lparr>commits := commits s @ cs, ws_readyState := rs, rand_next := rn, unhandled := uh,
          trace := trace (blockProposed_apply upd data s) @ CheckBlock (blockHash (ev_block data)) # evs\<rparr>"
    using handler_effect[of chk upd data s] by blast
  then show ?thesis by simp
qed

lemma apply_trace:
  "trace (blockProposed_apply upd data s) = trace s @
         [Log ''info'' ''Received BlockProposed event'',
          SaveBlock (blockHash (ev_block data)),
          StampNullifiers
            (concat (map (\<lambda>tx. filter (\<lambda>nulls. nulls \<noteq> ZERO) (nullifiers tx)) (ev_transactions data)))
            (blockHash (ev_block data)),
          RemoveTransactionsFromMemPool (blockHash (ev_block data)),
          SaveTree (ev_blockNumber data) (blockNumberL2 (ev_block data))
            (statelessUpdate upd (getLatestTree s)
               (concat (map (\<lambda>t. filter (\<lambda>c. c \<noteq> ZERO) (commitments t)) (ev_transactions data)))),
          Log ''debug'' ''Saving tree with block number'']"
  by (simp add: blockProposed_apply_eq)

lemma handler_depends_on_verdict:
  assumes "chk (blockProposed_apply upd data s) (ev_block data) (ev_transactions data) =
           chk' (blockProposed_apply upd data s) (ev_block data) (ev_transactions data)"
  shows "blockProposedEventHandler chk upd data s = blockProposedEventHandler chk' upd data s"
  using assms by (simp add: blockProposedEventHandler_def Let_def)

lemma leafCount_pred:
  "(\<lambda>(bn, l2, t). timber_leafCount t \<noteq> target) =
   Not \<circ> (\<lambda>(bn::int, l2::int, t). timber_leafCount t = target)"
  by auto

lemma rollback_latest:
  assumes "rollback target s = (Inr (), s')"
  shows "getTreeSnapshotAtLeafCount target s = Some (getLatestTree s') \<and>
         timber_leafCount (getLatestTree s') = target \<and>
         s' = s\<lparr>trees := dropWhile (\<lambda>(bn, l2, t). timber_leafCount t \<noteq> target) (trees s)\<rparr>"
proof -
  let ?d = "dropWhile (\<lambda>(bn, l2, t). timber_leafCount t \<noteq> target) (trees s)"
  have sn: "getTreeSnapshotAtLeafCount target s \<noteq> None"
    and s': "s' = s\<lparr>trees := ?d\<rparr>"
    using assms by (auto simp: rollback_def split: option.splits)
  have f: "find (\<lambda>(bn, l2, t). timber_leafCount t = target) (trees s) =
           (case ?d of [] \<Rightarrow> None | x # xs \<Rightarrow> Some x)"
    unfolding leafCount_pred by (rule find_dropWhile)
  have tr': "trees s' = ?d" using s' by simp
  show ?thesis
  proof (cases ?d)
    case Nil
    have gl: "getLatestTree s' = emptyTimber"
      unfolding getLatestTree_def tr' Nil by simp
    have "find (\<lambda>(bn, l2, t). timber_leafCount t = target) (trees s) = None"
      unfolding f Nil by simp
    then have "target = 0" "getTreeSnapshotAtLeafCount target s = Some emptyTimber"
      using sn by (auto simp: getTreeSnapshotAtLeafCount_def split: if_splits)
    moreover have "timber_leafCount emptyTimber = 0" by (simp add: emptyTimber_def)
    ultimately show ?thesis using s' gl by simp
  next
    case (Cons x xs)
    obtain bn l2 t where x: "x = (bn, l2, t)" by (cases x)
    have ne: "?d \<noteq> []" unfolding Cons by simp
    have "\<not> (\<lambda>(bn, l2, t). timber_leafCount t \<noteq> target) (hd ?d)"
      using hd_dropWhile[OF ne] .
    then have lc: "timber_leafCount t = target" unfolding Cons x by simp
    have "find (\<lambda>(bn, l2, t). timber_leafCount t = target) (trees s) = Some (bn, l2, t)"
      unfolding f Cons x by simp
    then have "getTreeSnapshotAtLeafCount target s = Some t"
      by (simp add: getTreeSnapshotAtLeafCount_def)
    moreover have "getLatestTree s' = t"
      unfolding getLatestTree_def tr' Cons x by simp
    ultimately show ?thesis using s' lc by simp
  qed
qed

lemma remove_absent:
  "getBlockByBlockHash h s = None \<Longrightarrow> removeBlockProposedEventHandler h s = (Inl FatalInconsistency, s)"
  by (simp add: removeBlockProposedEventHandler_def)

lemma remove_present:
  assumes b: "getBlockByBlockHash h s = Some b"
    and t: "leafCountBefore (blockNumberL2 b) s = Some target"
    and sn: "getTreeSnapshotAtLeafCount target s \<noteq> None"
  shows "fst (removeBlockProposedEventHandler h s) = Inr () \<and>
     blocks (snd (removeBlockProposedEventHandler h s)) =
       map (\<lambda>b'. if blockHash b' = h then b'\<lparr>blockNumber := None\<rparr> else b') (blocks s) \<and>
     nullifiers_db (snd (removeBlockProposedEventHandler h s)) =
       map (\<lambda>n. if stampedBlockHash n = Some h then n\<lparr>stampedBlockHash := None\<rparr> else n)
         (nullifiers_db s) \<and>
     getTreeSnapshotAtLeafCount target s = Some (getLatestTree (snd (removeBlockProposedEventHandler h s))) \<and>
     timber_leafCount (getLatestTree (snd (removeBlockProposedEventHandler h s))) = target \<and>
     trees (snd (removeBlockProposedEventHandler h s)) =
       dropWhile (\<lambda>(bn, l2, t). timber_leafCount t \<noteq> target) (trees s)"
proof -
  let ?s2 = "unstampNullifiers h
               (s\<lparr>blocks := map (\<lambda>b'. if blockHash b' = h then b'\<lparr>blockNumber := None\<rparr> else b')
                                (blocks s)\<rparr>)"
  have tr: "trees ?s2 = trees s" by (simp add: unstampNullifiers_def)
  have t2: "leafCountBefore (blockNumberL2 b) ?s2 = Some target"
    using t tr by (simp add: leafCountBefore_def)
  have sn2: "getTreeSnapshotAtLeafCount target ?s2 = getTreeSnapshotAtLeafCount target s"
    using tr by (simp add: getTreeSnapshotAtLeafCount_def)
  have r: "removeBlockProposedEventHandler h s = rollback target ?s2"
    using b t2 by (simp add: removeBlockProposedEventHandler_def Let_def)
  obtain s' where rb: "rollback target ?s2 = (Inr (), s')"
    using sn sn2 by (auto simp: rollback_def split: option.splits)
  note rl = rollback_latest[OF rb]
  have A: "getTreeSnapshotAtLeafCount target s = Some (getLatestTree s')"
    using rl[THEN conjunct1] sn2 by simp
  have B: "timber_leafCount (getLatestTree s') = target"
    using rl[THEN conjunct2, THEN conjunct1] .
  have C: "s' = ?s2\<lparr>trees := dropWhile (\<lambda>(bn, l2, t). timber_leafCount t \<noteq> target) (trees ?s2)\<rparr>"
    using rl[THEN conjunct2, THEN conjunct2] .
  have fin: "fst (removeBlockProposedEventHandler h s) = Inr ()"
    "snd (removeBlockProposedEventHandler h s) = s'"
    using r rb by simp_all
  have D: "blocks s' = map (\<lambda>b'. if blockHash b' = h then b'\<lparr>blockNumber := None\<rparr> else b') (blocks s)"
    "nullifiers_db s' =
       map (\<lambda>n. if stampedBlockHash n = Some h then n\<lparr>stampedBlockHash := None\<rparr> else n)
         (nullifiers_db s)"
    "trees s' = dropWhile (\<lambda>(bn, l2, t). timber_leafCount t \<noteq> target) (trees s)"
    by (subst C, simp add: unstampNullifiers_def)+
  show ?thesis unfolding fin using A B D by blast
qed

lemma statelessUpdate_leafCount:
  "timber_leafCount (statelessUpdate upd t leaves) = timber_leafCount t + length leaves"
  by (simp add: statelessUpdate_def split: prod.splits)

lemma insert_then_remove:
  fixes chk upd data s
  defines "s1 \<equiv> snd (blockProposedEventHandler chk upd data s)"
    and "cms \<equiv> concat (map (\<lambda>t. filter (\<lambda>c. c \<noteq> ZERO) (commitments t)) (ev_transactions data))"
  shows "fst (removeBlockProposedEventHandler (blockHash (ev_block data)) s1) = Inr () \<and>
     timber_leafCount (getLatestTree (snd (removeBlockProposedEventHandler (blockHash (ev_block data)) s1))) =
       timber_leafCount (getLatestTree s) \<and>
     (cms \<noteq> [] \<longrightarrow> trees (snd (removeBlockProposedEventHandler (blockHash (ev_block data)) s1)) = trees s)"
proof -
  let ?h = "blockHash (ev_block data)"
  let ?sb = "block.extend (ev_block data)
             (stored_block.fields (Some (ev_blockNumber data)) (ev_transactionHash data))"
  let ?u = "statelessUpdate upd (getLatestTree s) cms"
  let ?target = "timber_leafCount (getLatestTree s)"
  have st: "blocks s1 = blocks (blockProposed_apply upd data s)"
    "trees s1 = trees (blockProposed_apply upd data s)"
    unfolding s1_def using handler_store[of chk upd data s] by simp_all
  have b: "getBlockByBlockHash ?h s1 = Some ?sb"
    using apply_block_saved[of data upd s] st by (simp add: getBlockByBlockHash_def)
  have tr: "trees s1 = (ev_blockNumber data, blockNumberL2 (ev_block data), ?u) # trees s"
    using st by (simp add: blockProposed_apply_eq cms_def)
  have t: "leafCountBefore (blockNumberL2 ?sb) s1 = Some ?target"
    using tr by (cases "trees s")
      (auto simp: leafCountBefore_def getLatestTree_def emptyTimber_def)
  have lu: "timber_leafCount ?u = ?target + length cms"
    by (rule statelessUpdate_leafCount)
  have hd: "trees s \<noteq> [] \<Longrightarrow> (\<lambda>(bn, l2, t). timber_leafCount t = ?target) (hd (trees s))"
    by (cases "trees s") (auto simp: getLatestTree_def)
  have sn: "getTreeSnapshotAtLeafCount ?target s1 \<noteq> None"
  proof (cases "trees s")
    case Nil
    then show ?thesis using tr
      by (simp add: getTreeSnapshotAtLeafCount_def getLatestTree_def emptyTimber_def)
  next
    case (Cons x xs)
    then show ?thesis using tr
      by (cases x) (simp add: getTreeSnapshotAtLeafCount_def getLatestTree_def)
  qed
  note rp = remove_present[OF b t sn]
  have dw: "cms \<noteq> [] \<Longrightarrow> dropWhile (\<lambda>(bn, l2, t). timber_leafCount t \<noteq> ?target) (trees s1) = trees s"
  proof -
    assume "cms \<noteq> []"
    then have "timber_leafCount ?u \<noteq> ?target" using lu by simp
    then have "dropWhile (\<lambda>(bn, l2, t). timber_leafCount t \<noteq> ?target) (trees s1) =
               dropWhile (\<lambda>(bn, l2, t). timber_leafCount t \<noteq> ?target) (trees s)"
      using tr by simp
    also have "\<dots> = trees s"
      by (cases "trees s") (auto simp: getLatestTree_def)
    finally show ?thesis .
  qed
  show ?thesis using rp dw by simp
qed

lemma removed_blocks_null:
  "\<forall>b' \<in> set (map (\<lambda>b'. if blockHash b' = h then b'\<lparr>blockNumber := None\<rparr> else b')
                 (bs :: stored_block list)).
         blockHash b' = h \<longrightarrow> blockNumber b' = None"
proof (intro ballI impI)
  fix b' :: stored_block
  assume m: "b' \<in> set (map (\<lambda>b'. if blockHash b' = h then b'\<lparr>blockNumber := None\<rparr> else b') bs)"
    and h: "blockHash b' = h"
  from m obtain x where x: "x \<in> set bs"
    and b': "b' = (if blockHash x = h then x\<lparr>blockNumber := None\<rparr> else x)"
    unfolding set_map by blast
  show "blockNumber b' = None"
  proof (cases "blockHash x = h")
    case True
    then have "b' = x\<lparr>blockNumber := None\<rparr>" using b' by simp
    then show ?thesis by simp
  next
    case False
    then have "b' = x" using b' by simp
    then show ?thesis using h False by simp
  qed
qed

lemma unstamped_nullifiers:
  "\<forall>n \<in> set (map (\<lambda>n. if stampedBlockHash n = Some h then n\<lparr>stampedBlockHash := None\<rparr> else n)
                (ns :: nullifier list)).
         stampedBlockHash n \<noteq> Some h"
proof (intro ballI)
  fix n :: nullifier
  assume m: "n \<in> set (map (\<lambda>n. if stampedBlockHash n = Some h then n\<lparr>stampedBlockHash := None\<rparr> else n) ns)"
  from m obtain x where x: "x \<in> set ns"
    and n: "n = (if stampedBlockHash x = Some h then x\<lparr>stampedBlockHash := None\<rparr> else x)"
    unfolding set_map by blast
  show "stampedBlockHash n \<noteq> Some h"
  proof (cases "stampedBlockHash x = Some h")
    case True
    then have "n = x\<lparr>stampedBlockHash := None\<rparr>" using n by simp
    then show ?thesis by simp
  next
    case False
    then have "n = x" using n by simp
    then show ?thesis using False by simp
  qed
qed

section \<open>The claims\<close>

text \<open>
  C1. For every challenge, the reveal message is sent over the channel only after the
  confirmation that its matching commit is mined has been observed, under every interleaving
  and delay of the events. In the trace of any run, from any state whose commit store is
  well formed and over any sequence of inputs, every reveal of a payload is preceded by the
  observation of the confirmation of the commit hash of that payload. The handler of the
  confirmation is modelled from the specification; \<^verbatim>\<open>createChallenge\<close> and
  \<^verbatim>\<open>commitToChallenge\<close> never send a reveal.
\<close>

theorem reveal_only_after_confirmation:
  "commits_wf s \<Longrightarrow>
   trace (run checkBlock updateNodes inputs s) = trace s @ pre @ WsSend (Challenge p) # post \<Longrightarrow>
   CommitMined (SoliditySha3 p) \<in> set pre"
proof -
  assume wf: "commits_wf s"
    and t: "trace (run checkBlock updateNodes inputs s) = trace s @ pre @ WsSend (Challenge p) # post"
  obtain evs where
    "trace (run checkBlock updateNodes inputs s) = trace s @ evs"
    and c: "\<forall>pre p post. evs = pre @ WsSend (Challenge p) # post \<longrightarrow> CommitMined (SoliditySha3 p) \<in> set pre"
    using run_effect[OF wf] by blast
  then have "evs = pre @ WsSend (Challenge p) # post" using t by simp
  then show ?thesis using c by blast
qed

text \<open>Block \<open>B1\<close> is rejected with code 2, its commit is sent and confirmed, and the reveal
  follows the confirmation.\<close>

theorem reveal_only_after_confirmation_witness:
  "commits_wf state0 \<and>
   trace (run (reject_with 2) toy_updateNodes
            [BlockProposed data_B1, CommittedToChallenge (SoliditySha3 challenge_B1)] state0) =
     trace state0 @
     [Log ''info'' ''Received BlockProposed event'', SaveBlock ''B1'',
      StampNullifiers [''X''] ''B1'', RemoveTransactionsFromMemPool ''B1'',
      SaveTree 10 0 \<lparr>timber_root = ''c1'', frontier = [''c1''], timber_leafCount = 1\<rparr>,
      Log ''debug'' ''Saving tree with block number'', CheckBlock ''B1'',
      Log ''warn'' ''Block Checker - Block invalid'',
      Log ''debug'' ''returning raw transaction'', Log ''silly'' ''raw transaction is'',
      Log ''debug''
        ''raw transaction for committing to challenge has been sent to be signed and submitted'',
      SaveCommit (SoliditySha3 challenge_B1) challenge_B1,
      WsSend (Commit (CommitToChallenge (SoliditySha3 challenge_B1))),
      CommitMined (SoliditySha3 challenge_B1),
      Log ''debug'' ''raw challenge transaction has been sent to be signed and submitted'']
     @ WsSend (Challenge challenge_B1) # [] \<and>
   CommitMined (SoliditySha3 challenge_B1) \<in> set
     [Log ''info'' ''Received BlockProposed event'', SaveBlock ''B1'',
      StampNullifiers [''X''] ''B1'', RemoveTransactionsFromMemPool ''B1'',
      SaveTree 10 0 \<lparr>timber_root = ''c1'', frontier = [''c1''], timber_leafCount = 1\<rparr>,
      Log ''debug'' ''Saving tree with block number'', CheckBlock ''B1'',
      Log ''warn'' ''Block Checker - Block invalid'',
      Log ''debug'' ''returning raw transaction'', Log ''silly'' ''raw transaction is'',
      Log ''debug''
        ''raw transaction for committing to challenge has been sent to be signed and submitted'',
      SaveCommit (SoliditySha3 challenge_B1) challenge_B1,
      WsSend (Commit (CommitToChallenge (SoliditySha3 challenge_B1))),
      CommitMined (SoliditySha3 challenge_B1),
      Log ''debug'' ''raw challenge transaction has been sent to be signed and submitted'']"
proof -
  have wf: "commits_wf state0"
    by (simp add: commits_wf_def state0_def)
  have t: "trace (run (reject_with 2) toy_updateNodes
            [BlockProposed data_B1, CommittedToChallenge (SoliditySha3 challenge_B1)] state0) =
     trace state0 @
     [Log ''info'' ''Received BlockProposed event'', SaveBlock ''B1'',
      StampNullifiers [''X''] ''B1'', RemoveTransactionsFromMemPool ''B1'',
      SaveTree 10 0 \<lparr>timber_root = ''c1'', frontier = [''c1''], timber_leafCount = 1\<rparr>,
      Log ''debug'' ''Saving tree with block number'', CheckBlock ''B1'',
      Log ''warn'' ''Block Checker - Block invalid'',
      Log ''debug'' ''returning raw transaction'', Log ''silly'' ''raw transaction is'',
      Log ''debug''
        ''raw transaction for committing to challenge has been sent to be signed and submitted'',
      SaveCommit (SoliditySha3 challenge_B1) challenge_B1,
      WsSend (Commit (CommitToChallenge (SoliditySha3 challenge_B1))),
      CommitMined (SoliditySha3 challenge_B1),
      Log ''debug'' ''raw challenge transaction has been sent to be signed and submitted'']
     @ WsSend (Challenge challenge_B1) # []"
    by code_simp
  from reveal_only_after_confirmation[OF wf t] wf t show ?thesis by blast
qed

text \<open>
  C2, as amended. For every block-proposed event whose block fails the check with a
  \<^verbatim>\<open>BlockError\<close>, the block has been persisted before the check and stays persisted, and the
  error is handed to \<^verbatim>\<open>createChallenge\<close>, whose outcome is the outcome of the handler: the
  handler returns normally when challenge production is off and when the switch of
  \<^verbatim>\<open>createChallenge\<close> builds its transaction, and it throws what the switch throws. A failure
  that is not a \<^verbatim>\<open>BlockError\<close> is rethrown as a new \<^verbatim>\<open>Error\<close>; no salt is drawn, no commit is
  stored and nothing is sent for it.
\<close>

theorem invalid_block_is_persisted_and_challenged:
  assumes chk: "checkBlock (blockProposed_apply updateNodes data s) (ev_block data)
                  (ev_transactions data) = Some err"
  shows "getBlockByBlockHash (blockHash (ev_block data))
       (snd (blockProposedEventHandler checkBlock updateNodes data s)) =
     Some (block.extend (ev_block data)
             (stored_block.fields (Some (ev_blockNumber data)) (ev_transactionHash data))) \<and>
   (\<forall>code md. err = BlockError code md \<longrightarrow>
      blockProposedEventHandler checkBlock updateNodes data s =
        createChallenge (ev_block data) (ev_transactions data) code md
          (logger ''warn'' ''Block Checker - Block invalid''
             ((blockProposed_apply updateNodes data s)
                \<lparr>trace := trace (blockProposed_apply updateNodes data s) @
                            [CheckBlock (blockHash (ev_block data))]\<rparr>)) \<and>
      (\<not> makeChallenges s \<longrightarrow>
         fst (blockProposedEventHandler checkBlock updateNodes data s) = Inr ()) \<and>
      (makeChallenges s \<longrightarrow>
         fst (blockProposedEventHandler checkBlock updateNodes data s) =
           (case fst (createChallenge_switch (ev_block data) (ev_transactions data) code md
                        (rand_next s) (blockProposed_apply updateNodes data s)) of
              Inl e \<Rightarrow> Inl e | Inr p \<Rightarrow> Inr ()))) \<and>
   ((\<forall>code md. err \<noteq> BlockError code md) \<longrightarrow>
      fst (blockProposedEventHandler checkBlock updateNodes data s) = Inl (Error (toString err)) \<and>
      commits (snd (blockProposedEventHandler checkBlock updateNodes data s)) = commits s \<and>
      rand_next (snd (blockProposedEventHandler checkBlock updateNodes data s)) = rand_next s \<and>
      sent (trace (snd (blockProposedEventHandler checkBlock updateNodes data s))) = sent (trace s))"
proof (intro conjI allI impI)
  let ?a = "blockProposed_apply updateNodes data s"
  let ?s3 = "logger ''warn'' ''Block Checker - Block invalid''
               (?a\<lparr>trace := trace ?a @ [CheckBlock (blockHash (ev_block data))]\<rparr>)"
  have fr: "makeChallenges ?s3 = makeChallenges s" "rand_next ?s3 = rand_next s"
    "blocks ?s3 = blocks ?a" "transactions_db ?s3 = transactions_db ?a"
    "nullifiers_db ?s3 = nullifiers_db ?a" "trees ?s3 = trees ?a"
    by (simp_all add: logger_def blockProposed_apply_eq)
  show "getBlockByBlockHash (blockHash (ev_block data))
       (snd (blockProposedEventHandler checkBlock updateNodes data s)) =
     Some (block.extend (ev_block data)
             (stored_block.fields (Some (ev_blockNumber data)) (ev_transactionHash data)))"
    using apply_block_saved[of data updateNodes s] handler_store[of checkBlock updateNodes data s]
    by (simp add: getBlockByBlockHash_def)
  {
    fix code md assume e: "err = BlockError code md"
    show h: "blockProposedEventHandler checkBlock updateNodes data s =
        createChallenge (ev_block data) (ev_transactions data) code md ?s3"
      using chk e by (simp add: blockProposedEventHandler_def Let_def)
    {
      assume "\<not> makeChallenges s"
      then show "fst (blockProposedEventHandler checkBlock updateNodes data s) = Inr ()"
        using h fr by (simp add: createChallenge_off)
    }
    {
      assume "makeChallenges s"
      then have on: "makeChallenges ?s3" using fr by simp
      have "fst (createChallenge_switch (ev_block data) (ev_transactions data) code md (rand_next s) ?s3) =
            fst (createChallenge_switch (ev_block data) (ev_transactions data) code md (rand_next s) ?a)"
        using fr by (intro switch_reads) simp_all
      then show "fst (blockProposedEventHandler checkBlock updateNodes data s) =
           (case fst (createChallenge_switch (ev_block data) (ev_transactions data) code md
                        (rand_next s) ?a) of
              Inl e \<Rightarrow> Inl e | Inr p \<Rightarrow> Inr ())"
        using h createChallenge_outcome[OF on, of "ev_block data" "ev_transactions data" code md] fr
        by simp
    }
  }
  {
    assume ne: "\<forall>code md. err \<noteq> BlockError code md"
    then have h: "blockProposedEventHandler checkBlock updateNodes data s =
       (Inl (Error (toString err)),
        logger ''error'' (toString err)
          (?a\<lparr>trace := trace ?a @ [CheckBlock (blockHash (ev_block data))]\<rparr>))"
      using chk by (cases err) (simp_all add: blockProposedEventHandler_def Let_def)
    show "fst (blockProposedEventHandler checkBlock updateNodes data s) = Inl (Error (toString err))"
      using h by simp
    show "commits (snd (blockProposedEventHandler checkBlock updateNodes data s)) = commits s"
      using h by (simp add: logger_def blockProposed_apply_eq)
    show "rand_next (snd (blockProposedEventHandler checkBlock updateNodes data s)) = rand_next s"
      using h by (simp add: logger_def blockProposed_apply_eq)
    show "sent (trace (snd (blockProposedEventHandler checkBlock updateNodes data s))) = sent (trace s)"
      using h sent_apply[of updateNodes data s] by (simp add: logger_def sent_append)
  }
qed

text \<open>Block \<open>B1\<close> rejected with code 2 is persisted and the handler returns; a checker that
  throws a TypeError makes the handler throw a new Error; with challenges off the handler
  returns for the code-0 rejection as well.\<close>

theorem invalid_block_is_persisted_and_challenged_witness:
  "reject_with 2 (blockProposed_apply toy_updateNodes data_B1 state0) (ev_block data_B1)
     (ev_transactions data_B1) = Some (BlockError 2 metadata0) \<and>
   makeChallenges state0 \<and>
   fst (blockProposedEventHandler (reject_with 2) toy_updateNodes data_B1 state0) = Inr () \<and>
   getBlockByBlockHash ''B1''
     (snd (blockProposedEventHandler (reject_with 2) toy_updateNodes data_B1 state0)) =
     Some (block.extend block_B1 (stored_block.fields (Some 10) ''L1a'')) \<and>
   crash_with ''boom'' (blockProposed_apply toy_updateNodes data_B1 state0) (ev_block data_B1)
     (ev_transactions data_B1) = Some (TypeError ''boom'') \<and>
   fst (blockProposedEventHandler (crash_with ''boom'') toy_updateNodes data_B1 state0) =
     Inl (Error ''TypeError: boom'') \<and>
   reject_with 0 (blockProposed_apply toy_updateNodes data_B1 (stopMakingChallenges state0))
     (ev_block data_B1) (ev_transactions data_B1) = Some (BlockError 0 metadata0) \<and>
   \<not> makeChallenges (stopMakingChallenges state0) \<and>
   fst (blockProposedEventHandler (reject_with 0) toy_updateNodes data_B1
          (stopMakingChallenges state0)) = Inr ()"
proof -
  have c0: "reject_with 0 (blockProposed_apply toy_updateNodes data_B1 (stopMakingChallenges state0))
     (ev_block data_B1) (ev_transactions data_B1) = Some (BlockError 0 metadata0)"
    by (simp add: reject_with_def)
  have off: "\<not> makeChallenges (stopMakingChallenges state0)"
    by (simp add: stopMakingChallenges_def)
  have d: "fst (blockProposedEventHandler (reject_with 0) toy_updateNodes data_B1
                 (stopMakingChallenges state0)) = Inr ()"
    using invalid_block_is_persisted_and_challenged[of "reject_with 0" toy_updateNodes data_B1
        "stopMakingChallenges state0" "BlockError 0 metadata0", OF c0,
        THEN conjunct2, THEN conjunct1, rule_format, OF refl, THEN conjunct2, THEN conjunct1,
        rule_format, OF off] .
  have c2: "reject_with 2 (blockProposed_apply toy_updateNodes data_B1 state0) (ev_block data_B1)
     (ev_transactions data_B1) = Some (BlockError 2 metadata0)"
    by (simp add: reject_with_def)
  have on: "makeChallenges state0" by (simp add: state0_def)
  have sw: "fst (createChallenge_switch (ev_block data_B1) (ev_transactions data_B1) 2 metadata0
                   (rand_next state0) (blockProposed_apply toy_updateNodes data_B1 state0)) =
            Inr challenge_B1"
    by (simp add: createChallenge_switch_def createChallenge_case2_def challenge_B1_def
          data_B1_def metadata0_def state0_def)
  have cr: "crash_with ''boom'' (blockProposed_apply toy_updateNodes data_B1 state0) (ev_block data_B1)
     (ev_transactions data_B1) = Some (TypeError ''boom'')"
    by (simp add: crash_with_def)
  note th = invalid_block_is_persisted_and_challenged[of "reject_with 2" toy_updateNodes data_B1
      state0 "BlockError 2 metadata0", OF c2]
  have b: "getBlockByBlockHash (blockHash (ev_block data_B1))
       (snd (blockProposedEventHandler (reject_with 2) toy_updateNodes data_B1 state0)) =
     Some (block.extend (ev_block data_B1)
             (stored_block.fields (Some (ev_blockNumber data_B1)) (ev_transactionHash data_B1)))"
    using th by (rule conjunct1)
  have "fst (blockProposedEventHandler (reject_with 2) toy_updateNodes data_B1 state0) =
          (case fst (createChallenge_switch (ev_block data_B1) (ev_transactions data_B1) 2 metadata0
                       (rand_next state0) (blockProposed_apply toy_updateNodes data_B1 state0)) of
             Inl e \<Rightarrow> Inl e | Inr p \<Rightarrow> Inr ())"
    using th[THEN conjunct2, THEN conjunct1, rule_format, OF refl, THEN conjunct2, THEN conjunct2,
        rule_format, OF on] .
  then have a: "fst (blockProposedEventHandler (reject_with 2) toy_updateNodes data_B1 state0) = Inr ()"
    unfolding sw by simp
  have c: "fst (blockProposedEventHandler (crash_with ''boom'') toy_updateNodes data_B1 state0) =
     Inl (Error (toString (TypeError ''boom'')))"
    using invalid_block_is_persisted_and_challenged[of "crash_with ''boom''" toy_updateNodes data_B1
      state0 "TypeError ''boom''", OF cr]
    by simp
  show ?thesis using c2 on a b cr c c0 off d
    by (simp add: data_B1_def block_B1_def)
qed

text \<open>
  C2 as stated says that the handler returns without crashing for every \<^verbatim>\<open>BlockError\<close>. The
  first block, rejected with code 0 while challenges are on, has no prior block in the store,
  and the explicit \<^verbatim>\<open>throw new Error\<close> of case 0 leaves the handler through its \<^verbatim>\<open>catch\<close>.
\<close>

theorem invalid_block_handler_throws_counterexample:
  "reject_with 0 (blockProposed_apply toy_updateNodes data_B1 state0) block_B1 [tx_a] =
     Some (BlockError 0 metadata0) \<and>
   fst (blockProposedEventHandler (reject_with 0) toy_updateNodes data_B1 state0) =
     Inl (Error ''Could not find prior block with block number'')"
  by code_simp

text \<open>
  C3. For every \<open>Remove(blockHash)\<close> event the referenced block must exist, its absence being
  a fatal inconsistency; its layer-1 reference is set to null, every nullifier stamped by the
  block is unstamped, and the commitment tree is rolled back to the snapshot recorded
  immediately before the block's commitments were appended. In particular, removing a
  block right after the block-proposed handler has applied it restores the leaf count the
  tree had before the block, and the saved trees themselves when the block has a
  commitment. The removal handler is modelled from the specification.
\<close>

theorem removal_rolls_back:
  "(getBlockByBlockHash h s = None \<longrightarrow>
      removeBlockProposedEventHandler h s = (Inl FatalInconsistency, s)) \<and>
   (getBlockByBlockHash h s = Some b \<and> leafCountBefore (blockNumberL2 b) s = Some target \<and>
    getTreeSnapshotAtLeafCount target s \<noteq> None \<longrightarrow>
      fst (removeBlockProposedEventHandler h s) = Inr () \<and>
      blocks (snd (removeBlockProposedEventHandler h s)) =
        map (\<lambda>b'. if blockHash b' = h then b'\<lparr>blockNumber := None\<rparr> else b') (blocks s) \<and>
      nullifiers_db (snd (removeBlockProposedEventHandler h s)) =
        map (\<lambda>n. if stampedBlockHash n = Some h then n\<lparr>stampedBlockHash := None\<rparr> else n)
          (nullifiers_db s) \<and>
      (\<forall>b' \<in> set (blocks (snd (removeBlockProposedEventHandler h s))).
         blockHash b' = h \<longrightarrow> blockNumber b' = None) \<and>
      (\<forall>n \<in> set (nullifiers_db (snd (removeBlockProposedEventHandler h s))).
         stampedBlockHash n \<noteq> Some h) \<and>
      getTreeSnapshotAtLeafCount target s =
        Some (getLatestTree (snd (removeBlockProposedEventHandler h s))) \<and>
      timber_leafCount (getLatestTree (snd (removeBlockProposedEventHandler h s))) = target) \<and>
   fst (removeBlockProposedEventHandler (blockHash (ev_block data))
          (snd (blockProposedEventHandler checkBlock updateNodes data s))) = Inr () \<and>
   timber_leafCount (getLatestTree (snd (removeBlockProposedEventHandler (blockHash (ev_block data))
          (snd (blockProposedEventHandler checkBlock updateNodes data s))))) =
     timber_leafCount (getLatestTree s) \<and>
   (concat (map (\<lambda>t. filter (\<lambda>c. c \<noteq> ZERO) (commitments t)) (ev_transactions data)) \<noteq> [] \<longrightarrow>
      trees (snd (removeBlockProposedEventHandler (blockHash (ev_block data))
          (snd (blockProposedEventHandler checkBlock updateNodes data s)))) = trees s)"
proof -
  have 1: "getBlockByBlockHash h s = None \<longrightarrow>
      removeBlockProposedEventHandler h s = (Inl FatalInconsistency, s)"
    using remove_absent by blast
  have 2: "getBlockByBlockHash h s = Some b \<and> leafCountBefore (blockNumberL2 b) s = Some target \<and>
    getTreeSnapshotAtLeafCount target s \<noteq> None \<longrightarrow>
      fst (removeBlockProposedEventHandler h s) = Inr () \<and>
      blocks (snd (removeBlockProposedEventHandler h s)) =
        map (\<lambda>b'. if blockHash b' = h then b'\<lparr>blockNumber := None\<rparr> else b') (blocks s) \<and>
      nullifiers_db (snd (removeBlockProposedEventHandler h s)) =
        map (\<lambda>n. if stampedBlockHash n = Some h then n\<lparr>stampedBlockHash := None\<rparr> else n)
          (nullifiers_db s) \<and>
      (\<forall>b' \<in> set (blocks (snd (removeBlockProposedEventHandler h s))).
         blockHash b' = h \<longrightarrow> blockNumber b' = None) \<and>
      (\<forall>n \<in> set (nullifiers_db (snd (removeBlockProposedEventHandler h s))).
         stampedBlockHash n \<noteq> Some h) \<and>
      getTreeSnapshotAtLeafCount target s =
        Some (getLatestTree (snd (removeBlockProposedEventHandler h s))) \<and>
      timber_leafCount (getLatestTree (snd (removeBlockProposedEventHandler h s))) = target"
  proof
    assume a: "getBlockByBlockHash h s = Some b \<and> leafCountBefore (blockNumberL2 b) s = Some target \<and>
      getTreeSnapshotAtLeafCount target s \<noteq> None"
    then have a1: "getBlockByBlockHash h s = Some b"
      and a2: "leafCountBefore (blockNumberL2 b) s = Some target"
      and a3: "getTreeSnapshotAtLeafCount target s \<noteq> None" by simp_all
    note rp = remove_present[OF a1 a2 a3]
    have ok: "fst (removeBlockProposedEventHandler h s) = Inr ()"
      using rp by (rule conjunct1)
    have bl: "blocks (snd (removeBlockProposedEventHandler h s)) =
        map (\<lambda>b'. if blockHash b' = h then b'\<lparr>blockNumber := None\<rparr> else b') (blocks s)"
      using rp[THEN conjunct2] by (rule conjunct1)
    have nl: "nullifiers_db (snd (removeBlockProposedEventHandler h s)) =
        map (\<lambda>n. if stampedBlockHash n = Some h then n\<lparr>stampedBlockHash := None\<rparr> else n)
          (nullifiers_db s)"
      using rp[THEN conjunct2, THEN conjunct2] by (rule conjunct1)
    have sn: "getTreeSnapshotAtLeafCount target s =
        Some (getLatestTree (snd (removeBlockProposedEventHandler h s)))"
      using rp[THEN conjunct2, THEN conjunct2, THEN conjunct2] by (rule conjunct1)
    have lc: "timber_leafCount (getLatestTree (snd (removeBlockProposedEventHandler h s))) = target"
      using rp[THEN conjunct2, THEN conjunct2, THEN conjunct2, THEN conjunct2] by (rule conjunct1)
    have bn: "\<forall>b' \<in> set (blocks (snd (removeBlockProposedEventHandler h s))).
         blockHash b' = h \<longrightarrow> blockNumber b' = None"
      unfolding bl by (rule removed_blocks_null)
    have un: "\<forall>n \<in> set (nullifiers_db (snd (removeBlockProposedEventHandler h s))).
         stampedBlockHash n \<noteq> Some h"
      unfolding nl by (rule unstamped_nullifiers)
    show "fst (removeBlockProposedEventHandler h s) = Inr () \<and>
      blocks (snd (removeBlockProposedEventHandler h s)) =
        map (\<lambda>b'. if blockHash b' = h then b'\<lparr>blockNumber := None\<rparr> else b') (blocks s) \<and>
      nullifiers_db (snd (removeBlockProposedEventHandler h s)) =
        map (\<lambda>n. if stampedBlockHash n = Some h then n\<lparr>stampedBlockHash := None\<rparr> else n)
          (nullifiers_db s) \<and>
      (\<forall>b' \<in> set (blocks (snd (removeBlockProposedEventHandler h s))).
         blockHash b' = h \<longrightarrow> blockNumber b' = None) \<and>
      (\<forall>n \<in> set (nullifiers_db (snd (removeBlockProposedEventHandler h s))).
         stampedBlockHash n \<noteq> Some h) \<and>
      getTreeSnapshotAtLeafCount target s =
        Some (getLatestTree (snd (removeBlockProposedEventHandler h s))) \<and>
      timber_leafCount (getLatestTree (snd (removeBlockProposedEventHandler h s))) = target"
      by (intro conjI ok bl nl bn un sn lc)
  qed
  note 3 = insert_then_remove[of data checkBlock updateNodes s]
  show ?thesis by (rule conjI[OF 1 conjI[OF 2 3]])
qed

text \<open>After \<open>B1\<close> and \<open>B2\<close>, removing the unknown \<open>B3\<close> is fatal; removing \<open>B2\<close> unstamps \<open>Y\<close>
  and takes the leaf count from 3 back to 1.\<close>

theorem removal_rolls_back_witness:
  "getBlockByBlockHash ''B3'' state2 = None \<and>
   removeBlockProposedEventHandler ''B3'' state2 = (Inl FatalInconsistency, state2) \<and>
   getBlockByBlockHash ''B2'' state2 =
     Some (block.extend block_B2 (stored_block.fields (Some 11) ''L1b'')) \<and>
   leafCountBefore (blockNumberL2 (block.extend block_B2 (stored_block.fields (Some 11) ''L1b'')))
     state2 = Some 1 \<and>
   getTreeSnapshotAtLeafCount 1 state2 \<noteq> None \<and>
   timber_leafCount (getLatestTree state2) = 3 \<and>
   timber_leafCount (getLatestTree (snd (removeBlockProposedEventHandler ''B2'' state2))) = 1 \<and>
   nullifiers_db (snd (removeBlockProposedEventHandler ''B2'' state2)) =
     [\<lparr>hash = ''Y'', stampedBlockHash = None\<rparr>, \<lparr>hash = ''X'', stampedBlockHash = Some ''B1''\<rparr>] \<and>
   concat (map (\<lambda>t. filter (\<lambda>c. c \<noteq> ZERO) (commitments t)) (ev_transactions data_B2)) \<noteq> [] \<and>
   trees (snd (removeBlockProposedEventHandler (blockHash (ev_block data_B2))
          (snd (blockProposedEventHandler accept_all toy_updateNodes data_B2 state1)))) = trees state1"
proof -
  let ?sb = "block.extend block_B2 (stored_block.fields (Some 11) ''L1b'')"
  have a: "getBlockByBlockHash ''B3'' state2 = None" by code_simp
  have b: "getBlockByBlockHash ''B2'' state2 = Some ?sb" by code_simp
  have c: "leafCountBefore (blockNumberL2 ?sb) state2 = Some 1" by code_simp
  have d: "getTreeSnapshotAtLeafCount 1 state2 \<noteq> None" by code_simp
  have e: "timber_leafCount (getLatestTree state2) = 3" by code_simp
  have f: "concat (map (\<lambda>t. filter (\<lambda>c. c \<noteq> ZERO) (commitments t)) (ev_transactions data_B2)) \<noteq> []"
    by code_simp
  have n: "map (\<lambda>n. if stampedBlockHash n = Some ''B2'' then n\<lparr>stampedBlockHash := None\<rparr> else n)
          (nullifiers_db state2) =
     [\<lparr>hash = ''Y'', stampedBlockHash = None\<rparr>, \<lparr>hash = ''X'', stampedBlockHash = Some ''B1''\<rparr>]"
    by code_simp
  note t1 = removal_rolls_back[where h = "''B3''" and s = state2]
  note t2 = removal_rolls_back[where h = "''B2''" and s = state2 and b = ?sb and target = 1]
  note t3 = removal_rolls_back[where s = state1 and data = data_B2 and checkBlock = accept_all
      and updateNodes = toy_updateNodes]
  have r1: "removeBlockProposedEventHandler ''B3'' state2 = (Inl FatalInconsistency, state2)"
    using t1[THEN conjunct1] a by (rule mp)
  note c2 = mp[OF t2[THEN conjunct2, THEN conjunct1] conjI[OF b conjI[OF c d]]]
  have r2: "timber_leafCount (getLatestTree (snd (removeBlockProposedEventHandler ''B2'' state2))) = 1"
    using c2 by simp
  have "nullifiers_db (snd (removeBlockProposedEventHandler ''B2'' state2)) =
        map (\<lambda>n. if stampedBlockHash n = Some ''B2'' then n\<lparr>stampedBlockHash := None\<rparr> else n)
          (nullifiers_db state2)"
    using c2[THEN conjunct2, THEN conjunct2] by (rule conjunct1)
  then have r3: "nullifiers_db (snd (removeBlockProposedEventHandler ''B2'' state2)) =
     [\<lparr>hash = ''Y'', stampedBlockHash = None\<rparr>, \<lparr>hash = ''X'', stampedBlockHash = Some ''B1''\<rparr>]"
    unfolding n .
  have r4: "trees (snd (removeBlockProposedEventHandler (blockHash (ev_block data_B2))
          (snd (blockProposedEventHandler accept_all toy_updateNodes data_B2 state1)))) = trees state1"
    using t3[THEN conjunct2, THEN conjunct2, THEN conjunct2, THEN conjunct2] f by (rule mp)
  show ?thesis by (intro conjI a r1 b c d e r2 r3 f r4)
qed

text \<open>
  C4. Of two distinct live blocks that contain the same nullifier, the code-6 challenge built
  for the second must reference the first block as the competing block, never the block
  under evaluation. The code does otherwise at this input: \<open>B1\<close> is live and has spent \<open>X\<close>;
  \<open>B2\<close> spends the fresh \<open>Y\<close> and \<open>X\<close> again, and the store lists \<open>Y\<close> before \<open>X\<close>. The handler
  stamps \<open>Y\<close> with \<open>B2\<close> before the check, case 6 of \<^verbatim>\<open>createChallenge\<close> takes the first stamped
  nullifier of the block, which is \<open>Y\<close>, and the challenge names \<open>B2\<close> as the old block and
  \<open>Y\<close> as the duplicate in both.
\<close>

theorem duplicate_nullifier_challenge_names_the_block_itself:
  "checkDuplicateNullifier (blockProposed_apply toy_updateNodes data_B2 state1) block_B2
     [tx_y, tx_b] = Some (BlockError 6 metadata0) \<and>
   commits (snd (blockProposedEventHandler checkDuplicateNullifier toy_updateNodes data_B2 state1)) =
     [(SoliditySha3 (Some (ChallengeNullifier block_B2 [tx_y, tx_b] (Some 0) (Some 0)
                             block_B2 [tx_y, tx_b] (Some 0) (Some 0) 0)),
       Some (ChallengeNullifier block_B2 [tx_y, tx_b] (Some 0) (Some 0)
               block_B2 [tx_y, tx_b] (Some 0) (Some 0) 0))]"
  by code_simp

text \<open>
  C5, as amended. \<^verbatim>\<open>createChallenge\<close> keeps no record of the invalidities it has handled.
  Every delivery made while challenge production is on and the socket is open, for which the
  switch builds a transaction with the salt drawn for this delivery, appends the commit record
  of that transaction to the store and sends one commit message for it, whatever was
  delivered before.
\<close>

theorem each_delivery_commits:
  assumes "makeChallenges s" and "ws_readyState s = True # rs"
    and "fst (createChallenge_switch block transactions code md (rand_next s) s) = Inr (Some p)"
  shows "fst (createChallenge block transactions code md s) = Inr () \<and>
     commits (snd (createChallenge block transactions code md s)) =
       commits s @ [(SoliditySha3 (Some p), Some p)] \<and>
     sent (trace (snd (createChallenge block transactions code md s))) =
       sent (trace s) @ [Commit (CommitToChallenge (SoliditySha3 (Some p)))] \<and>
     rand_next (snd (createChallenge block transactions code md s)) = Suc (rand_next s)"
proof -
  obtain evs where l: "\<forall>e \<in> set evs. \<exists>l m. e = Log l m"
    and c: "createChallenge block transactions code md s =
       (case commitToChallenge (Some p) (s\<lparr>rand_next := Suc (rand_next s), trace := trace s @ evs\<rparr>) of
          (Inl e, s3) \<Rightarrow> (Inr (), s3\<lparr>unhandled := unhandled s3 @ [e]\<rparr>)
        | (Inr u, s3) \<Rightarrow> (Inr (), s3))"
    using createChallenge_builds[OF assms(1) assms(3)] by blast
  let ?s2 = "s\<lparr>rand_next := Suc (rand_next s), trace := trace s @ evs\<rparr>"
  have o: "ws_readyState ?s2 = True # rs" using assms(2) by simp
  have np: "Some p \<noteq> None" by simp
  from commitToChallenge_open[OF o np] c l
  show ?thesis by (simp add: sent_append sent_logs)
qed

text \<open>The first delivery of the code-2 invalidity of block \<open>B1\<close>.\<close>

theorem each_delivery_commits_witness:
  "makeChallenges state0 \<and> ws_readyState state0 = True # [True, True, True] \<and>
   fst (createChallenge_switch block_B1 [tx_a] 2 metadata0 (rand_next state0) state0) = Inr challenge_B1 \<and>
   commits (snd (createChallenge block_B1 [tx_a] 2 metadata0 state0)) =
     commits state0 @ [(SoliditySha3 challenge_B1, challenge_B1)]"
proof -
  have a: "makeChallenges state0" by (simp add: state0_def)
  have b: "ws_readyState state0 = True # [True, True, True]" by (simp add: state0_def)
  have c: "fst (createChallenge_switch block_B1 [tx_a] 2 metadata0 (rand_next state0) state0) =
             Inr (Some (ChallengeTransactionType block_B1 [tx_a] 0 0))"
    by (simp add: createChallenge_switch_def createChallenge_case2_def state0_def metadata0_def)
  from each_delivery_commits[OF a b c] a b c show ?thesis
    by (simp add: challenge_B1_def)
qed

text \<open>
  C5 as stated says that a second delivery of the same block hash and error code produces no
  further commit record and no further commit message. Delivering the code-2 invalidity of
  block \<open>B1\<close> twice leaves two commit records and two commit messages, salted differently.
\<close>

theorem redelivery_commits_again:
  "commits (snd (createChallenge block_B1 [tx_a] 2 metadata0
                   (snd (createChallenge block_B1 [tx_a] 2 metadata0 state0)))) =
     [(SoliditySha3 challenge_B1, challenge_B1),
      (SoliditySha3 challenge_B1_again, challenge_B1_again)] \<and>
   sent (trace (snd (createChallenge block_B1 [tx_a] 2 metadata0
                       (snd (createChallenge block_B1 [tx_a] 2 metadata0 state0))))) =
     [Commit (CommitToChallenge (SoliditySha3 challenge_B1)),
      Commit (CommitToChallenge (SoliditySha3 challenge_B1_again))]"
  by code_simp

text \<open>
  C6. For every commit send attempted while the channel is not open, the coordinator polls at
  a fixed interval up to a hard retry cap; when the cap is exceeded, only that challenge
  attempt is abandoned, the failure is logged as a \<open>ChannelUnavailableError\<close>, and the engine
  keeps running: exceeding the cap is never fatal to the engine.

  The code polls as the claim says: on a socket that is closed twice and then open,
  \<^verbatim>\<open>commitToChallenge\<close> waits 3000 ms and warns twice and then sends the commit. It does not
  treat the failure as the claim says. The code-2 invalidity of block \<open>B1\<close> is delivered with
  challenge production on and a socket that never opens: after the 102nd closed evaluation
  \<^verbatim>\<open>commitToChallenge\<close> throws the plain \<^verbatim>\<open>Error\<close> "Websocket to challenger has failed".
  \<^verbatim>\<open>createChallenge\<close> does not await the call and nothing catches its rejection: the handler of
  the block-proposed event and \<^verbatim>\<open>createChallenge\<close> return normally, the commit record stays
  in the store, nothing is sent, the trace ends with the 102nd polling warning, so no line
  logs the failure, and the error is left as the rejection of a promise that nobody handles.
\<close>

theorem cap_failure_is_unhandled_error:
  "commitToChallenge challenge_B1 state0_reconnecting =
     (Inr (),
      state0_reconnecting
        \<lparr>commits := [(SoliditySha3 challenge_B1, challenge_B1)],
         ws_readyState := [],
         trace :=
           [Log ''debug''
              ''raw transaction for committing to challenge has been sent to be signed and submitted'',
            SaveCommit (SoliditySha3 challenge_B1) challenge_B1] @ polls commit_warning 2 @
           [WsSend (Commit (CommitToChallenge (SoliditySha3 challenge_B1)))]\<rparr>) \<and>
   fst (commitToChallenge challenge_B1 state0_closed) =
     Inl (Error ''Websocket to challenger has failed'') \<and>
   fst (createChallenge block_B1 [tx_a] 2 metadata0 state0_closed) = Inr () \<and>
   unhandled (snd (createChallenge block_B1 [tx_a] 2 metadata0 state0_closed)) =
     [Error ''Websocket to challenger has failed''] \<and>
   commits (snd (createChallenge block_B1 [tx_a] 2 metadata0 state0_closed)) =
     [(SoliditySha3 challenge_B1, challenge_B1)] \<and>
   trace (snd (createChallenge block_B1 [tx_a] 2 metadata0 state0_closed)) =
     [Log ''debug'' ''returning raw transaction'', Log ''silly'' ''raw transaction is'',
      Log ''debug''
        ''raw transaction for committing to challenge has been sent to be signed and submitted'',
      SaveCommit (SoliditySha3 challenge_B1) challenge_B1] @ polls commit_warning 102 \<and>
   fst (blockProposedEventHandler (reject_with 2) toy_updateNodes data_B1 state0_closed) = Inr () \<and>
   unhandled (snd (blockProposedEventHandler (reject_with 2) toy_updateNodes data_B1 state0_closed)) =
     [Error ''Websocket to challenger has failed''] \<and>
   sent (trace (snd (blockProposedEventHandler (reject_with 2) toy_updateNodes data_B1
                       state0_closed))) = []"
proof -
  have some: "challenge_B1 \<noteq> None" by (simp add: challenge_B1_def)
  have rc: "ws_readyState state0_reconnecting = replicate (Suc (Suc 0)) False @ True # []"
    by (simp add: state0_reconnecting_def)
  have k: "Suc (Suc 0) \<le> 101" by simp
  have r1: "commitToChallenge challenge_B1 state0_reconnecting =
     (Inr (),
      state0_reconnecting
        \<lparr>commits := [(SoliditySha3 challenge_B1, challenge_B1)],
         ws_readyState := [],
         trace :=
           [Log ''debug''
              ''raw transaction for committing to challenge has been sent to be signed and submitted'',
            SaveCommit (SoliditySha3 challenge_B1) challenge_B1] @ polls commit_warning 2 @
           [WsSend (Commit (CommitToChallenge (SoliditySha3 challenge_B1)))]\<rparr>)"
    using commitToChallenge_opens[OF rc k some]
    by (simp add: state0_reconnecting_def state0_def numeral_2_eq_2)
  have c0: "True \<notin> set (take 102 (ws_readyState state0_closed))"
    by (simp add: state0_closed_def)
  have r2: "fst (commitToChallenge challenge_B1 state0_closed) =
     Inl (Error ''Websocket to challenger has failed'')"
    by (simp only: commitToChallenge_closed[OF c0 some] fst_conv)
  let ?s2 = "logger ''silly'' ''raw transaction is''
               (logger ''debug'' ''returning raw transaction''
                  (state0_closed\<lparr>rand_next := Suc (rand_next state0_closed)\<rparr>))"
  have closed: "True \<notin> set (take 102 (ws_readyState ?s2))"
    by (simp add: state0_closed_def state0_def logger_def)
  have on: "makeChallenges state0_closed"
    by (simp add: state0_closed_def state0_def)
  have sw: "createChallenge_switch block_B1 [tx_a] 2 metadata0 (rand_next state0_closed)
              (state0_closed\<lparr>rand_next := Suc (rand_next state0_closed)\<rparr>) = (Inr challenge_B1, ?s2)"
    by (simp add: createChallenge_switch_def createChallenge_case2_def challenge_B1_def
          metadata0_def state0_closed_def state0_def)
  have "createChallenge block_B1 [tx_a] 2 metadata0 state0_closed =
          (case commitToChallenge challenge_B1 ?s2 of
             (Inl e, s3) \<Rightarrow> (Inr (), s3\<lparr>unhandled := unhandled s3 @ [e]\<rparr>)
           | (Inr u, s3) \<Rightarrow> (Inr (), s3))"
    using on sw by (simp add: createChallenge_def rand_def)
  then have c: "createChallenge block_B1 [tx_a] 2 metadata0 state0_closed =
          (Inr (), ?s2\<lparr>commits := commits ?s2 @ [(SoliditySha3 challenge_B1, challenge_B1)],
             ws_readyState := drop 102 (ws_readyState ?s2),
             unhandled := unhandled ?s2 @ [Error ''Websocket to challenger has failed''],
             trace := trace ?s2 @
               [Log ''debug''
                  ''raw transaction for committing to challenge has been sent to be signed and submitted'',
                SaveCommit (SoliditySha3 challenge_B1) challenge_B1] @ polls commit_warning 102\<rparr>)"
    by (simp only: commitToChallenge_closed[OF closed some]) simp
  have r3: "fst (createChallenge block_B1 [tx_a] 2 metadata0 state0_closed) = Inr ()"
    unfolding c by simp
  have r4: "unhandled (snd (createChallenge block_B1 [tx_a] 2 metadata0 state0_closed)) =
     [Error ''Websocket to challenger has failed'']"
    unfolding c by (simp add: logger_def state0_closed_def state0_def)
  have r5: "commits (snd (createChallenge block_B1 [tx_a] 2 metadata0 state0_closed)) =
     [(SoliditySha3 challenge_B1, challenge_B1)]"
    unfolding c by (simp add: logger_def state0_closed_def state0_def)
  have r6: "trace (snd (createChallenge block_B1 [tx_a] 2 metadata0 state0_closed)) =
     [Log ''debug'' ''returning raw transaction'', Log ''silly'' ''raw transaction is'',
      Log ''debug''
        ''raw transaction for committing to challenge has been sent to be signed and submitted'',
      SaveCommit (SoliditySha3 challenge_B1) challenge_B1] @ polls commit_warning 102"
    unfolding c by (simp add: logger_def state0_closed_def state0_def)
  let ?a = "blockProposed_apply toy_updateNodes data_B1 state0_closed"
  let ?S = "logger ''warn'' ''Block Checker - Block invalid''
              (?a\<lparr>trace := trace ?a @ [CheckBlock (blockHash block_B1)]\<rparr>)"
  have h: "blockProposedEventHandler (reject_with 2) toy_updateNodes data_B1 state0_closed =
             createChallenge block_B1 [tx_a] 2 metadata0 ?S"
    by (simp add: blockProposedEventHandler_def Let_def reject_with_def data_B1_def)
  have f: "makeChallenges ?S" "ws_readyState ?S = []" "rand_next ?S = 0" "unhandled ?S = []"
    by (simp_all add: logger_def blockProposed_apply_eq state0_closed_def state0_def)
  have st: "sent (trace ?S) = []"
    by (simp add: logger_def sent_append sent_apply state0_closed_def state0_def)
  have hc: "True \<notin> set (take 102 (ws_readyState ?S))" using f(2) by simp
  have hs: "fst (createChallenge_switch block_B1 [tx_a] 2 metadata0 (rand_next ?S) ?S) =
              Inr (Some (ChallengeTransactionType block_B1 [tx_a] 0 0))"
    using f(3) by (simp add: createChallenge_switch_def createChallenge_case2_def metadata0_def)
  note hh = createChallenge_closed[OF f(1) hc hs]
  have r7: "fst (blockProposedEventHandler (reject_with 2) toy_updateNodes data_B1 state0_closed) =
              Inr ()"
    unfolding h using hh by (rule conjunct1)
  have r8: "unhandled (snd (blockProposedEventHandler (reject_with 2) toy_updateNodes data_B1
              state0_closed)) = [Error ''Websocket to challenger has failed'']"
    unfolding h using hh[THEN conjunct2, THEN conjunct2, THEN conjunct2] f(4) by simp
  have r9: "sent (trace (snd (blockProposedEventHandler (reject_with 2) toy_updateNodes data_B1
              state0_closed))) = []"
    unfolding h using hh[THEN conjunct2, THEN conjunct2, THEN conjunct1] st by simp
  show ?thesis by (intro conjI r1 r2 r3 r4 r5 r6 r7 r8 r9)
qed

text \<open>
  C7. For every challenge the coordinator starts, the record \<open>{commitHash \<rightarrow> payload}\<close> is
  persisted to the local store before any commit message is sent over the channel. Wherever
  a message is sent in the trace of \<^verbatim>\<open>commitToChallenge\<close>, and of \<^verbatim>\<open>createChallenge\<close> that starts
  it, the message is the commit of the payload's hash, the write of that hash and payload to
  the store comes earlier in the trace, and the store holds the record.
\<close>

theorem commit_persisted_before_send:
  "(trace (snd (commitToChallenge p s)) = trace s @ pre @ WsSend m # post \<longrightarrow>
      m = Commit (CommitToChallenge (SoliditySha3 p)) \<and>
      SaveCommit (SoliditySha3 p) p \<in> set pre \<and>
      (SoliditySha3 p, p) \<in> set (commits (snd (commitToChallenge p s)))) \<and>
   (trace (snd (createChallenge block transactions code md s)) = trace s @ pre @ WsSend m # post \<longrightarrow>
      (\<exists>q. m = Commit (CommitToChallenge (SoliditySha3 q)) \<and>
           SaveCommit (SoliditySha3 q) q \<in> set pre \<and>
           (SoliditySha3 q, q) \<in> set (commits (snd (createChallenge block transactions code md s)))))"
proof (intro conjI impI)
  assume a: "trace (snd (commitToChallenge p s)) = trace s @ pre @ WsSend m # post"
  from commit_send_position[OF a]
  show "m = Commit (CommitToChallenge (SoliditySha3 p))"
    and "SaveCommit (SoliditySha3 p) p \<in> set pre" by simp_all
  have some: "p \<noteq> None"
  proof
    assume "p = None"
    then show False using a by (simp add: commitToChallenge_undefined)
  qed
  obtain rs evs where
    "snd (commitToChallenge p s) =
       s\<lparr>commits := commits s @ [(SoliditySha3 p, p)], ws_readyState := rs, trace := evs\<rparr>"
    using commitToChallenge_effect[OF some, of s] by blast
  then show "(SoliditySha3 p, p) \<in> set (commits (snd (commitToChallenge p s)))" by simp
next
  assume a: "trace (snd (createChallenge block transactions code md s)) = trace s @ pre @ WsSend m # post"
  show "\<exists>q. m = Commit (CommitToChallenge (SoliditySha3 q)) \<and>
           SaveCommit (SoliditySha3 q) q \<in> set pre \<and>
           (SoliditySha3 q, q) \<in> set (commits (snd (createChallenge block transactions code md s)))"
  proof (cases "makeChallenges s")
    case False
    then have "trace (snd (createChallenge block transactions code md s)) =
       trace s @ [Log ''info'' ''Faulty block detected. Do not submit new blocks until the faulty blocks are removed'']"
      by (simp add: createChallenge_def logger_def)
    then have "pre @ WsSend m # post = [Log ''info'' ''Faulty block detected. Do not submit new blocks until the faulty blocks are removed'']"
      using a by simp
    then have "WsSend m \<in> set [Log ''info'' ''Faulty block detected. Do not submit new blocks until the faulty blocks are removed'']"
      by (metis in_set_conv_decomp)
    then show ?thesis by simp
  next
    case True
    let ?s1 = "s\<lparr>rand_next := Suc (rand_next s)\<rparr>"
    obtain r s2 where sw: "createChallenge_switch block transactions code md (rand_next s) ?s1 = (r, s2)"
      by (cases "createChallenge_switch block transactions code md (rand_next s) ?s1")
    obtain evs1 where s2: "s2 = ?s1\<lparr>trace := trace ?s1 @ evs1\<rparr>"
      and a1: "\<forall>e \<in> set evs1. \<exists>l m. e = Log l m"
      using switch_effect[of block transactions code md "rand_next s" ?s1] sw by auto
    have nf: "WsSend m \<notin> set evs1" using a1 by auto
    show ?thesis
    proof (cases r)
      case (Inl e)
      then have "snd (createChallenge block transactions code md s) = s2"
        using True sw by (simp add: createChallenge_def rand_def)
      then have "pre @ WsSend m # post = evs1" using a s2 by simp
      then have "WsSend m \<in> set evs1" by (metis in_set_conv_decomp)
      then show ?thesis using nf by blast
    next
      case (Inr q)
      obtain rc s3 where c: "commitToChallenge q s2 = (rc, s3)"
        by (cases "commitToChallenge q s2")
      have fin: "snd (createChallenge block transactions code md s) =
          (case rc of Inl e \<Rightarrow> s3\<lparr>unhandled := unhandled s3 @ [e]\<rparr> | Inr u \<Rightarrow> s3)"
        using True sw Inr c by (simp add: createChallenge_def rand_def split: sum.splits)
      then have t: "trace (snd (createChallenge block transactions code md s)) = trace s3"
        and cm: "commits (snd (createChallenge block transactions code md s)) = commits s3"
        by (simp_all split: sum.splits)
      have some: "q \<noteq> None"
      proof
        assume "q = None"
        then have "s3 = s2" using c by (simp add: commitToChallenge_undefined)
        then have "pre @ WsSend m # post = evs1" using a t s2 by simp
        then have "WsSend m \<in> set evs1" by (metis in_set_conv_decomp)
        then show False using nf by blast
      qed
      obtain rs evs where
        s3: "s3 = s2\<lparr>commits := commits s2 @ [(SoliditySha3 q, q)], ws_readyState := rs,
                 trace := trace s2 @ evs\<rparr>"
        using commitToChallenge_effect[OF some, of s2] c by auto
      then have "trace s @ pre @ WsSend m # post = trace s @ evs1 @ evs"
        using a t s2 by simp
      then have "evs1 @ evs = pre @ WsSend m # post" by simp
      from split_after_prefix[OF this nf] obtain pre' where
        p: "pre = evs1 @ pre'" and e: "evs = pre' @ WsSend m # post" by blast
      have "trace (snd (commitToChallenge q s2)) = trace s2 @ pre' @ WsSend m # post"
        using c s3 e by simp
      from commit_send_position[OF this]
      have "m = Commit (CommitToChallenge (SoliditySha3 q))" "SaveCommit (SoliditySha3 q) q \<in> set pre'"
        by simp_all
      moreover have "(SoliditySha3 q, q) \<in> set (commits (snd (createChallenge block transactions code md s)))"
        using cm s3 by simp
      ultimately show ?thesis using p by auto
    qed
  qed
qed

text \<open>The commit of the transaction-type challenge of block \<open>B1\<close> on the open socket, started
  directly and through \<^verbatim>\<open>createChallenge\<close>.\<close>

theorem commit_persisted_before_send_witness:
  "trace (snd (commitToChallenge challenge_B1 state0)) =
     trace state0 @
     [Log ''debug''
        ''raw transaction for committing to challenge has been sent to be signed and submitted'',
      SaveCommit (SoliditySha3 challenge_B1) challenge_B1]
     @ WsSend (Commit (CommitToChallenge (SoliditySha3 challenge_B1))) # [] \<and>
   (SoliditySha3 challenge_B1, challenge_B1)
     \<in> set (commits (snd (commitToChallenge challenge_B1 state0))) \<and>
   trace (snd (createChallenge block_B1 [tx_a] 2 metadata0 state0)) =
     trace state0 @
     [Log ''debug'' ''returning raw transaction'', Log ''silly'' ''raw transaction is'',
      Log ''debug''
        ''raw transaction for committing to challenge has been sent to be signed and submitted'',
      SaveCommit (SoliditySha3 challenge_B1) challenge_B1]
     @ WsSend (Commit (CommitToChallenge (SoliditySha3 challenge_B1))) # [] \<and>
   (SoliditySha3 challenge_B1, challenge_B1)
     \<in> set (commits (snd (createChallenge block_B1 [tx_a] 2 metadata0 state0)))"
proof -
  have h1: "trace (snd (commitToChallenge challenge_B1 state0)) =
     trace state0 @
     [Log ''debug''
        ''raw transaction for committing to challenge has been sent to be signed and submitted'',
      SaveCommit (SoliditySha3 challenge_B1) challenge_B1]
     @ WsSend (Commit (CommitToChallenge (SoliditySha3 challenge_B1))) # []"
    by code_simp
  have h2: "trace (snd (createChallenge block_B1 [tx_a] 2 metadata0 state0)) =
     trace state0 @
     [Log ''debug'' ''returning raw transaction'', Log ''silly'' ''raw transaction is'',
      Log ''debug''
        ''raw transaction for committing to challenge has been sent to be signed and submitted'',
      SaveCommit (SoliditySha3 challenge_B1) challenge_B1]
     @ WsSend (Commit (CommitToChallenge (SoliditySha3 challenge_B1))) # []"
    by code_simp
  note t1 = commit_persisted_before_send[where p = challenge_B1 and s = state0
      and pre = "[Log ''debug''
        ''raw transaction for committing to challenge has been sent to be signed and submitted'',
      SaveCommit (SoliditySha3 challenge_B1) challenge_B1]"
      and m = "Commit (CommitToChallenge (SoliditySha3 challenge_B1))" and post = "[]"]
  note t2 = commit_persisted_before_send[where s = state0 and block = block_B1
      and transactions = "[tx_a]" and code = 2 and md = metadata0
      and pre = "[Log ''debug'' ''returning raw transaction'', Log ''silly'' ''raw transaction is'',
      Log ''debug''
        ''raw transaction for committing to challenge has been sent to be signed and submitted'',
      SaveCommit (SoliditySha3 challenge_B1) challenge_B1]"
      and m = "Commit (CommitToChallenge (SoliditySha3 challenge_B1))" and post = "[]"]
  have r1: "(SoliditySha3 challenge_B1, challenge_B1)
     \<in> set (commits (snd (commitToChallenge challenge_B1 state0)))"
    using mp[OF t1[THEN conjunct1] h1] by simp
  from mp[OF t2[THEN conjunct2] h2] obtain q where
    "Commit (CommitToChallenge (SoliditySha3 challenge_B1)) = Commit (CommitToChallenge (SoliditySha3 q))"
    and "(SoliditySha3 q, q) \<in> set (commits (snd (createChallenge block_B1 [tx_a] 2 metadata0 state0)))"
    by blast
  then have r2: "(SoliditySha3 challenge_B1, challenge_B1)
     \<in> set (commits (snd (createChallenge block_B1 [tx_a] 2 metadata0 state0)))"
    by simp
  show ?thesis by (intro conjI h1 r1 h2 r2)
qed

text \<open>
  C8. For every block-proposed event the handler persists the block, stamps its nullifiers
  and saves the tree updated with its commitments strictly before it invokes the checker, so
  that the checker observes the values after the application; the checker itself never
  mutates the store, the tree or the ledger. The state the checker is given holds the block,
  the stamped nullifiers and the updated tree as the latest tree; the trace of the handler
  has the three writes before the call of the checker; the handler depends on the checker
  only through its verdict on that state; the blocks, nullifiers and trees after the
  handler are those the checker was given; and the verdict of the checker on that state
  decides what the handler does next: on a block found valid it logs that and returns, on a
  \<^verbatim>\<open>BlockError\<close> it logs a warning and hands the error to \<^verbatim>\<open>createChallenge\<close>, and on any other
  failure it logs the error and throws a new \<^verbatim>\<open>Error\<close>.
\<close>

theorem tentative_application_precedes_check:
  "getBlockByBlockHash (blockHash (ev_block data)) (blockProposed_apply updateNodes data s) =
     Some (block.extend (ev_block data)
             (stored_block.fields (Some (ev_blockNumber data)) (ev_transactionHash data))) \<and>
   nullifiers_db (blockProposed_apply updateNodes data s) =
     nullifiers_db (stampNullifiers
       (concat (map (\<lambda>tx. filter (\<lambda>nulls. nulls \<noteq> ZERO) (nullifiers tx)) (ev_transactions data)))
       (blockHash (ev_block data)) s) \<and>
   getLatestTree (blockProposed_apply updateNodes data s) =
     statelessUpdate updateNodes (getLatestTree s)
       (concat (map (\<lambda>t. filter (\<lambda>c. c \<noteq> ZERO) (commitments t)) (ev_transactions data))) \<and>
   (\<exists>rest. trace (snd (blockProposedEventHandler checkBlock updateNodes data s)) =
      trace s @
      [Log ''info'' ''Received BlockProposed event'',
       SaveBlock (blockHash (ev_block data)),
       StampNullifiers
         (concat (map (\<lambda>tx. filter (\<lambda>nulls. nulls \<noteq> ZERO) (nullifiers tx)) (ev_transactions data)))
         (blockHash (ev_block data)),
       RemoveTransactionsFromMemPool (blockHash (ev_block data)),
       SaveTree (ev_blockNumber data) (blockNumberL2 (ev_block data))
         (statelessUpdate updateNodes (getLatestTree s)
            (concat (map (\<lambda>t. filter (\<lambda>c. c \<noteq> ZERO) (commitments t)) (ev_transactions data)))),
       Log ''debug'' ''Saving tree with block number'',
       CheckBlock (blockHash (ev_block data))] @ rest \<and>
      (\<forall>e \<in> set rest. (\<exists>l m. e = Log l m) \<or> (\<exists>h p. e = SaveCommit h p) \<or>
         e = SetTimeout 3000 \<or> (\<exists>c. e = WsSend (Commit c)))) \<and>
   (checkBlock (blockProposed_apply updateNodes data s) (ev_block data) (ev_transactions data) =
    checkBlock' (blockProposed_apply updateNodes data s) (ev_block data) (ev_transactions data) \<longrightarrow>
      blockProposedEventHandler checkBlock updateNodes data s =
      blockProposedEventHandler checkBlock' updateNodes data s) \<and>
   blocks (snd (blockProposedEventHandler checkBlock updateNodes data s)) =
     blocks (blockProposed_apply updateNodes data s) \<and>
   nullifiers_db (snd (blockProposedEventHandler checkBlock updateNodes data s)) =
     nullifiers_db (blockProposed_apply updateNodes data s) \<and>
   trees (snd (blockProposedEventHandler checkBlock updateNodes data s)) =
     trees (blockProposed_apply updateNodes data s) \<and>
   (checkBlock (blockProposed_apply updateNodes data s) (ev_block data) (ev_transactions data) = None \<longrightarrow>
      blockProposedEventHandler checkBlock updateNodes data s =
        (Inr (),
         logger ''info'' ''Block Checker - Block was valid''
           ((blockProposed_apply updateNodes data s)
              \<lparr>trace := trace (blockProposed_apply updateNodes data s) @
                          [CheckBlock (blockHash (ev_block data))]\<rparr>))) \<and>
   (checkBlock (blockProposed_apply updateNodes data s) (ev_block data) (ev_transactions data) =
      Some (BlockError code md) \<longrightarrow>
      blockProposedEventHandler checkBlock updateNodes data s =
        createChallenge (ev_block data) (ev_transactions data) code md
          (logger ''warn'' ''Block Checker - Block invalid''
             ((blockProposed_apply updateNodes data s)
                \<lparr>trace := trace (blockProposed_apply updateNodes data s) @
                            [CheckBlock (blockHash (ev_block data))]\<rparr>))) \<and>
   (checkBlock (blockProposed_apply updateNodes data s) (ev_block data) (ev_transactions data) =
      Some err \<and> (\<forall>c m. err \<noteq> BlockError c m) \<longrightarrow>
      blockProposedEventHandler checkBlock updateNodes data s =
        (Inl (Error (toString err)),
         logger ''error'' (toString err)
           ((blockProposed_apply updateNodes data s)
              \<lparr>trace := trace (blockProposed_apply updateNodes data s) @
                          [CheckBlock (blockHash (ev_block data))]\<rparr>)))"
proof (intro conjI impI)
  show "getBlockByBlockHash (blockHash (ev_block data)) (blockProposed_apply updateNodes data s) =
     Some (block.extend (ev_block data)
             (stored_block.fields (Some (ev_blockNumber data)) (ev_transactionHash data)))"
    by (rule apply_block_saved)
  show "nullifiers_db (blockProposed_apply updateNodes data s) =
     nullifiers_db (stampNullifiers
       (concat (map (\<lambda>tx. filter (\<lambda>nulls. nulls \<noteq> ZERO) (nullifiers tx)) (ev_transactions data)))
       (blockHash (ev_block data)) s)"
    by (simp add: blockProposed_apply_eq)
  show "getLatestTree (blockProposed_apply updateNodes data s) =
     statelessUpdate updateNodes (getLatestTree s)
       (concat (map (\<lambda>t. filter (\<lambda>c. c \<noteq> ZERO) (commitments t)) (ev_transactions data)))"
    by (simp add: blockProposed_apply_eq getLatestTree_def)
  obtain cs rs rn uh evs where
    h: "snd (blockProposedEventHandler checkBlock updateNodes data s) =
       (blockProposed_apply updateNodes data s)
         \<lparr>commits := commits s @ cs, ws_readyState := rs, rand_next := rn, unhandled := uh,
          trace := trace (blockProposed_apply updateNodes data s) @
                     CheckBlock (blockHash (ev_block data)) # evs\<rparr>"
    and ev: "\<forall>e \<in> set evs. (\<exists>l m. e = Log l m) \<or> (\<exists>h p. e = SaveCommit h p)
            \<or> e = SetTimeout 3000 \<or> (\<exists>c. e = WsSend (Commit c))"
    using handler_effect[of checkBlock updateNodes data s] by blast
  have "trace (snd (blockProposedEventHandler checkBlock updateNodes data s)) =
      trace s @
      [Log ''info'' ''Received BlockProposed event'',
       SaveBlock (blockHash (ev_block data)),
       StampNullifiers
         (concat (map (\<lambda>tx. filter (\<lambda>nulls. nulls \<noteq> ZERO) (nullifiers tx)) (ev_transactions data)))
         (blockHash (ev_block data)),
       RemoveTransactionsFromMemPool (blockHash (ev_block data)),
       SaveTree (ev_blockNumber data) (blockNumberL2 (ev_block data))
         (statelessUpdate updateNodes (getLatestTree s)
            (concat (map (\<lambda>t. filter (\<lambda>c. c \<noteq> ZERO) (commitments t)) (ev_transactions data)))),
       Log ''debug'' ''Saving tree with block number'',
       CheckBlock (blockHash (ev_block data))] @ evs"
    using h by (simp add: apply_trace)
  then show "\<exists>rest. trace (snd (blockProposedEventHandler checkBlock updateNodes data s)) =
      trace s @
      [Log ''info'' ''Received BlockProposed event'',
       SaveBlock (blockHash (ev_block data)),
       StampNullifiers
         (concat (map (\<lambda>tx. filter (\<lambda>nulls. nulls \<noteq> ZERO) (nullifiers tx)) (ev_transactions data)))
         (blockHash (ev_block data)),
       RemoveTransactionsFromMemPool (blockHash (ev_block data)),
       SaveTree (ev_blockNumber data) (blockNumberL2 (ev_block data))
         (statelessUpdate updateNodes (getLatestTree s)
            (concat (map (\<lambda>t. filter (\<lambda>c. c \<noteq> ZERO) (commitments t)) (ev_transactions data)))),
       Log ''debug'' ''Saving tree with block number'',
       CheckBlock (blockHash (ev_block data))] @ rest \<and>
      (\<forall>e \<in> set rest. (\<exists>l m. e = Log l m) \<or> (\<exists>h p. e = SaveCommit h p) \<or>
         e = SetTimeout 3000 \<or> (\<exists>c. e = WsSend (Commit c)))"
    using ev by blast
  show "blocks (snd (blockProposedEventHandler checkBlock updateNodes data s)) =
     blocks (blockProposed_apply updateNodes data s)"
    and "nullifiers_db (snd (blockProposedEventHandler checkBlock updateNodes data s)) =
     nullifiers_db (blockProposed_apply updateNodes data s)"
    and "trees (snd (blockProposedEventHandler checkBlock updateNodes data s)) =
     trees (blockProposed_apply updateNodes data s)"
    using handler_store[of checkBlock updateNodes data s] by simp_all
next
  assume "checkBlock (blockProposed_apply updateNodes data s) (ev_block data) (ev_transactions data) =
    checkBlock' (blockProposed_apply updateNodes data s) (ev_block data) (ev_transactions data)"
  then show "blockProposedEventHandler checkBlock updateNodes data s =
      blockProposedEventHandler checkBlock' updateNodes data s"
    by (rule handler_depends_on_verdict)
next
  assume "checkBlock (blockProposed_apply updateNodes data s) (ev_block data) (ev_transactions data) = None"
  then show "blockProposedEventHandler checkBlock updateNodes data s =
        (Inr (),
         logger ''info'' ''Block Checker - Block was valid''
           ((blockProposed_apply updateNodes data s)
              \<lparr>trace := trace (blockProposed_apply updateNodes data s) @
                          [CheckBlock (blockHash (ev_block data))]\<rparr>))"
    by (simp add: blockProposedEventHandler_def Let_def)
next
  assume "checkBlock (blockProposed_apply updateNodes data s) (ev_block data) (ev_transactions data) =
      Some (BlockError code md)"
  then show "blockProposedEventHandler checkBlock updateNodes data s =
        createChallenge (ev_block data) (ev_transactions data) code md
          (logger ''warn'' ''Block Checker - Block invalid''
             ((blockProposed_apply updateNodes data s)
                \<lparr>trace := trace (blockProposed_apply updateNodes data s) @
                            [CheckBlock (blockHash (ev_block data))]\<rparr>))"
    by (simp add: blockProposedEventHandler_def Let_def)
next
  assume a: "checkBlock (blockProposed_apply updateNodes data s) (ev_block data) (ev_transactions data) =
      Some err \<and> (\<forall>c m. err \<noteq> BlockError c m)"
  then show "blockProposedEventHandler checkBlock updateNodes data s =
        (Inl (Error (toString err)),
         logger ''error'' (toString err)
           ((blockProposed_apply updateNodes data s)
              \<lparr>trace := trace (blockProposed_apply updateNodes data s) @
                          [CheckBlock (blockHash (ev_block data))]\<rparr>))"
    by (cases err) (simp_all add: blockProposedEventHandler_def Let_def)
qed

text \<open>
  Block \<open>B1\<close> at the start of the process, under four checkers. The leaf-count checker
  rejects the block on the state before the application and accepts it on the state it is
  given, and the handler reports the block valid and sends nothing; the checker that throws
  the \<^verbatim>\<open>BlockError\<close> of code 2 makes the handler store and send the commit of the
  transaction-type challenge; the checker that throws a \<^verbatim>\<open>TypeError\<close> makes the handler throw;
  and two checkers that agree on the block after its application give the same handler.
\<close>

theorem tentative_application_precedes_check_witness:
  "accept_all (blockProposed_apply toy_updateNodes data_B1 state0) (ev_block data_B1)
     (ev_transactions data_B1) =
   checkDuplicateNullifier (blockProposed_apply toy_updateNodes data_B1 state0) (ev_block data_B1)
     (ev_transactions data_B1) \<and>
   blockProposedEventHandler accept_all toy_updateNodes data_B1 state0 =
   blockProposedEventHandler checkDuplicateNullifier toy_updateNodes data_B1 state0 \<and>
   getLatestTree (blockProposed_apply toy_updateNodes data_B1 state0) =
     \<lparr>timber_root = ''c1'', frontier = [''c1''], timber_leafCount = 1\<rparr> \<and>
   checkLeafCount state0 (ev_block data_B1) (ev_transactions data_B1) =
     Some (BlockError 7 metadata0) \<and>
   checkLeafCount (blockProposed_apply toy_updateNodes data_B1 state0) (ev_block data_B1)
     (ev_transactions data_B1) = None \<and>
   fst (blockProposedEventHandler checkLeafCount toy_updateNodes data_B1 state0) = Inr () \<and>
   last (trace (snd (blockProposedEventHandler checkLeafCount toy_updateNodes data_B1 state0))) =
     Log ''info'' ''Block Checker - Block was valid'' \<and>
   commits (snd (blockProposedEventHandler checkLeafCount toy_updateNodes data_B1 state0)) = [] \<and>
   reject_with 2 (blockProposed_apply toy_updateNodes data_B1 state0) (ev_block data_B1)
     (ev_transactions data_B1) = Some (BlockError 2 metadata0) \<and>
   fst (blockProposedEventHandler (reject_with 2) toy_updateNodes data_B1 state0) = Inr () \<and>
   commits (snd (blockProposedEventHandler (reject_with 2) toy_updateNodes data_B1 state0)) =
     [(SoliditySha3 challenge_B1, challenge_B1)] \<and>
   sent (trace (snd (blockProposedEventHandler (reject_with 2) toy_updateNodes data_B1 state0))) =
     [Commit (CommitToChallenge (SoliditySha3 challenge_B1))] \<and>
   crash_with ''boom'' (blockProposed_apply toy_updateNodes data_B1 state0) (ev_block data_B1)
     (ev_transactions data_B1) = Some (TypeError ''boom'') \<and>
   fst (blockProposedEventHandler (crash_with ''boom'') toy_updateNodes data_B1 state0) =
     Inl (Error ''TypeError: boom'')"
proof -
  let ?a = "blockProposed_apply toy_updateNodes data_B1 state0"
  let ?c = "?a\<lparr>trace := trace ?a @ [CheckBlock (blockHash (ev_block data_B1))]\<rparr>"
  have v: "accept_all ?a (ev_block data_B1) (ev_transactions data_B1) =
           checkDuplicateNullifier ?a (ev_block data_B1) (ev_transactions data_B1)"
    by code_simp
  have t: "statelessUpdate toy_updateNodes (getLatestTree state0)
       (concat (map (\<lambda>t. filter (\<lambda>c. c \<noteq> ZERO) (commitments t)) (ev_transactions data_B1))) =
     \<lparr>timber_root = ''c1'', frontier = [''c1''], timber_leafCount = 1\<rparr>"
    by code_simp
  note th = tentative_application_precedes_check[of data_B1 toy_updateNodes state0 accept_all
      checkDuplicateNullifier]
  have r1: "blockProposedEventHandler accept_all toy_updateNodes data_B1 state0 =
        blockProposedEventHandler checkDuplicateNullifier toy_updateNodes data_B1 state0"
    using th v by blast
  have r2: "getLatestTree ?a = \<lparr>timber_root = ''c1'', frontier = [''c1''], timber_leafCount = 1\<rparr>"
    using th t by simp
  note tl = tentative_application_precedes_check[where data = data_B1
      and updateNodes = toy_updateNodes and s = state0 and checkBlock = checkLeafCount]
  have l0: "checkLeafCount state0 (ev_block data_B1) (ev_transactions data_B1) =
              Some (BlockError 7 metadata0)"
    by code_simp
  have l1: "checkLeafCount ?a (ev_block data_B1) (ev_transactions data_B1) = None"
    by code_simp
  note hl = mp[OF tl[THEN conjunct2, THEN conjunct2, THEN conjunct2, THEN conjunct2, THEN conjunct2, THEN conjunct2, THEN conjunct2, THEN conjunct2, THEN conjunct1] l1]
  have r3: "fst (blockProposedEventHandler checkLeafCount toy_updateNodes data_B1 state0) = Inr ()"
    unfolding hl by simp
  have r4: "last (trace (snd (blockProposedEventHandler checkLeafCount toy_updateNodes data_B1
                                state0))) = Log ''info'' ''Block Checker - Block was valid''"
    unfolding hl by (simp add: logger_def)
  have r5: "commits (snd (blockProposedEventHandler checkLeafCount toy_updateNodes data_B1 state0)) = []"
    unfolding hl by (simp add: logger_def blockProposed_apply_eq state0_def)
  note tr = tentative_application_precedes_check[where data = data_B1
      and updateNodes = toy_updateNodes and s = state0 and checkBlock = "reject_with 2"
      and code = 2 and md = metadata0]
  have j1: "reject_with 2 ?a (ev_block data_B1) (ev_transactions data_B1) =
              Some (BlockError 2 metadata0)"
    by (simp add: reject_with_def)
  note hr = mp[OF tr[THEN conjunct2, THEN conjunct2, THEN conjunct2, THEN conjunct2, THEN conjunct2, THEN conjunct2, THEN conjunct2, THEN conjunct2, THEN conjunct2, THEN conjunct1] j1]
  have r6: "fst (blockProposedEventHandler (reject_with 2) toy_updateNodes data_B1 state0) = Inr ()"
    unfolding hr by code_simp
  have r7: "commits (snd (blockProposedEventHandler (reject_with 2) toy_updateNodes data_B1 state0)) =
     [(SoliditySha3 challenge_B1, challenge_B1)]"
    unfolding hr by code_simp
  have r8: "sent (trace (snd (blockProposedEventHandler (reject_with 2) toy_updateNodes data_B1
                                state0))) = [Commit (CommitToChallenge (SoliditySha3 challenge_B1))]"
    unfolding hr by code_simp
  note tc = tentative_application_precedes_check[where data = data_B1
      and updateNodes = toy_updateNodes and s = state0 and checkBlock = "crash_with ''boom''"
      and err = "TypeError ''boom''"]
  have k1: "crash_with ''boom'' ?a (ev_block data_B1) (ev_transactions data_B1) =
              Some (TypeError ''boom'')"
    by (simp add: crash_with_def)
  have k2: "\<forall>c m. TypeError ''boom'' \<noteq> BlockError c m" by simp
  note hc = mp[OF tc[THEN conjunct2, THEN conjunct2, THEN conjunct2, THEN conjunct2, THEN conjunct2, THEN conjunct2, THEN conjunct2, THEN conjunct2, THEN conjunct2, THEN conjunct2] conjI[OF k1 k2]]
  have r9: "fst (blockProposedEventHandler (crash_with ''boom'') toy_updateNodes data_B1 state0) =
     Inl (Error ''TypeError: boom'')"
    unfolding hc by simp
  show ?thesis by (intro conjI v r1 r2 l0 l1 r3 r4 r5 j1 r6 r7 r8 k1 r9)
qed

text \<open>
  C9. Toggling challenge production off suppresses only challenges not yet started. While the
  flag is off, \<^verbatim>\<open>createChallenge\<close> only writes a log line: no salt is drawn, no commit is built,
  stored or sent. \<^verbatim>\<open>commitToChallenge\<close> and \<^verbatim>\<open>revealChallenge\<close> do not read the flag: with
  either value of it they return the same result and make the same changes, and after
  \<^verbatim>\<open>stopMakingChallenges\<close> a reveal on an open socket is sent.
\<close>

theorem toggle_gates_new_challenges_only:
  "(\<not> makeChallenges s \<longrightarrow>
      createChallenge block transactions code md s =
        (Inr (), logger ''info''
           ''Faulty block detected. Do not submit new blocks until the faulty blocks are removed'' s)) \<and>
   commitToChallenge p (s\<lparr>makeChallenges := b\<rparr>) =
     (fst (commitToChallenge p s), (snd (commitToChallenge p s))\<lparr>makeChallenges := b\<rparr>) \<and>
   revealChallenge p (s\<lparr>makeChallenges := b\<rparr>) =
     (fst (revealChallenge p s), (snd (revealChallenge p s))\<lparr>makeChallenges := b\<rparr>) \<and>
   (ws_readyState s = True # rs \<longrightarrow>
      fst (revealChallenge p (stopMakingChallenges s)) = Inr () \<and>
      sent (trace (snd (revealChallenge p (stopMakingChallenges s)))) = sent (trace s) @ [Challenge p])"
proof (intro conjI impI)
  assume "\<not> makeChallenges s"
  then show "createChallenge block transactions code md s =
        (Inr (), logger ''info''
           ''Faulty block detected. Do not submit new blocks until the faulty blocks are removed'' s)"
    by (rule createChallenge_off)
next
  show "commitToChallenge p (s\<lparr>makeChallenges := b\<rparr>) =
     (fst (commitToChallenge p s), (snd (commitToChallenge p s))\<lparr>makeChallenges := b\<rparr>)"
    by (rule commitToChallenge_flag)
next
  show "revealChallenge p (s\<lparr>makeChallenges := b\<rparr>) =
     (fst (revealChallenge p s), (snd (revealChallenge p s))\<lparr>makeChallenges := b\<rparr>)"
    by (rule revealChallenge_flag)
next
  assume o: "ws_readyState s = True # rs"
  then have "ws_readyState (stopMakingChallenges s) = True # rs"
    by (simp add: stopMakingChallenges_def logger_def)
  from revealChallenge_open[OF this, of p]
  have r: "fst (revealChallenge p (stopMakingChallenges s)) = Inr () \<and>
      sent (trace (snd (revealChallenge p (stopMakingChallenges s)))) = sent (trace s) @ [Challenge p]"
    by (simp add: stopMakingChallenges_def logger_def sent_append)
  from r show "fst (revealChallenge p (stopMakingChallenges s)) = Inr ()" by simp
  from r show "sent (trace (snd (revealChallenge p (stopMakingChallenges s)))) = sent (trace s) @ [Challenge p]"
    by simp
qed

text \<open>After the toggle, the code-2 invalidity of \<open>B1\<close> starts nothing, and a reveal is sent.\<close>

theorem toggle_gates_new_challenges_only_witness:
  "\<not> makeChallenges (stopMakingChallenges state0) \<and>
   commits (snd (createChallenge block_B1 [tx_a] 2 metadata0 (stopMakingChallenges state0))) = [] \<and>
   sent (trace (snd (createChallenge block_B1 [tx_a] 2 metadata0 (stopMakingChallenges state0)))) = [] \<and>
   ws_readyState state0 = True # [True, True, True] \<and>
   sent (trace (snd (revealChallenge challenge_B1 (stopMakingChallenges state0)))) = [Challenge challenge_B1]"
proof -
  have off: "\<not> makeChallenges (stopMakingChallenges state0)"
    by (simp add: stopMakingChallenges_def)
  have o: "ws_readyState state0 = True # [True, True, True]"
    by (simp add: state0_def)
  from toggle_gates_new_challenges_only[of "stopMakingChallenges state0" block_B1 "[tx_a]" 2 metadata0]
    off
  have c: "createChallenge block_B1 [tx_a] 2 metadata0 (stopMakingChallenges state0) =
        (Inr (), logger ''info''
           ''Faulty block detected. Do not submit new blocks until the faulty blocks are removed''
           (stopMakingChallenges state0))"
    by blast
  from toggle_gates_new_challenges_only[of state0 block_B1 "[tx_a]" 2 metadata0 challenge_B1 False
      "[True, True, True]"] o
  have r: "sent (trace (snd (revealChallenge challenge_B1 (stopMakingChallenges state0)))) =
             sent (trace state0) @ [Challenge challenge_B1]"
    by blast
  show ?thesis using off o c r
    by (simp add: logger_def stopMakingChallenges_def state0_def)
qed

text \<open>
  C10, as amended. With challenge production on, \<^verbatim>\<open>createChallenge\<close> with a code-0 error
  throws the \<^verbatim>\<open>Error\<close> "Could not find prior block" when the block one position earlier is
  not in the store, and it throws a TypeError, from setting \<^verbatim>\<open>root\<close> on \<^verbatim>\<open>null\<close>, when that
  block is in the store and the lookup of the block two positions earlier returns null. In
  both cases no commit is stored and nothing is sent: whenever the lookup two positions
  earlier returns null, the fallback to the zero root does not produce a challenge. For a
  block whose layer-2 number is less than 2, in a store without negative block numbers, that
  lookup returns null.
\<close>

theorem incorrect_root_challenge_without_history:
  assumes on: "makeChallenges s"
  shows "(getBlockByBlockNumberL2 (blockNumberL2 block - 1) s = None \<longrightarrow>
      fst (createChallenge block transactions 0 md s) =
        Inl (Error ''Could not find prior block with block number'')) \<and>
   (getBlockByBlockNumberL2 (blockNumberL2 block - 1) s \<noteq> None \<and>
    getBlockByBlockNumberL2 (blockNumberL2 block - 2) s = None \<longrightarrow>
      fst (createChallenge block transactions 0 md s) =
        Inl (TypeError ''Cannot set properties of null (setting root)'')) \<and>
   (getBlockByBlockNumberL2 (blockNumberL2 block - 2) s = None \<longrightarrow>
      commits (snd (createChallenge block transactions 0 md s)) = commits s \<and>
      sent (trace (snd (createChallenge block transactions 0 md s))) = sent (trace s)) \<and>
   (blockNumberL2 block < 2 \<and> (\<forall>b \<in> set (blocks s). 0 \<le> blockNumberL2 b) \<longrightarrow>
      getBlockByBlockNumberL2 (blockNumberL2 block - 2) s = None)"
proof (intro conjI impI)
  assume "getBlockByBlockNumberL2 (blockNumberL2 block - 1) s = None"
  then have "fst (createChallenge_switch block transactions 0 md (rand_next s) s) =
           Inl (Error ''Could not find prior block with block number'')"
    by (simp add: switch_code0 createChallenge_case0_def)
  then show "fst (createChallenge block transactions 0 md s) =
        Inl (Error ''Could not find prior block with block number'')"
    using createChallenge_throws[OF on] by blast
next
  assume "getBlockByBlockNumberL2 (blockNumberL2 block - 1) s \<noteq> None \<and>
    getBlockByBlockNumberL2 (blockNumberL2 block - 2) s = None"
  then have "fst (createChallenge_switch block transactions 0 md (rand_next s) s) =
           Inl (TypeError ''Cannot set properties of null (setting root)'')"
    by (auto simp: switch_code0 createChallenge_case0_def Let_def)
  then show "fst (createChallenge block transactions 0 md s) =
        Inl (TypeError ''Cannot set properties of null (setting root)'')"
    using createChallenge_throws[OF on] by blast
next
  assume n: "getBlockByBlockNumberL2 (blockNumberL2 block - 2) s = None"
  then obtain e where "fst (createChallenge_switch block transactions 0 md (rand_next s) s) = Inl e"
    by (cases "getBlockByBlockNumberL2 (blockNumberL2 block - 1) s")
       (simp_all add: switch_code0 createChallenge_case0_def Let_def)
  from createChallenge_throws[OF on this]
  show "commits (snd (createChallenge block transactions 0 md s)) = commits s"
    and "sent (trace (snd (createChallenge block transactions 0 md s))) = sent (trace s)"
    by simp_all
next
  assume a: "blockNumberL2 block < 2 \<and> (\<forall>b \<in> set (blocks s). 0 \<le> blockNumberL2 b)"
  show "getBlockByBlockNumberL2 (blockNumberL2 block - 2) s = None"
    unfolding getBlockByBlockNumberL2_def find_None_iff using a by auto
qed

text \<open>Block \<open>B1\<close>, with number 0, in the empty store: the guard's Error. Block \<open>B2\<close>, with
  number 1, after \<open>B1\<close> has been accepted: the TypeError.\<close>

theorem incorrect_root_challenge_without_history_witness:
  "makeChallenges state0 \<and>
   getBlockByBlockNumberL2 (blockNumberL2 block_B1 - 1) state0 = None \<and>
   fst (createChallenge block_B1 [tx_a] 0 metadata0 state0) =
     Inl (Error ''Could not find prior block with block number'') \<and>
   makeChallenges state1 \<and>
   getBlockByBlockNumberL2 (blockNumberL2 block_B2 - 1) state1 \<noteq> None \<and>
   getBlockByBlockNumberL2 (blockNumberL2 block_B2 - 2) state1 = None \<and>
   blockNumberL2 block_B2 < 2 \<and>
   fst (createChallenge block_B2 [tx_y, tx_b] 0 metadata0 state1) =
     Inl (TypeError ''Cannot set properties of null (setting root)'') \<and>
   commits (snd (createChallenge block_B2 [tx_y, tx_b] 0 metadata0 state1)) = commits state1"
proof -
  have on0: "makeChallenges state0" by (simp add: state0_def)
  have p0: "getBlockByBlockNumberL2 (blockNumberL2 block_B1 - 1) state0 = None"
    by (simp add: state0_def getBlockByBlockNumberL2_def)
  have on: "makeChallenges state1" by (simp add: state1_eq)
  have p1: "getBlockByBlockNumberL2 (blockNumberL2 block_B2 - 1) state1 \<noteq> None"
    by (simp add: state1_eq getBlockByBlockNumberL2_def block_B2_def block_B1_def block.defs)
  have p2: "getBlockByBlockNumberL2 (blockNumberL2 block_B2 - 2) state1 = None"
    by (simp add: state1_eq getBlockByBlockNumberL2_def block_B2_def block_B1_def block.defs)
  have lt: "blockNumberL2 block_B2 < 2" by (simp add: block_B2_def)
  note t0 = incorrect_root_challenge_without_history[OF on0, where block = block_B1
      and transactions = "[tx_a]" and md = metadata0]
  note t1 = incorrect_root_challenge_without_history[OF on, where block = block_B2
      and transactions = "[tx_y, tx_b]" and md = metadata0]
  have r0: "fst (createChallenge block_B1 [tx_a] 0 metadata0 state0) =
     Inl (Error ''Could not find prior block with block number'')"
    using mp[OF t0[THEN conjunct1] p0] .
  have r1: "fst (createChallenge block_B2 [tx_y, tx_b] 0 metadata0 state1) =
     Inl (TypeError ''Cannot set properties of null (setting root)'')"
    using mp[OF t1[THEN conjunct2, THEN conjunct1] conjI[OF p1 p2]] .
  have r2: "commits (snd (createChallenge block_B2 [tx_y, tx_b] 0 metadata0 state1)) = commits state1"
    using mp[OF t1[THEN conjunct2, THEN conjunct2, THEN conjunct1] p2] by (rule conjunct1)
  show ?thesis by (intro conjI on0 p0 r0 on p1 p2 lt r1 r2)
qed

text \<open>
  C10 as stated says that a code-0 error for a block with a layer-2 number below 2 ends in the
  TypeError of the null assignment. For the block with number 0 the prior block is missing,
  and the guard before that assignment throws its \<^verbatim>\<open>Error\<close> first.
\<close>

theorem incorrect_root_on_first_block_counterexample:
  "blockNumberL2 block_B1 < 2 \<and> makeChallenges state0 \<and>
   fst (createChallenge block_B1 [tx_a] 0 metadata0 state0) =
     Inl (Error ''Could not find prior block with block number'')"
  by code_simp

end
